theory Spec2Isabelle
  imports Complex_Main
begin

section \<open>Filesystem, environment and effects\<close>

text \<open>
  The converter is a TypeScript program whose work is done by calls into the
  file system (fs-extra), the path and mime-types modules, and third-party
  codecs (sharp, Jimp, mammoth, pdf-parse, marked, turndown, docx, puppeteer)
  and child processes. None of these is code of the repository. The file
  system is modelled as a state: a map from paths to file contents and a set
  of directories, together with a trace of the I/O actions performed so far,
  oldest first. Every other library is a field of the record \<open>env\<close>; a
  library call that may throw returns \<open>Inl message\<close>.
  A JavaScript string and a file's bytes are both a \<open>string\<close>; numbers are
  rationals; an optional field is an \<open>option\<close>. File timestamps are not
  modelled.
\<close>

type_synonym path = string
type_synonym bytes = string

datatype event =
    FsPathExists path
  | FsEnsureDir path
  | FsStat path
  | FsReadFile path
  | FsWriteFile path
  | FsReaddir path
  | FsMkdtemp path
  | SpawnProc string "string list"
  | SharpToFile path path
  | SharpMetadata path
  | JimpRead path
  | JimpWrite path
  | BrowserLaunch
  | PagePdf path
  | BrowserClose

record fs_state =
  files :: "path \<rightharpoonup> bytes"
  dirs :: "path set"
  trace :: "event list"

type_synonym 'a io = "fs_state \<Rightarrow> (string + 'a) \<times> fs_state"

definition io_return :: "'a \<Rightarrow> 'a io" where
  "io_return a s = (Inr a, s)"

definition io_throw :: "string \<Rightarrow> 'a io" where
  "io_throw e s = (Inl e, s)"

definition io_bind :: "'a io \<Rightarrow> ('a \<Rightarrow> 'b io) \<Rightarrow> 'b io" where
  "io_bind m f s = (case m s of (Inl e, s') \<Rightarrow> (Inl e, s') | (Inr a, s') \<Rightarrow> f a s')"

definition io_catch :: "'a io \<Rightarrow> (string \<Rightarrow> 'a io) \<Rightarrow> 'a io" where
  "io_catch m h s = (case m s of (Inl e, s') \<Rightarrow> h e s' | (Inr a, s') \<Rightarrow> (Inr a, s'))"

definition io_finally :: "'a io \<Rightarrow> unit io \<Rightarrow> 'a io" where
  "io_finally m c s =
     (case m s of (r, s') \<Rightarrow>
        (case c s' of (Inl e, s'') \<Rightarrow> (Inl e, s'') | (Inr u, s'') \<Rightarrow> (r, s'')))"

definition log :: "event \<Rightarrow> fs_state \<Rightarrow> fs_state" where
  "log ev s = s\<lparr>trace := trace s @ [ev]\<rparr>"

datatype proc_exit = SpawnError | Closed int

record pdf_info =
  Title :: "string option"
  Author :: "string option"

record pdf_data =
  pd_text :: string
  numpages :: nat
  pd_info :: "pdf_info option"

record mammoth_html =
  mh_value :: string
  messages :: "string list"

datatype background = BgString string | BgRGBA nat nat nat nat

datatype composite_input =
    TextSvg rat string rat string
  | ImageFile string

datatype sharp_op =
    Resize "rat option" "rat option" string background
  | Blur rat
  | Sharpen rat
  | Modulate "rat option" "rat option" "rat option"
  | Grayscale
  | Negate
  | Jpeg rat bool
  | Png rat bool
  | Webp rat bool rat
  | Avif rat bool rat
  | Tiff rat
  | Composite composite_input string

record sharp_pipeline =
  sp_input :: path
  sp_density :: "rat option"
  sp_ops :: "sharp_op list"

datatype jimp_op =
    JResize rat rat
  | JBlur rat
  | JBrightness rat
  | JContrast rat
  | JGreyscale
  | JSepia
  | JInvert
  | JQuality rat

record sharp_meta =
  sm_width :: "rat option"
  sm_height :: "rat option"
  sm_channels :: "rat option"
  sm_density :: "rat option"
  sm_hasAlpha :: "bool option"
  sm_space :: "string option"

record pdf_call =
  pc_path :: path
  pc_format :: string
  pc_landscape :: bool
  pc_printBackground :: bool
  pc_margin_top :: string
  pc_margin_right :: string
  pc_margin_bottom :: string
  pc_margin_left :: string
  pc_scale :: "rat option"
  pc_displayHeaderFooter :: bool
  pc_headerTemplate :: "string option"
  pc_footerTemplate :: "string option"

datatype docx_paragraph = EmptyParagraph | TextParagraph string

text \<open>
  The environment: everything the program asks of its platform and libraries.
  \<open>run_process\<close> is a child process: it may change the file system in any
  way and ends with an exit code or fails to start.
\<close>

record env =
  platform :: string
  tmpdir :: path
  cwd :: path
  base64 :: "bytes \<Rightarrow> string"
  path_extname :: "path \<Rightarrow> string"
  path_dirname :: "path \<Rightarrow> path"
  path_basename :: "path \<Rightarrow> string \<Rightarrow> string"
  path_join :: "path \<Rightarrow> string \<Rightarrow> path"
  mime_lookup :: "path \<Rightarrow> string option"
  dir_size :: "path \<Rightarrow> nat"
  readdir_names :: "fs_state \<Rightarrow> path \<Rightarrow> string + string list"
  mkdtemp_name :: "fs_state \<Rightarrow> path \<Rightarrow> path"
  run_process :: "string \<Rightarrow> string list \<Rightarrow> fs_state \<Rightarrow> proc_exit \<times> fs_state"
  pdfParse :: "bytes \<Rightarrow> string + pdf_data"
  mammoth_convertToHtml :: "bytes \<Rightarrow> string + mammoth_html"
  mammoth_extractRawText :: "bytes \<Rightarrow> string + string"
  turndown :: "string \<Rightarrow> string + string"
  marked :: "string \<Rightarrow> string + string"
  utf8_decode :: "bytes \<Rightarrow> string"
  utf8_encode :: "string \<Rightarrow> bytes"
  packer_toBuffer :: "docx_paragraph list \<Rightarrow> string + bytes"
  browser_launch :: "string option"
  browser_newPage :: "string option"
  page_render :: "string \<Rightarrow> pdf_call \<Rightarrow> string + bytes"
  sharp_check :: "sharp_op \<Rightarrow> string option"
  sharp_encode :: "bytes option \<Rightarrow> rat option \<Rightarrow> sharp_op list \<Rightarrow> path \<Rightarrow> string + bytes"
  sharp_metadata :: "bytes option \<Rightarrow> string + sharp_meta"
  jimp_decode :: "bytes option \<Rightarrow> string + rat \<times> rat"
  jimp_check :: "jimp_op \<Rightarrow> string option"
  jimp_encode :: "bytes option \<Rightarrow> jimp_op list \<Rightarrow> path \<Rightarrow> string + bytes"

subsection \<open>fs-extra\<close>

text \<open>
  The calls of fs-extra fail as the operating system makes them fail on the
  files and directories of the state; a failed call leaves both as they were.
  Permissions, quotas and the names a platform forbids are not modelled. The
  messages are those of Node.js.

  \<open>ancestors E p\<close> is the path \<open>p\<close> followed by its parent, the parent of that
  and so on up to the path that is its own parent (a root, or the current
  directory). The parent that \<open>path.dirname\<close> gives is never longer than the
  path, so the chain has at most \<open>length p + 1\<close> members.
\<close>

definition quoted :: "string \<Rightarrow> string" where
  "quoted p = [CHR 0x27] @ p @ [CHR 0x27]"

fun chain :: "(path \<Rightarrow> path) \<Rightarrow> nat \<Rightarrow> path \<Rightarrow> path list" where
  "chain parent 0 p = [p]"
| "chain parent (Suc n) p = (if parent p = p then [p] else p # chain parent n (parent p))"

definition ancestors :: "env \<Rightarrow> path \<Rightarrow> path list" where
  "ancestors E p = chain (path_dirname E) (length p) p"

definition pathExists :: "path \<Rightarrow> bool io" where
  "pathExists p s = (Inr (files s p \<noteq> None \<or> p \<in> dirs s), log (FsPathExists p) s)"

text \<open>
  \<open>ensureDir\<close> is \<open>mkdir\<close> with the option \<open>recursive\<close>: it creates the
  directory and every missing ancestor, and fails when the path or one of its
  ancestors is a regular file.
\<close>

definition mkdir_error :: "env \<Rightarrow> path \<Rightarrow> fs_state \<Rightarrow> string option" where
  "mkdir_error E p s =
     (if p = [] then Some (''ENOENT: no such file or directory, mkdir '' @ quoted p)
      else if files s p \<noteq> None then Some (''EEXIST: file already exists, mkdir '' @ quoted p)
      else if list_ex (\<lambda>q. files s q \<noteq> None) (ancestors E p)
      then Some (''ENOTDIR: not a directory, mkdir '' @ quoted p)
      else None)"

definition mkdir_p :: "env \<Rightarrow> path \<Rightarrow> fs_state \<Rightarrow> fs_state" where
  "mkdir_p E p s = s\<lparr>dirs := dirs s \<union> set (ancestors E p)\<rparr>"

definition ensureDir :: "env \<Rightarrow> path \<Rightarrow> unit io" where
  "ensureDir E p s =
     (case mkdir_error E p s of
        Some e \<Rightarrow> (Inl e, log (FsEnsureDir p) s)
      | None \<Rightarrow> (Inr (), log (FsEnsureDir p) (mkdir_p E p s)))"

definition stat_size :: "env \<Rightarrow> path \<Rightarrow> nat io" where
  "stat_size E p s =
     (case files s p of
        Some c \<Rightarrow> (Inr (length c), log (FsStat p) s)
      | None \<Rightarrow>
          if p \<in> dirs s then (Inr (dir_size E p), log (FsStat p) s)
          else (Inl (''ENOENT: no such file or directory, stat '' @ quoted p),
                log (FsStat p) s))"

definition readFile :: "path \<Rightarrow> bytes io" where
  "readFile p s =
     (case files s p of
        Some c \<Rightarrow> (Inr c, log (FsReadFile p) s)
      | None \<Rightarrow>
          if p \<in> dirs s
          then (Inl ''EISDIR: illegal operation on a directory, read'', log (FsReadFile p) s)
          else (Inl (''ENOENT: no such file or directory, open '' @ quoted p),
                log (FsReadFile p) s))"

text \<open>
  A file is created or overwritten by \<open>writeFile\<close> and by the libraries that
  save their output (\<open>create_file\<close>, with the event to record). This fails on
  a directory, and when the parent of the path is a regular file or is
  missing.
\<close>

definition write_error :: "env \<Rightarrow> path \<Rightarrow> fs_state \<Rightarrow> string option" where
  "write_error E p s =
     (if p \<in> dirs s
      then Some (''EISDIR: illegal operation on a directory, open '' @ quoted p)
      else if files s (path_dirname E p) \<noteq> None
      then Some (''ENOTDIR: not a directory, open '' @ quoted p)
      else if path_dirname E p \<notin> dirs s
      then Some (''ENOENT: no such file or directory, open '' @ quoted p)
      else None)"

definition create_file :: "env \<Rightarrow> event \<Rightarrow> path \<Rightarrow> bytes \<Rightarrow> unit io" where
  "create_file E ev p c s =
     (case write_error E p s of
        Some e \<Rightarrow> (Inl e, log ev s)
      | None \<Rightarrow> (Inr (), log ev (s\<lparr>files := (files s)(p \<mapsto> c)\<rparr>)))"

definition writeFile :: "env \<Rightarrow> path \<Rightarrow> bytes \<Rightarrow> unit io" where
  "writeFile E p c = create_file E (FsWriteFile p) p c"

definition readdir :: "env \<Rightarrow> path \<Rightarrow> string list io" where
  "readdir E p s = (readdir_names E s p, log (FsReaddir p) s)"

text \<open>
  \<open>mkdtemp\<close> creates a directory with a fresh name that starts with the given
  prefix; the parent must exist.
\<close>

definition mkdtemp :: "env \<Rightarrow> path \<Rightarrow> path io" where
  "mkdtemp E pre s =
     (let d = mkdtemp_name E s pre
      in if path_dirname E d \<in> dirs s
         then (Inr d, log (FsMkdtemp d) (s\<lparr>dirs := insert d (dirs s)\<rparr>))
         else (Inl (''ENOENT: no such file or directory, mkdtemp '' @ quoted (pre @ ''XXXXXX'')),
               log (FsMkdtemp d) s))"

text \<open>
  A child process changes files and directories as it likes; the trace is the
  converter's own record and gets one entry for the spawn.
\<close>

definition spawn :: "env \<Rightarrow> string \<Rightarrow> string list \<Rightarrow> fs_state \<Rightarrow> proc_exit \<times> fs_state" where
  "spawn E cmd args s =
     (case run_process E cmd args s of
        (r, s') \<Rightarrow> (r, s'\<lparr>trace := trace s @ [SpawnProc cmd args]\<rparr>))"

subsection \<open>JavaScript strings and truthiness\<close>

definition lower_char :: "char \<Rightarrow> char" where
  "lower_char c =
     (case map_of (zip ''ABCDEFGHIJKLMNOPQRSTUVWXYZ'' ''abcdefghijklmnopqrstuvwxyz'') c of
        Some d \<Rightarrow> d
      | None \<Rightarrow> c)"

definition toLowerCase :: "string \<Rightarrow> string" where
  "toLowerCase s = map lower_char s"

definition startsWith :: "string \<Rightarrow> string \<Rightarrow> bool" where
  "startsWith s p = (take (length p) s = p)"

fun str_includes :: "string \<Rightarrow> string \<Rightarrow> bool" where
  "str_includes [] sub = (sub = [])"
| "str_includes (c # cs) sub = (startsWith (c # cs) sub \<or> str_includes cs sub)"

definition truthy_num :: "rat option \<Rightarrow> bool" where
  "truthy_num x = (case x of None \<Rightarrow> False | Some v \<Rightarrow> v \<noteq> 0)"

definition truthy_str :: "string option \<Rightarrow> bool" where
  "truthy_str x = (case x of None \<Rightarrow> False | Some v \<Rightarrow> v \<noteq> [])"

definition truthy_bool :: "bool option \<Rightarrow> bool" where
  "truthy_bool x = (case x of None \<Rightarrow> False | Some v \<Rightarrow> v)"

definition num_or :: "rat option \<Rightarrow> rat \<Rightarrow> rat" where
  "num_or x d = (case x of None \<Rightarrow> d | Some v \<Rightarrow> if v \<noteq> 0 then v else d)"

definition str_or :: "string option \<Rightarrow> string \<Rightarrow> string" where
  "str_or x d = (case x of None \<Rightarrow> d | Some v \<Rightarrow> if v \<noteq> [] then v else d)"

definition nl :: string where
  "nl = [CHR 0x0A]"

definition dq :: string where
  "dq = [CHR 0x22]"

definition crlf :: string where
  "crlf = [CHR 0x0D, CHR 0x0A]"

definition sq :: string where
  "sq = [CHR 0x27]"

section \<open>Options and results\<close>

record watermark_options =
  wm_text :: "string option"
  wm_image :: "string option"
  wm_position :: "string option"
  wm_opacity :: "rat option"
  wm_fontSize :: "rat option"
  wm_color :: "string option"

record effects_options =
  blur :: "rat option"
  sharpen :: "rat option"
  brightness :: "rat option"
  contrast :: "rat option"
  saturation :: "rat option"
  hue :: "rat option"
  grayscale :: "bool option"
  sepia :: "bool option"
  invert :: "bool option"

record ImageConversionOptions =
  quality :: "rat option"
  width :: "rat option"
  height :: "rat option"
  fit :: "string option"
  background :: "string option"
  progressive :: "bool option"
  lossless :: "bool option"
  effort :: "rat option"
  watermark :: "watermark_options option"
  effects :: "effects_options option"

record margin_options =
  top :: "string option"
  right :: "string option"
  bottom :: "string option"
  left :: "string option"

record pdf_options_rec =
  format :: "string option"
  landscape :: "bool option"
  printBackground :: "bool option"
  scale :: "rat option"
  margin :: "margin_options option"
  header :: "string option"
  footer :: "string option"
  prefer_chinese_fonts :: "bool option"

record ConversionOptions =
  preserve_formatting :: "bool option"
  extract_images :: "bool option"
  image_output_dir :: "string option"
  image_options :: "ImageConversionOptions option"
  pdf_options :: "pdf_options_rec option"

text \<open>
  JavaScript numbers that can be infinite or undefined: the compression ratio
  divides by the size of the input file, which may be zero.
\<close>

datatype jsnum = Num rat | PosInfinity | NegInfinity | NaN

record result_base =
  success :: bool
  output_path :: string
  message :: string

record image_metadata =
  im_original_size :: "nat option"
  im_new_size :: "nat option"
  im_compression_ratio :: "jsnum option"

record ImageConversionResult = result_base +
  original_size :: "nat option"
  new_size :: "nat option"
  compression_ratio :: "jsnum option"

record ConversionResult = result_base +
  metadata :: "image_metadata option"

datatype content_metadata = PdfInfo "pdf_info option" | MammothMessages "string list"

record content =
  c_text :: string
  c_html :: "string option"
  c_metadata :: "content_metadata option"

record DocumentInfo =
  di_format :: string
  di_size :: nat
  pages :: "int option"
  title :: "string option"
  author :: "string option"

definition empty_image_options :: ImageConversionOptions where
  "empty_image_options =
     \<lparr>quality = None, width = None, height = None, fit = None, background = None,
      progressive = None, lossless = None, effort = None, watermark = None, effects = None\<rparr>"

definition empty_options :: ConversionOptions where
  "empty_options =
     \<lparr>preserve_formatting = None, extract_images = None, image_output_dir = None,
      image_options = None, pdf_options = None\<rparr>"

definition io_lift :: "string + 'a \<Rightarrow> 'a io" where
  "io_lift r s = (r, s)"

definition is_ascii :: "string \<Rightarrow> bool" where
  "is_ascii t = (\<forall>c \<in> set t. (of_char c :: nat) < 128)"

text \<open>
  \<open>buffer.toString('utf-8')\<close> and writing a string as UTF-8: on ASCII bytes both
  are the identity; what they do to other bytes is the decoder's business.
\<close>

definition toString_utf8 :: "env \<Rightarrow> bytes \<Rightarrow> string" where
  "toString_utf8 E b = (if is_ascii b then b else utf8_decode E b)"

definition encode_utf8 :: "env \<Rightarrow> string \<Rightarrow> bytes" where
  "encode_utf8 E t = (if is_ascii t then t else utf8_encode E t)"

section \<open>image-converter.ts\<close>

definition detectImageFormat :: "env \<Rightarrow> path \<Rightarrow> string" where
  "detectImageFormat E filePath =
     (let ext = toLowerCase (path_extname E filePath);
          mimeType = mime_lookup E filePath
      in if ext = ''.jpg'' \<or> ext = ''.jpeg'' then ''jpeg''
         else if ext = ''.png'' then ''png''
         else if ext = ''.webp'' then ''webp''
         else if ext = ''.avif'' then ''avif''
         else if ext = ''.tiff'' \<or> ext = ''.tif'' then ''tiff''
         else if ext = ''.gif'' then ''gif''
         else if ext = ''.bmp'' then ''bmp''
         else if ext = ''.svg'' then ''svg''
         else if ext = ''.heic'' then ''heic''
         else if ext = ''.heif'' then ''heif''
         else (case mimeType of
                 None \<Rightarrow> ''unknown''
               | Some m \<Rightarrow>
                   if m \<noteq> [] \<and> startsWith m ''image/''
                   then takeWhile (\<lambda>c. c \<noteq> CHR ''/'') (drop 6 m)
                   else ''unknown''))"

text \<open>
  A sharp pipeline is built by method calls, each of which may reject its
  arguments at once; nothing is decoded or encoded before \<open>toFile\<close>. The
  model keeps the calls in the order they were made.
\<close>

definition sharp :: "path \<Rightarrow> rat option \<Rightarrow> sharp_pipeline" where
  "sharp inputPath density = \<lparr>sp_input = inputPath, sp_density = density, sp_ops = []\<rparr>"

definition sharp_call :: "env \<Rightarrow> sharp_op \<Rightarrow> sharp_pipeline \<Rightarrow> sharp_pipeline io" where
  "sharp_call E opr pl =
     (case sharp_check E opr of
        Some e \<Rightarrow> io_throw e
      | None \<Rightarrow> io_return (pl\<lparr>sp_ops := sp_ops pl @ [opr]\<rparr>))"

definition toFile :: "env \<Rightarrow> sharp_pipeline \<Rightarrow> path \<Rightarrow> unit io" where
  "toFile E pl outputPath s =
     (case sharp_encode E (files s (sp_input pl)) (sp_density pl) (sp_ops pl) outputPath of
        Inl e \<Rightarrow> (Inl e, log (SharpToFile (sp_input pl) outputPath) s)
      | Inr b \<Rightarrow> create_file E (SharpToFile (sp_input pl) outputPath) outputPath b s)"

definition io_when :: "bool \<Rightarrow> ('a \<Rightarrow> 'a io) \<Rightarrow> 'a \<Rightarrow> 'a io" where
  "io_when c f x = (if c then f x else io_return x)"

definition getWatermarkGravity :: "string \<Rightarrow> string" where
  "getWatermarkGravity position =
     (if position = ''top-left'' then ''northwest''
      else if position = ''top-right'' then ''northeast''
      else if position = ''bottom-left'' then ''southwest''
      else if position = ''bottom-right'' then ''southeast''
      else if position = ''center'' then ''center''
      else ''southeast'')"

definition addWatermark :: "env \<Rightarrow> sharp_pipeline \<Rightarrow> watermark_options \<Rightarrow> sharp_pipeline io" where
  "addWatermark E pipeline wm =
     (if truthy_str (wm_text wm) then
        (let fontSize = num_or (wm_fontSize wm) 24;
             color = str_or (wm_color wm) ''rgba(255, 255, 255, 0.8)'';
             opacity = num_or (wm_opacity wm) (8 / 10);
             gravity = getWatermarkGravity (str_or (wm_position wm) ''bottom-right'')
         in sharp_call E (Composite (TextSvg fontSize color opacity (the (wm_text wm))) gravity)
              pipeline)
      else if truthy_str (wm_image wm) then
        (let gravity = getWatermarkGravity (str_or (wm_position wm) ''bottom-right'')
         in sharp_call E (Composite (ImageFile (the (wm_image wm))) gravity) pipeline)
      else io_return pipeline)"

definition resize_background :: "ImageConversionOptions \<Rightarrow> background" where
  "resize_background options =
     (if truthy_str (background options) then BgString (the (background options))
      else BgRGBA 255 255 255 1)"

definition applySharpFormat ::
  "env \<Rightarrow> sharp_pipeline \<Rightarrow> string \<Rightarrow> ImageConversionOptions \<Rightarrow> sharp_pipeline io" where
  "applySharpFormat E pipeline targetFormat options =
     (let t = toLowerCase targetFormat
      in if t = ''jpeg'' \<or> t = ''jpg'' then
           sharp_call E (Jpeg (num_or (quality options) 80) (truthy_bool (progressive options)))
             pipeline
         else if t = ''png'' then
           sharp_call E (Png (num_or (quality options) 80) (truthy_bool (progressive options)))
             pipeline
         else if t = ''webp'' then
           sharp_call E (Webp (num_or (quality options) 80) (truthy_bool (lossless options))
                           (num_or (effort options) 4)) pipeline
         else if t = ''avif'' then
           sharp_call E (Avif (num_or (quality options) 80) (truthy_bool (lossless options))
                           (num_or (effort options) 4)) pipeline
         else if t = ''tiff'' then
           sharp_call E (Tiff (num_or (quality options) 80)) pipeline
         else io_return pipeline)"

definition processSvgImage ::
  "env \<Rightarrow> path \<Rightarrow> path \<Rightarrow> string \<Rightarrow> ImageConversionOptions \<Rightarrow> unit io" where
  "processSvgImage E inputPath outputPath targetFormat options =
     io_bind
       (io_when (truthy_num (width options) \<or> truthy_num (height options))
          (sharp_call E (Resize (Some (num_or (width options) 800))
                           (Some (num_or (height options) 600))
                           (str_or (fit options) ''inside'') (resize_background options)))
          (sharp inputPath (Some 300)))
       (\<lambda>pipeline.
          io_bind (applySharpFormat E pipeline targetFormat options)
            (\<lambda>pipeline. toFile E pipeline outputPath))"

definition jimp_call :: "env \<Rightarrow> jimp_op \<Rightarrow> jimp_op list \<Rightarrow> jimp_op list io" where
  "jimp_call E opr img =
     (case jimp_check E opr of
        Some e \<Rightarrow> io_throw e
      | None \<Rightarrow> io_return (img @ [opr]))"

definition jimp_read :: "env \<Rightarrow> path \<Rightarrow> (rat \<times> rat) io" where
  "jimp_read E inputPath s = (jimp_decode E (files s inputPath), log (JimpRead inputPath) s)"

text \<open>
  Before it encodes, Jimp's \<open>write\<close> creates the directory of the output path
  with all its ancestors.
\<close>

definition writeAsync :: "env \<Rightarrow> path \<Rightarrow> jimp_op list \<Rightarrow> path \<Rightarrow> unit io" where
  "writeAsync E inputPath img outputPath s =
     (case mkdir_error E (path_dirname E outputPath) s of
        Some e \<Rightarrow> (Inl e, log (JimpWrite outputPath) s)
      | None \<Rightarrow>
          (case jimp_encode E (files s inputPath) img outputPath of
             Inl e \<Rightarrow> (Inl e, log (JimpWrite outputPath) (mkdir_p E (path_dirname E outputPath) s))
           | Inr b \<Rightarrow>
               create_file E (JimpWrite outputPath) outputPath b
                 (mkdir_p E (path_dirname E outputPath) s)))"

definition jimp_effects :: "env \<Rightarrow> effects_options \<Rightarrow> jimp_op list \<Rightarrow> jimp_op list io" where
  "jimp_effects E eff img =
     io_bind (io_when (truthy_num (blur eff)) (jimp_call E (JBlur (the (blur eff)))) img)
       (\<lambda>img.
     io_bind (io_when (brightness eff \<noteq> None)
                (jimp_call E (JBrightness (the (brightness eff)))) img)
       (\<lambda>img.
     io_bind (io_when (contrast eff \<noteq> None)
                (jimp_call E (JContrast (the (contrast eff)))) img)
       (\<lambda>img.
     io_bind (io_when (truthy_bool (grayscale eff)) (jimp_call E JGreyscale) img)
       (\<lambda>img.
     io_bind (io_when (truthy_bool (sepia eff)) (jimp_call E JSepia) img)
       (\<lambda>img.
     io_when (truthy_bool (invert eff)) (jimp_call E JInvert) img)))))"

definition processWithJimp ::
  "env \<Rightarrow> path \<Rightarrow> path \<Rightarrow> string \<Rightarrow> ImageConversionOptions \<Rightarrow> unit io" where
  "processWithJimp E inputPath outputPath targetFormat options =
     io_bind (jimp_read E inputPath)
       (\<lambda>dims.
     io_bind (io_when (truthy_num (width options) \<or> truthy_num (height options))
                (jimp_call E (JResize (num_or (width options) (- 1))
                                (num_or (height options) (- 1)))) [])
       (\<lambda>img.
     io_bind (case effects options of
                None \<Rightarrow> io_return img
              | Some eff \<Rightarrow> jimp_effects E eff img)
       (\<lambda>img.
     io_bind (io_when (truthy_num (quality options)
                       \<and> (targetFormat = ''jpeg'' \<or> targetFormat = ''jpg''))
                (jimp_call E (JQuality (the (quality options)))) img)
       (\<lambda>img. writeAsync E inputPath img outputPath))))"

text \<open>
  The body of the \<open>try\<close> block of \<open>processImage\<close>. The branches of its
  \<open>switch\<close> for gif, bmp and pdf leave the block with \<open>return\<close> of a promise
  that is not awaited there, so a rejection of that promise is not seen by the
  \<open>catch\<close> of the block: the block's exit says which of the three ways it
  was left.
\<close>

datatype try_exit = Saved | ReturnJimp | ReturnPdf

definition sharp_effects :: "env \<Rightarrow> effects_options \<Rightarrow> sharp_pipeline \<Rightarrow> sharp_pipeline io" where
  "sharp_effects E eff pipeline =
     io_bind (io_when (truthy_num (blur eff)) (sharp_call E (Blur (the (blur eff)))) pipeline)
       (\<lambda>pipeline.
     io_bind (io_when (truthy_num (sharpen eff)) (sharp_call E (Sharpen (the (sharpen eff))))
                pipeline)
       (\<lambda>pipeline.
     io_bind (io_when (brightness eff \<noteq> None \<or> contrast eff \<noteq> None
                       \<or> saturation eff \<noteq> None \<or> hue eff \<noteq> None)
                (sharp_call E
                   (Modulate
                      (if truthy_num (brightness eff) then Some (1 + the (brightness eff))
                       else None)
                      (if truthy_num (saturation eff) then Some (1 + the (saturation eff))
                       else None)
                      (hue eff)))
                pipeline)
       (\<lambda>pipeline.
     io_bind (io_when (truthy_bool (grayscale eff)) (sharp_call E Grayscale) pipeline)
       (\<lambda>pipeline.
     io_when (truthy_bool (invert eff)) (sharp_call E Negate) pipeline))))"

definition sharp_transform ::
  "env \<Rightarrow> path \<Rightarrow> ImageConversionOptions \<Rightarrow> sharp_pipeline io" where
  "sharp_transform E inputPath options =
     io_bind
       (io_when (truthy_num (width options) \<or> truthy_num (height options))
          (sharp_call E (Resize (width options) (height options)
                           (str_or (fit options) ''inside'') (resize_background options)))
          (sharp inputPath None))
       (\<lambda>pipeline.
          case effects options of
            None \<Rightarrow> io_return pipeline
          | Some eff \<Rightarrow> sharp_effects E eff pipeline)"

definition sharp_finish ::
  "env \<Rightarrow> sharp_pipeline \<Rightarrow> path \<Rightarrow> ImageConversionOptions \<Rightarrow> try_exit io" where
  "sharp_finish E pipeline outputPath options =
     io_bind (case watermark options of
                None \<Rightarrow> io_return pipeline
              | Some wm \<Rightarrow> addWatermark E pipeline wm)
       (\<lambda>pipeline. io_bind (toFile E pipeline outputPath) (\<lambda>u. io_return Saved))"

definition processImage_try ::
  "env \<Rightarrow> path \<Rightarrow> path \<Rightarrow> string \<Rightarrow> ImageConversionOptions \<Rightarrow> try_exit io" where
  "processImage_try E inputPath outputPath targetFormat options =
     io_bind (sharp_transform E inputPath options)
       (\<lambda>pipeline.
          let t = toLowerCase targetFormat
          in if t = ''jpeg'' \<or> t = ''jpg'' then
               io_bind (sharp_call E (Jpeg (num_or (quality options) 80)
                                        (truthy_bool (progressive options))) pipeline)
                 (\<lambda>pipeline. sharp_finish E pipeline outputPath options)
             else if t = ''png'' then
               io_bind (sharp_call E (Png (num_or (quality options) 80)
                                        (truthy_bool (progressive options))) pipeline)
                 (\<lambda>pipeline. sharp_finish E pipeline outputPath options)
             else if t = ''webp'' then
               io_bind (sharp_call E (Webp (num_or (quality options) 80)
                                        (truthy_bool (lossless options))
                                        (num_or (effort options) 4)) pipeline)
                 (\<lambda>pipeline. sharp_finish E pipeline outputPath options)
             else if t = ''avif'' then
               io_bind (sharp_call E (Avif (num_or (quality options) 80)
                                        (truthy_bool (lossless options))
                                        (num_or (effort options) 4)) pipeline)
                 (\<lambda>pipeline. sharp_finish E pipeline outputPath options)
             else if t = ''tiff'' then
               io_bind (sharp_call E (Tiff (num_or (quality options) 80)) pipeline)
                 (\<lambda>pipeline. sharp_finish E pipeline outputPath options)
             else if t = ''gif'' then io_return ReturnJimp
             else if t = ''bmp'' then io_return ReturnJimp
             else if t = ''pdf'' then io_return ReturnPdf
             else io_throw (''Unsupported output format: '' @ targetFormat))"

definition browser_close :: "unit io" where
  "browser_close s = (Inr (), log BrowserClose s)"

text \<open>
  A puppeteer session: \<open>launch\<close> may throw, and then there is no browser to
  close; once launched, the browser is closed on every way out of the body.
\<close>

definition with_browser :: "env \<Rightarrow> 'a io \<Rightarrow> 'a io" where
  "with_browser E body s =
     (case browser_launch E of
        Some e \<Rightarrow> (Inl e, log BrowserLaunch s)
      | None \<Rightarrow> io_finally body browser_close (log BrowserLaunch s))"

definition newPage :: "env \<Rightarrow> unit io" where
  "newPage E = (case browser_newPage E of Some e \<Rightarrow> io_throw e | None \<Rightarrow> io_return ())"

definition page_pdf :: "env \<Rightarrow> string \<Rightarrow> pdf_call \<Rightarrow> unit io" where
  "page_pdf E fullHtml call s =
     (case page_render E fullHtml call of
        Inl e \<Rightarrow> (Inl e, log (PagePdf (pc_path call)) s)
      | Inr b \<Rightarrow> create_file E (PagePdf (pc_path call)) (pc_path call) b s)"

definition image_pdf_html :: "string \<Rightarrow> string \<Rightarrow> string" where
  "image_pdf_html mimeType base64Image =
     nl @ ''        <!DOCTYPE html>'' @ nl @
     ''        <html>'' @ nl @
     ''        <head>'' @ nl @
     ''          <style>'' @ nl @
     ''            body { margin: 0; padding: 20px; display: flex; justify-content: center; align-items: center; min-height: 100vh; }'' @ nl @
     ''            img { max-width: 100%; max-height: 100%; object-fit: contain; }'' @ nl @
     ''          </style>'' @ nl @
     ''        </head>'' @ nl @
     ''        <body>'' @ nl @
     ''          <img src='' @ dq @ ''data:'' @ mimeType @ '';base64,'' @ base64Image @ dq
       @ '' alt='' @ dq @ ''Image'' @ dq @ '' />'' @ nl @
     ''        </body>'' @ nl @
     ''        </html>'' @ nl @
     ''      ''"

definition image_pdf_call :: "path \<Rightarrow> pdf_call" where
  "image_pdf_call outputPath =
     \<lparr>pc_path = outputPath, pc_format = ''A4'', pc_landscape = False,
      pc_printBackground = True,
      pc_margin_top = ''10mm'', pc_margin_right = ''10mm'',
      pc_margin_bottom = ''10mm'', pc_margin_left = ''10mm'',
      pc_scale = None, pc_displayHeaderFooter = False,
      pc_headerTemplate = None, pc_footerTemplate = None\<rparr>"

definition convertImageToPdf :: "env \<Rightarrow> path \<Rightarrow> path \<Rightarrow> ImageConversionOptions \<Rightarrow> unit io" where
  "convertImageToPdf E inputPath outputPath options =
     with_browser E
       (io_bind (newPage E)
          (\<lambda>page.
        io_bind (readFile inputPath)
          (\<lambda>imageBuffer.
             let base64Image = base64 E imageBuffer;
                 mimeType = str_or (mime_lookup E inputPath) ''image/jpeg''
             in page_pdf E (image_pdf_html mimeType base64Image) (image_pdf_call outputPath))))"

definition processImage ::
  "env \<Rightarrow> path \<Rightarrow> path \<Rightarrow> string \<Rightarrow> ImageConversionOptions \<Rightarrow> unit io" where
  "processImage E inputPath outputPath targetFormat options s =
     (if detectImageFormat E inputPath = ''svg''
      then processSvgImage E inputPath outputPath targetFormat options s
      else
        (case processImage_try E inputPath outputPath targetFormat options s of
           (Inl e, s') \<Rightarrow> processWithJimp E inputPath outputPath targetFormat options s'
         | (Inr Saved, s') \<Rightarrow> (Inr (), s')
         | (Inr ReturnJimp, s') \<Rightarrow> processWithJimp E inputPath outputPath targetFormat options s'
         | (Inr ReturnPdf, s') \<Rightarrow> convertImageToPdf E inputPath outputPath options s'))"

subsection \<open>The compression ratio\<close>

text \<open>
  JavaScript numbers are IEEE 754 doubles. A finite double is a rational; the
  result of an arithmetic operation is the exact result rounded to the nearest
  double, ties to the even significand (\<open>to_double\<close>). The exponent range is not
  modelled: the quantities here are quotients of file sizes, far from overflow
  and underflow. \<open>Math.round\<close> is exact.
\<close>

fun bit_length :: "nat \<Rightarrow> nat" where
  "bit_length n = (if n = 0 then 0 else Suc (bit_length (n div 2)))"

definition expo :: "rat \<Rightarrow> int" where
  "expo x =
     (if 1 \<le> x then int (bit_length (nat \<lfloor>x\<rfloor>)) - 1
      else - int (bit_length (nat \<lceil>1 / x\<rceil> - 1)))"

definition round_even :: "rat \<Rightarrow> int" where
  "round_even y =
     (let f = \<lfloor>y\<rfloor>; d = y - of_int f
      in if d < 1 / 2 then f else if 1 / 2 < d then f + 1
         else if even f then f else f + 1)"

definition to_double :: "rat \<Rightarrow> rat" where
  "to_double x =
     (if x = 0 then 0
      else (let e = expo \<bar>x\<bar> - 52
            in sgn x * of_int (round_even (\<bar>x\<bar> / 2 powi e)) * 2 powi e))"

definition js_div :: "rat \<Rightarrow> rat \<Rightarrow> jsnum" where
  "js_div a b =
     (if b \<noteq> 0 then Num (to_double (a / b))
      else if a = 0 then NaN
      else if 0 < a then PosInfinity else NegInfinity)"

definition js_times :: "jsnum \<Rightarrow> rat \<Rightarrow> jsnum" where
  "js_times x c =
     (case x of
        Num a \<Rightarrow> Num (to_double (a * c))
      | PosInfinity \<Rightarrow> (if 0 < c then PosInfinity else if c < 0 then NegInfinity else NaN)
      | NegInfinity \<Rightarrow> (if 0 < c then NegInfinity else if c < 0 then PosInfinity else NaN)
      | NaN \<Rightarrow> NaN)"

definition js_over :: "jsnum \<Rightarrow> rat \<Rightarrow> jsnum" where
  "js_over x c =
     (case x of
        Num a \<Rightarrow> js_div a c
      | PosInfinity \<Rightarrow> (if 0 \<le> c then PosInfinity else NegInfinity)
      | NegInfinity \<Rightarrow> (if 0 \<le> c then NegInfinity else PosInfinity)
      | NaN \<Rightarrow> NaN)"

definition Math_round :: "jsnum \<Rightarrow> jsnum" where
  "Math_round x = (case x of Num a \<Rightarrow> Num (of_int \<lfloor>a + 1 / 2\<rfloor>) | y \<Rightarrow> y)"

definition compressionRatio :: "nat \<Rightarrow> nat \<Rightarrow> jsnum" where
  "compressionRatio originalSize newSize =
     js_times (js_div (of_nat originalSize - of_nat newSize) (of_nat originalSize)) 100"

definition reported_ratio :: "nat \<Rightarrow> nat \<Rightarrow> jsnum" where
  "reported_ratio originalSize newSize =
     js_over (Math_round (js_times (compressionRatio originalSize newSize) 100)) 100"

subsection \<open>convertImage and the batch driver\<close>

definition convertImage_body ::
  "env \<Rightarrow> path \<Rightarrow> path \<Rightarrow> string \<Rightarrow> ImageConversionOptions \<Rightarrow> ImageConversionResult io" where
  "convertImage_body E inputPath outputPath targetFormat options =
     io_bind (pathExists inputPath)
       (\<lambda>ex.
          if \<not> ex then io_throw (''Input file does not exist: '' @ inputPath)
          else
            io_bind (ensureDir E (path_dirname E outputPath))
              (\<lambda>u.
            io_bind (stat_size E inputPath)
              (\<lambda>originalSize.
                 let inputFormat = detectImageFormat E inputPath
                 in io_bind (processImage E inputPath outputPath targetFormat options)
                      (\<lambda>u.
                    io_bind (stat_size E outputPath)
                      (\<lambda>newSize.
                         io_return
                           \<lparr>success = True, output_path = outputPath,
                            message = ''Successfully converted '' @ inputFormat @ '' to ''
                                      @ targetFormat,
                            original_size = Some originalSize, new_size = Some newSize,
                            compression_ratio =
                              Some (reported_ratio originalSize newSize)\<rparr>)))))"

definition convertImage ::
  "env \<Rightarrow> path \<Rightarrow> path \<Rightarrow> string \<Rightarrow> ImageConversionOptions
   \<Rightarrow> fs_state \<Rightarrow> ImageConversionResult \<times> fs_state" where
  "convertImage E inputPath outputPath targetFormat options s =
     (case convertImage_body E inputPath outputPath targetFormat options s of
        (Inr r, s') \<Rightarrow> (r, s')
      | (Inl e, s') \<Rightarrow>
          (\<lparr>success = False, output_path = outputPath,
            message = ''Image conversion failed: '' @ e,
            original_size = None, new_size = None, compression_ratio = None\<rparr>, s'))"

definition batch_extensions :: "string list" where
  "batch_extensions =
     [''.jpg'', ''.jpeg'', ''.png'', ''.webp'', ''.avif'', ''.tiff'', ''.tif'', ''.gif'',
      ''.bmp'', ''.svg'', ''.heic'', ''.heif'']"

definition is_image_file :: "env \<Rightarrow> string \<Rightarrow> bool" where
  "is_image_file E file = (toLowerCase (path_extname E file) \<in> set batch_extensions)"

record batch_report =
  br_success :: nat
  br_failed :: nat
  br_results :: "ImageConversionResult list"

fun batch_loop ::
  "env \<Rightarrow> path \<Rightarrow> path \<Rightarrow> string \<Rightarrow> ImageConversionOptions \<Rightarrow> string list
   \<Rightarrow> batch_report \<Rightarrow> fs_state \<Rightarrow> batch_report \<times> fs_state" where
  "batch_loop E inputDir outputDir targetFormat options [] acc s = (acc, s)"
| "batch_loop E inputDir outputDir targetFormat options (file # rest) acc s =
     (let inputPath = path_join E inputDir file;
          outputFileName = path_basename E file (path_extname E file) @ ''.'' @ targetFormat;
          outputPath = path_join E outputDir outputFileName
      in case convertImage E inputPath outputPath targetFormat options s of
           (result, s') \<Rightarrow>
             batch_loop E inputDir outputDir targetFormat options rest
               (if success result
                then acc\<lparr>br_results := br_results acc @ [result],
                         br_success := br_success acc + 1\<rparr>
                else acc\<lparr>br_results := br_results acc @ [result],
                         br_failed := br_failed acc + 1\<rparr>) s')"

definition batchConvertImages ::
  "env \<Rightarrow> path \<Rightarrow> path \<Rightarrow> string \<Rightarrow> ImageConversionOptions \<Rightarrow> batch_report io" where
  "batchConvertImages E inputDir outputDir targetFormat options =
     io_bind (ensureDir E outputDir)
       (\<lambda>u.
     io_bind (readdir E inputDir)
       (\<lambda>files_in_dir.
          let imageFiles = filter (is_image_file E) files_in_dir
          in (\<lambda>s. case batch_loop E inputDir outputDir targetFormat options imageFiles
                          \<lparr>br_success = 0, br_failed = 0, br_results = []\<rparr> s of
                     (rep, s') \<Rightarrow> (Inr rep, s'))))"

record ImageInfo =
  ii_format :: string
  ii_width :: rat
  ii_height :: rat
  ii_channels :: rat
  ii_density :: "rat option"
  ii_hasAlpha :: bool
  ii_size :: nat
  ii_colorSpace :: "string option"

definition metadata_of :: "env \<Rightarrow> path \<Rightarrow> sharp_meta io" where
  "metadata_of E filePath s = (sharp_metadata E (files s filePath), log (SharpMetadata filePath) s)"

definition getImageInfo :: "env \<Rightarrow> path \<Rightarrow> ImageInfo io" where
  "getImageInfo E filePath =
     io_bind (stat_size E filePath)
       (\<lambda>sz.
          let fmt = detectImageFormat E filePath
          in io_catch
               (io_bind (metadata_of E filePath)
                  (\<lambda>md.
                     io_return
                       \<lparr>ii_format = fmt, ii_width = num_or (sm_width md) 0,
                        ii_height = num_or (sm_height md) 0,
                        ii_channels = num_or (sm_channels md) 0,
                        ii_density = sm_density md,
                        ii_hasAlpha = truthy_bool (sm_hasAlpha md), ii_size = sz,
                        ii_colorSpace = sm_space md\<rparr>))
               (\<lambda>error.
                  io_catch
                    (io_bind (jimp_read E filePath)
                       (\<lambda>dims.
                          io_return
                            \<lparr>ii_format = fmt, ii_width = fst dims, ii_height = snd dims,
                             ii_channels = 4, ii_density = None, ii_hasAlpha = True,
                             ii_size = sz, ii_colorSpace = None\<rparr>))
                    (\<lambda>jimpError.
                       io_throw (''Unable to read image metadata: Error: '' @ error))))"

section \<open>converter.ts\<close>

definition imageFormats :: "string list" where
  "imageFormats =
     [''jpeg'', ''jpg'', ''png'', ''webp'', ''avif'', ''tiff'', ''gif'', ''bmp'', ''svg'',
      ''heic'', ''heif'']"

definition detectFormat :: "env \<Rightarrow> path \<Rightarrow> string" where
  "detectFormat E filePath =
     (let ext = toLowerCase (path_extname E filePath);
          mimeType = mime_lookup E filePath
      in if ext = ''.pdf'' then ''pdf''
         else if ext = ''.docx'' then ''docx''
         else if ext = ''.doc'' then ''doc''
         else if ext = ''.html'' \<or> ext = ''.htm'' then ''html''
         else if ext = ''.md'' \<or> ext = ''.markdown'' then ''md''
         else if ext = ''.txt'' then ''txt''
         else if ext = ''.jpg'' \<or> ext = ''.jpeg'' then ''jpeg''
         else if ext = ''.png'' then ''png''
         else if ext = ''.webp'' then ''webp''
         else if ext = ''.avif'' then ''avif''
         else if ext = ''.tiff'' \<or> ext = ''.tif'' then ''tiff''
         else if ext = ''.gif'' then ''gif''
         else if ext = ''.bmp'' then ''bmp''
         else if ext = ''.svg'' then ''svg''
         else if ext = ''.heic'' then ''heic''
         else if ext = ''.heif'' then ''heif''
         else (case mimeType of
                 None \<Rightarrow> ''txt''
               | Some m \<Rightarrow>
                   if m = [] then ''txt''
                   else if str_includes m ''pdf'' then ''pdf''
                   else if str_includes m ''word'' then ''docx''
                   else if str_includes m ''html'' then ''html''
                   else if startsWith m ''image/''
                   then takeWhile (\<lambda>c. c \<noteq> CHR ''/'') (drop 6 m)
                   else ''txt''))"

definition readDocument :: "env \<Rightarrow> path \<Rightarrow> string \<Rightarrow> ConversionOptions \<Rightarrow> content io" where
  "readDocument E filePath fmt options =
     io_bind (readFile filePath)
       (\<lambda>buffer.
          if fmt = ''pdf'' then
            io_bind (io_lift (pdfParse E buffer))
              (\<lambda>pdfData.
                 io_return \<lparr>c_text = pd_text pdfData, c_html = None,
                            c_metadata = Some (PdfInfo (pd_info pdfData))\<rparr>)
          else if fmt = ''docx'' then
            io_bind (io_lift (mammoth_convertToHtml E buffer))
              (\<lambda>result.
            io_bind (io_lift (mammoth_extractRawText E buffer))
              (\<lambda>textResult.
                 io_return \<lparr>c_text = textResult, c_html = Some (mh_value result),
                            c_metadata = Some (MammothMessages (messages result))\<rparr>))
          else if fmt = ''html'' then
            (let htmlContent = toString_utf8 E buffer
             in io_bind (io_lift (turndown E htmlContent))
                  (\<lambda>t. io_return \<lparr>c_text = t, c_html = Some htmlContent,
                                  c_metadata = None\<rparr>))
          else if fmt = ''md'' then
            (let mdContent = toString_utf8 E buffer
             in io_bind (io_lift (marked E mdContent))
                  (\<lambda>h. io_return \<lparr>c_text = mdContent, c_html = Some h,
                                  c_metadata = None\<rparr>))
          else io_return \<lparr>c_text = toString_utf8 E buffer, c_html = None,
                          c_metadata = None\<rparr>)"

definition html_shell :: "string \<Rightarrow> string" where
  "html_shell h =
     ''<!DOCTYPE html>'' @ nl @
     ''<html>'' @ nl @
     ''<head>'' @ nl @
     ''  <meta charset='' @ dq @ ''UTF-8'' @ dq @ ''>'' @ nl @
     ''  <title>Converted Document</title>'' @ nl @
     ''  <style>'' @ nl @
     ''    body { font-family: Arial, sans-serif; max-width: 800px; margin: 0 auto; padding: 20px; }'' @ nl @
     ''    pre { background: #f5f5f5; padding: 10px; border-radius: 5px; }'' @ nl @
     ''    code { background: #f5f5f5; padding: 2px 4px; border-radius: 3px; }'' @ nl @
     ''  </style>'' @ nl @
     ''</head>'' @ nl @
     ''<body>'' @ nl @
     h @ nl @
     ''</body>'' @ nl @
     ''</html>''"

definition pdf_shell :: "string \<Rightarrow> string \<Rightarrow> string" where
  "pdf_shell fontFamily h =
     ''<!DOCTYPE html>'' @ nl @
     ''<html>'' @ nl @
     ''<head>'' @ nl @
     ''  <meta charset='' @ dq @ ''UTF-8'' @ dq @ ''>'' @ nl @
     ''  <style>'' @ nl @
     ''    body { font-family: '' @ fontFamily @ ''; line-height: 1.6; margin: 40px; }'' @ nl @
     ''    h1, h2, h3 { color: #333; }'' @ nl @
     ''    pre { background: #f5f5f5; padding: 10px; border-radius: 5px; }'' @ nl @
     ''    code { background: #f5f5f5; padding: 2px 4px; border-radius: 3px; }'' @ nl @
     ''  </style>'' @ nl @
     ''</head>'' @ nl @
     ''<body>'' @ nl @
     h @ nl @
     ''</body>'' @ nl @
     ''</html>''"

definition esc :: "string \<Rightarrow> string" where
  "esc t =
     concat (map (\<lambda>c. if c = CHR ''&'' then ''&amp;''
                       else if c = CHR ''<'' then ''&lt;''
                       else if c = CHR ''>'' then ''&gt;'' else [c]) t)"

definition headerTemplate :: "string option \<Rightarrow> string" where
  "headerTemplate h =
     (if truthy_str h
      then ''<div style='' @ dq
           @ ''font-size:10px; color:#555; margin-left: 10mm; margin-right: 10mm;'' @ dq
           @ ''>'' @ esc (the h) @ ''</div>''
      else ''<div></div>'')"

definition pageNumbers :: string where
  "pageNumbers =
     ''<span class='' @ dq @ ''pageNumber'' @ dq @ ''></span>/<span class='' @ dq
     @ ''totalPages'' @ dq @ ''></span>''"

definition footerTemplate :: "string option \<Rightarrow> string" where
  "footerTemplate f =
     (if truthy_str f
      then ''<div style='' @ dq
           @ ''font-size:10px; color:#555; margin-left: 10mm; margin-right: 10mm; width:100%; text-align:center;''
           @ dq @ ''>'' @ esc (the f) @ ''<span style='' @ dq @ ''margin-left:8px;'' @ dq
           @ ''>'' @ pageNumbers @ ''</span></div>''
      else ''<div style='' @ dq
           @ ''font-size:10px; color:#555; text-align:center; width:100%;'' @ dq @ ''>''
           @ pageNumbers @ ''</div>'')"

definition margin_of :: "pdf_options_rec option \<Rightarrow> (margin_options \<Rightarrow> string option) \<Rightarrow> string" where
  "margin_of pdfOpts side =
     (case pdfOpts of
        None \<Rightarrow> ''20mm''
      | Some po \<Rightarrow>
          (case margin po of None \<Rightarrow> ''20mm'' | Some m \<Rightarrow> str_or (side m) ''20mm''))"

definition document_pdf_call :: "path \<Rightarrow> pdf_options_rec option \<Rightarrow> pdf_call" where
  "document_pdf_call outputPath pdfOpts =
     (let hdr = (case pdfOpts of None \<Rightarrow> None | Some po \<Rightarrow> header po);
          ftr = (case pdfOpts of None \<Rightarrow> None | Some po \<Rightarrow> footer po);
          hasHeaderFooter = (truthy_str hdr \<or> truthy_str ftr)
      in \<lparr>pc_path = outputPath,
          pc_format = (case pdfOpts of None \<Rightarrow> ''A4'' | Some po \<Rightarrow> str_or (format po) ''A4''),
          pc_landscape = (case pdfOpts of None \<Rightarrow> False | Some po \<Rightarrow> truthy_bool (landscape po)),
          pc_printBackground =
            (case pdfOpts of
               None \<Rightarrow> True
             | Some po \<Rightarrow> (case printBackground po of None \<Rightarrow> True | Some b \<Rightarrow> b)),
          pc_margin_top = margin_of pdfOpts top,
          pc_margin_right = margin_of pdfOpts right,
          pc_margin_bottom = margin_of pdfOpts bottom,
          pc_margin_left = margin_of pdfOpts left,
          pc_scale =
            (case pdfOpts of
               None \<Rightarrow> None
             | Some po \<Rightarrow> if truthy_num (scale po) then scale po else None),
          pc_displayHeaderFooter = hasHeaderFooter,
          pc_headerTemplate = (if hasHeaderFooter then Some (headerTemplate hdr) else None),
          pc_footerTemplate = (if hasHeaderFooter then Some (footerTemplate ftr) else None)\<rparr>)"

definition fontFamily_of :: "ConversionOptions \<Rightarrow> string" where
  "fontFamily_of options =
     (let preferChinese =
            (case pdf_options options of
               None \<Rightarrow> True
             | Some po \<Rightarrow> (case prefer_chinese_fonts po of None \<Rightarrow> True | Some b \<Rightarrow> b))
      in if preferChinese
         then sq @ ''Microsoft YaHei'' @ sq @ '','' @ sq @ ''SimSun'' @ sq @ '','' @ sq
              @ ''Noto Sans SC'' @ sq @ '','' @ sq @ ''Arial'' @ sq @ '',sans-serif''
         else ''Arial, sans-serif'')"

definition convertToPdf :: "env \<Rightarrow> content \<Rightarrow> path \<Rightarrow> ConversionOptions \<Rightarrow> unit io" where
  "convertToPdf E c outputPath options =
     with_browser E
       (io_bind (newPage E)
          (\<lambda>page.
        io_bind (if \<not> truthy_str (c_html c) \<or> preserve_formatting options = Some False
                 then io_lift (marked E (c_text c))
                 else io_return (the (c_html c)))
          (\<lambda>h.
             page_pdf E (pdf_shell (fontFamily_of options) h)
               (document_pdf_call outputPath (pdf_options options)))))"

fun split_on :: "char \<Rightarrow> string \<Rightarrow> string list" where
  "split_on d [] = [[]]"
| "split_on d (x # xs) =
     (if x = d then [] # split_on d xs
      else (case split_on d xs of l # ls \<Rightarrow> (x # l) # ls | [] \<Rightarrow> [[x]]))"

text \<open>
  The white space that \<open>trim\<close> removes. A character of the model is one of the
  first 256 code points; the other white space of JavaScript lies beyond them.
\<close>

definition is_js_space :: "char \<Rightarrow> bool" where
  "is_js_space c = ((of_char c :: nat) \<in> {9, 10, 11, 12, 13, 32, 160})"

definition trim_is_empty :: "string \<Rightarrow> bool" where
  "trim_is_empty line = (\<forall>c \<in> set line. is_js_space c)"

definition convertToDocx :: "env \<Rightarrow> content \<Rightarrow> path \<Rightarrow> unit io" where
  "convertToDocx E c outputPath =
     (let lines = split_on (CHR 0x0A) (c_text c);
          paragraphs = map (\<lambda>line. if trim_is_empty line then EmptyParagraph
                                     else TextParagraph line) lines
      in io_bind (io_lift (packer_toBuffer E paragraphs))
           (\<lambda>buffer. writeFile E outputPath buffer))"

definition writeDocument ::
  "env \<Rightarrow> content \<Rightarrow> path \<Rightarrow> string \<Rightarrow> ConversionOptions \<Rightarrow> unit io" where
  "writeDocument E c outputPath fmt options =
     (if fmt = ''txt'' then writeFile E outputPath (encode_utf8 E (c_text c))
      else if fmt = ''md'' then
        io_bind (if truthy_str (c_html c) then io_lift (turndown E (the (c_html c)))
                 else io_return (c_text c))
          (\<lambda>markdown. writeFile E outputPath (encode_utf8 E markdown))
      else if fmt = ''html'' then
        io_bind (if \<not> truthy_str (c_html c) then io_lift (marked E (c_text c))
                 else io_return (the (c_html c)))
          (\<lambda>h. writeFile E outputPath (encode_utf8 E (html_shell h)))
      else if fmt = ''pdf'' then convertToPdf E c outputPath options
      else if fmt = ''docx'' then convertToDocx E c outputPath
      else io_throw (''Unsupported output format: '' @ fmt))"

subsection \<open>The DOCX to PDF strategies\<close>

definition run_ok :: "env \<Rightarrow> string \<Rightarrow> string list \<Rightarrow> bool io" where
  "run_ok E cmd args s =
     (case spawn E cmd args s of
        (SpawnError, s') \<Rightarrow> (Inr False, s')
      | (Closed code, s') \<Rightarrow> (Inr (code = 0), s'))"

definition output_nonempty :: "env \<Rightarrow> path \<Rightarrow> bool io" where
  "output_nonempty E outputPath =
     io_bind (pathExists outputPath)
       (\<lambda>ex. if ex then io_bind (stat_size E outputPath) (\<lambda>sz. io_return (0 < sz))
             else io_return False)"

definition convertDocxToPdfViaPython :: "env \<Rightarrow> path \<Rightarrow> path \<Rightarrow> bool io" where
  "convertDocxToPdfViaPython E inputPath outputPath =
     io_catch
       (let scriptPath =
              path_join E (path_join E (cwd E) ''DocumentAssistant'') ''docx_to_pdf_converter.py''
        in io_bind (pathExists scriptPath)
             (\<lambda>scriptExists.
                if \<not> scriptExists then io_return False
                else
                  (let args = [scriptPath, inputPath, outputPath]
                   in io_bind (run_ok E ''python'' args)
                        (\<lambda>ok.
                      io_bind (if \<not> ok then run_ok E ''py'' (''-3'' # args) else io_return ok)
                        (\<lambda>ok. if ok then output_nonempty E outputPath
                              else io_return False)))))
       (\<lambda>e. io_return False)"

definition vbs_script :: string where
  "vbs_script =
     ''On Error Resume Next'' @ crlf @
     ''Dim inputPath, outputPath'' @ crlf @
     ''inputPath = WScript.Arguments(0)'' @ crlf @
     ''outputPath = WScript.Arguments(1)'' @ crlf @
     ''Dim word'' @ crlf @
     ''Set word = CreateObject('' @ dq @ ''Word.Application'' @ dq @ '')'' @ crlf @
     ''If Err.Number <> 0 Then WScript.Quit 1'' @ crlf @
     ''word.Visible = False'' @ crlf @
     ''Dim doc'' @ crlf @
     ''Set doc = word.Documents.Open(inputPath)'' @ crlf @
     ''If Err.Number <> 0 Then WScript.Quit 2'' @ crlf @
     ''doc.ExportAsFixedFormat outputPath, 17'' @ crlf @
     ''doc.Close False'' @ crlf @
     ''word.Quit''"

definition word_run :: "env \<Rightarrow> path \<Rightarrow> path \<Rightarrow> path \<Rightarrow> bool io" where
  "word_run E vbsPath inputPath outputPath s =
     (case spawn E ''cscript'' [''//nologo'', vbsPath, inputPath, outputPath] s of
        (SpawnError, s') \<Rightarrow> (Inr False, s')
      | (Closed code, s') \<Rightarrow>
          if code = 0 then output_nonempty E outputPath s' else (Inr False, s'))"

definition convertDocxToPdfViaWordCom :: "env \<Rightarrow> path \<Rightarrow> path \<Rightarrow> bool io" where
  "convertDocxToPdfViaWordCom E inputPath outputPath =
     (if platform E \<noteq> ''win32'' then io_return False
      else
        io_catch
          (io_bind (mkdtemp E (path_join E (tmpdir E) ''docx2pdf-''))
             (\<lambda>tempDir.
                let vbsPath = path_join E tempDir ''docx2pdf.vbs''
                in io_bind (writeFile E vbsPath (encode_utf8 E vbs_script))
                     (\<lambda>u. word_run E vbsPath inputPath outputPath)))
          (\<lambda>e. io_return False))"

subsection \<open>convertDocument\<close>

definition doc_result :: "bool \<Rightarrow> path \<Rightarrow> string \<Rightarrow> ConversionResult" where
  "doc_result ok outputPath msg =
     \<lparr>success = ok, output_path = outputPath, message = msg, metadata = None\<rparr>"

text \<open>
  What follows the DOCX to PDF block in \<open>convertDocument\<close>: image sources go
  to the image converter, every other source is read and written by the
  generic pipeline.
\<close>

definition convert_generic ::
  "env \<Rightarrow> path \<Rightarrow> path \<Rightarrow> string \<Rightarrow> ConversionOptions \<Rightarrow> string \<Rightarrow> ConversionResult io" where
  "convert_generic E inputPath outputPath targetFormat options inputFormat =
     (if inputFormat \<in> set imageFormats then
        (\<lambda>s. case convertImage E inputPath outputPath targetFormat
                       (case image_options options of
                          None \<Rightarrow> empty_image_options
                        | Some io \<Rightarrow> io) s of
                (imageResult, s') \<Rightarrow>
                  (Inr \<lparr>success = success imageResult,
                        output_path = output_path imageResult,
                        message = message imageResult,
                        metadata =
                          Some \<lparr>im_original_size = original_size imageResult,
                                im_new_size = new_size imageResult,
                                im_compression_ratio = compression_ratio imageResult\<rparr>\<rparr>,
                   s'))
      else
        io_bind (readDocument E inputPath inputFormat options)
          (\<lambda>c.
        io_bind (writeDocument E c outputPath targetFormat options)
          (\<lambda>u.
             io_return
               (doc_result True outputPath
                  (''Successfully converted '' @ inputFormat @ '' to '' @ targetFormat)))))"

definition convertDocument_body ::
  "env \<Rightarrow> path \<Rightarrow> path \<Rightarrow> string \<Rightarrow> ConversionOptions \<Rightarrow> ConversionResult io" where
  "convertDocument_body E inputPath outputPath targetFormat options =
     io_bind (pathExists inputPath)
       (\<lambda>ex.
          if \<not> ex then io_throw (''Input file does not exist: '' @ inputPath)
          else
            io_bind (ensureDir E (path_dirname E outputPath))
              (\<lambda>u.
                 let inputFormat = detectFormat E inputPath
                 in if inputFormat = ''docx'' \<and> targetFormat = ''pdf'' then
                      io_bind (convertDocxToPdfViaWordCom E inputPath outputPath)
                        (\<lambda>usedWordCom.
                           if usedWordCom then
                             io_return
                               (doc_result True outputPath
                                  ''Successfully converted docx to pdf via Microsoft Word (COM)'')
                           else
                             io_bind (convertDocxToPdfViaPython E inputPath outputPath)
                               (\<lambda>usedPython.
                                  if usedPython then
                                    io_return
                                      (doc_result True outputPath
                                         ''Successfully converted docx to pdf via DocumentAssistant script'')
                                  else
                                    convert_generic E inputPath outputPath targetFormat options
                                      inputFormat))
                    else convert_generic E inputPath outputPath targetFormat options
                           inputFormat))"

definition convertDocument ::
  "env \<Rightarrow> path \<Rightarrow> path \<Rightarrow> string \<Rightarrow> ConversionOptions
   \<Rightarrow> fs_state \<Rightarrow> ConversionResult \<times> fs_state" where
  "convertDocument E inputPath outputPath targetFormat options s =
     (case convertDocument_body E inputPath outputPath targetFormat options s of
        (Inr r, s') \<Rightarrow> (r, s')
      | (Inl e, s') \<Rightarrow> (doc_result False outputPath (''Conversion failed: '' @ e), s'))"

subsection \<open>getDocumentInfo and getSupportedFormats\<close>

definition getDocumentInfo :: "env \<Rightarrow> path \<Rightarrow> DocumentInfo io" where
  "getDocumentInfo E filePath =
     io_bind (stat_size E filePath)
       (\<lambda>sz.
          let fmt = detectFormat E filePath;
              inf = \<lparr>di_format = fmt, di_size = sz, pages = None, title = None,
                     author = None\<rparr>
          in io_catch
               (if fmt \<in> set imageFormats then
                  io_bind (getImageInfo E filePath)
                    (\<lambda>imageInfo.
                       io_return
                         \<lparr>di_format = ii_format imageInfo, di_size = ii_size imageInfo,
                          pages = Some 1,
                          title = Some (path_basename E filePath (path_extname E filePath)),
                          author = None\<rparr>)
                else if fmt = ''pdf'' then
                  io_bind (readFile filePath)
                    (\<lambda>buffer.
                  io_bind (io_lift (pdfParse E buffer))
                    (\<lambda>pdfData.
                       io_return
                         (inf\<lparr>pages := Some (int (numpages pdfData)),
                              title := (case pd_info pdfData of None \<Rightarrow> None
                                        | Some i \<Rightarrow> Title i),
                              author := (case pd_info pdfData of None \<Rightarrow> None
                                         | Some i \<Rightarrow> Author i)\<rparr>)))
                else if fmt = ''docx'' then
                  io_bind (readFile filePath)
                    (\<lambda>buffer.
                  io_bind (io_lift (mammoth_extractRawText E buffer))
                    (\<lambda>v.
                       io_return
                         (inf\<lparr>pages := Some \<lceil>(of_nat (length v) :: rat) / 2000\<rceil>\<rparr>)))
                else io_return inf)
               (\<lambda>error. io_return inf))"

definition image_output_formats :: "string list" where
  "image_output_formats =
     [''jpg'', ''jpeg'', ''png'', ''webp'', ''avif'', ''tiff'', ''gif'', ''bmp'', ''pdf'']"

definition conversion_matrix :: "(string \<times> string list) list" where
  "conversion_matrix =
     [(''pdf'', [''txt'', ''md'', ''html'']),
      (''docx'', [''txt'', ''md'', ''html'', ''pdf'']),
      (''html'', [''txt'', ''md'', ''pdf'']),
      (''md'', [''html'', ''pdf'', ''txt'']),
      (''txt'', [''html'', ''md'', ''pdf'']),
      (''jpg'', image_output_formats),
      (''jpeg'', image_output_formats),
      (''png'', image_output_formats),
      (''webp'', image_output_formats),
      (''avif'', image_output_formats),
      (''tiff'', image_output_formats),
      (''gif'', image_output_formats),
      (''bmp'', image_output_formats),
      (''svg'', image_output_formats),
      (''heic'', image_output_formats),
      (''heif'', image_output_formats)]"

text \<open>A pair of formats is in the conversion matrix.\<close>

definition in_matrix :: "string \<Rightarrow> string \<Rightarrow> bool" where
  "in_matrix src tgt =
     (case map_of conversion_matrix src of None \<Rightarrow> False | Some ts \<Rightarrow> tgt \<in> set ts)"

section \<open>Specification-side notions\<close>

text \<open>
  The number of hundredths \<open>k\<close> is \<open>x\<close> rounded to two decimal places: \<open>k / 100\<close>
  is within half a hundredth of \<open>x\<close>, up to the relative error \<open>2 ^ - 51\<close> that
  three double operations can add before the rounding.
\<close>

definition rounds_to_cents :: "rat \<Rightarrow> int \<Rightarrow> bool" where
  "rounds_to_cents x k = (\<bar>of_int k / 100 - x\<bar> \<le> 1 / 200 + \<bar>x\<bar> / 2 ^ 51)"

text \<open>The size that \<open>stat\<close> reports for a path that exists.\<close>

definition size_on_disk :: "env \<Rightarrow> fs_state \<Rightarrow> path \<Rightarrow> nat" where
  "size_on_disk E s p = (case files s p of Some c \<Rightarrow> length c | None \<Rightarrow> dir_size E p)"

text \<open>
  The file at \<open>p\<close> can be written after its directory has been made: the
  directory can be created, and then the file can be created in it.
\<close>

definition can_write :: "env \<Rightarrow> path \<Rightarrow> fs_state \<Rightarrow> bool" where
  "can_write E p s =
     (mkdir_error E (path_dirname E p) s = None
      \<and> write_error E p (mkdir_p E (path_dirname E p) s) = None)"


text \<open>The commands of the child processes spawned in a trace, oldest first.\<close>

fun spawned :: "event list \<Rightarrow> string list" where
  "spawned [] = []"
| "spawned (SpawnProc cmd args # evs) = cmd # spawned evs"
| "spawned (ev # evs) = spawned evs"

section \<open>A test environment\<close>

text \<open>
  To run the model on concrete inputs the libraries are replaced by test
  doubles: POSIX path functions, codecs that copy their input, and no child
  process that can be started. Single fields are overridden where a run needs
  a library to fail.
\<close>

definition posix_basename :: "path \<Rightarrow> string" where
  "posix_basename p = rev (takeWhile (\<lambda>c. c \<noteq> CHR ''/'') (rev p))"

definition posix_extname :: "path \<Rightarrow> string" where
  "posix_extname p =
     (let b = posix_basename p;
          r = takeWhile (\<lambda>c. c \<noteq> CHR ''.'') (rev b)
      in if length r = length b \<or> length r + 1 = length b \<or> b = ''..'' then []
         else ''.'' @ rev r)"

definition posix_dirname :: "path \<Rightarrow> path" where
  "posix_dirname p =
     (if CHR ''/'' \<notin> set p then ''.''
      else (let d = rev (drop 1 (dropWhile (\<lambda>c. c \<noteq> CHR ''/'') (rev p)))
            in if d = [] then ''/'' else d))"

definition posix_basename_ext :: "path \<Rightarrow> string \<Rightarrow> string" where
  "posix_basename_ext p ext =
     (let b = posix_basename p
      in if ext \<noteq> [] \<and> length ext < length b \<and> drop (length b - length ext) b = ext
         then take (length b - length ext) b else b)"

definition test_env :: env where
  "test_env =
     \<lparr>platform = ''linux'', tmpdir = ''/tmp'', cwd = ''/app'',
      base64 = (\<lambda>b. b),
      path_extname = posix_extname, path_dirname = posix_dirname,
      path_basename = posix_basename_ext,
      path_join = (\<lambda>a b. a @ ''/'' @ b),
      mime_lookup = (\<lambda>p. None),
      dir_size = (\<lambda>p. 4096),
      readdir_names = (\<lambda>s p. Inl (''ENOENT: no such file or directory, scandir '' @ p)),
      mkdtemp_name = (\<lambda>s pre. pre @ ''XXXXXX''),
      run_process = (\<lambda>cmd args s. (SpawnError, s)),
      pdfParse = (\<lambda>b. Inr \<lparr>pd_text = b, numpages = 1, pd_info = None\<rparr>),
      mammoth_convertToHtml = (\<lambda>b. Inr \<lparr>mh_value = b, messages = []\<rparr>),
      mammoth_extractRawText = (\<lambda>b. Inr b),
      turndown = (\<lambda>h. Inr h),
      marked = (\<lambda>m. Inr m),
      utf8_decode = (\<lambda>b. b),
      utf8_encode = (\<lambda>t. t),
      packer_toBuffer =
        (\<lambda>ps. Inr (concat (map (\<lambda>p. case p of EmptyParagraph \<Rightarrow> nl
                                          | TextParagraph t \<Rightarrow> t @ nl) ps))),
      browser_launch = None, browser_newPage = None,
      page_render = (\<lambda>h call. Inr h),
      sharp_check = (\<lambda>opr. None),
      sharp_encode =
        (\<lambda>inp d ops out. case inp of None \<Rightarrow> Inl ''Input file is missing''
                           | Some b \<Rightarrow> Inr b),
      sharp_metadata = (\<lambda>inp. Inl ''Input file is missing''),
      jimp_decode = (\<lambda>inp. case inp of None \<Rightarrow> Inl ''ENOENT'' | Some b \<Rightarrow> Inr (1, 1)),
      jimp_check = (\<lambda>opr. None),
      jimp_encode = (\<lambda>inp ops out. case inp of None \<Rightarrow> Inl ''ENOENT'' | Some b \<Rightarrow> Inr b)\<rparr>"

definition test_fs :: "(path \<times> bytes) list \<Rightarrow> fs_state" where
  "test_fs fl = \<lparr>files = map_of fl, dirs = {''.''}, trace = []\<rparr>"

text \<open>The output path the batch driver derives for a file of the input directory.\<close>

definition batch_output_path :: "env \<Rightarrow> path \<Rightarrow> string \<Rightarrow> string \<Rightarrow> path" where
  "batch_output_path E outputDir targetFormat file =
     path_join E outputDir (path_basename E file (path_extname E file) @ ''.'' @ targetFormat)"

text \<open>
  One conversion for each file of a list, in the order of the list, each
  started in the state that the one before has left: the results, and the state
  after the last.
\<close>

fun conversions ::
  "env \<Rightarrow> path \<Rightarrow> path \<Rightarrow> string \<Rightarrow> ImageConversionOptions \<Rightarrow> string list
   \<Rightarrow> fs_state \<Rightarrow> ImageConversionResult list \<times> fs_state" where
  "conversions E inputDir outputDir t opts [] s = ([], s)"
| "conversions E inputDir outputDir t opts (file # rest) s =
     (case convertImage E (path_join E inputDir file) (batch_output_path E outputDir t file)
             t opts s of
        (r, s1) \<Rightarrow>
          (case conversions E inputDir outputDir t opts rest s1 of
             (rs, s2) \<Rightarrow> (r # rs, s2)))"

text \<open>A test environment whose input directory lists two images and one other file.\<close>

definition batch_env :: env where
  "batch_env = test_env\<lparr>readdir_names := (\<lambda>s p. Inr [''a.png'', ''notes.txt'', ''b.JPG''])\<rparr>"

text \<open>
  Every run of the action \<open>m\<close> takes a state to one related to it by \<open>R\<close>.
\<close>

definition io_rel :: "(fs_state \<Rightarrow> fs_state \<Rightarrow> bool) \<Rightarrow> 'a io \<Rightarrow> bool" where
  "io_rel R m = (\<forall>s r s'. m s = (r, s') \<longrightarrow> R s s')"

text \<open>
  From \<open>s\<close> to \<open>s'\<close> no directory was removed, none was created other than
  the directory of \<open>p\<close> and its ancestors, no file other than \<open>p\<close> was touched
  and the trace was only extended.
\<close>

definition grows :: "env \<Rightarrow> path \<Rightarrow> fs_state \<Rightarrow> fs_state \<Rightarrow> bool" where
  "grows E p s s' =
     (dirs s \<subseteq> dirs s' \<and> dirs s' \<subseteq> dirs s \<union> set (ancestors E (path_dirname E p))
      \<and> (\<forall>q. q \<noteq> p \<longrightarrow> files s' q = files s q)
      \<and> (\<exists>evs. trace s' = trace s @ evs))"



text \<open>A test environment whose primary codec always encodes to eight bytes.\<close>

definition shrinking_env :: env where
  "shrinking_env = test_env\<lparr>sharp_encode := (\<lambda>inp d ops out. Inr ''12345678'')\<rparr>"

text \<open>The target formats that \<open>writeDocument\<close> has a branch for.\<close>

definition writable_formats :: "string list" where
  "writable_formats = [''txt'', ''md'', ''html'', ''pdf'', ''docx'']"

text \<open>A step that leaves the state as it is.\<close>

definition unchanged :: "fs_state \<Rightarrow> fs_state \<Rightarrow> bool" where
  "unchanged s s' = (s' = s)"


text \<open>
  The stages of the primary pipeline: the resize call the options ask for, the
  effect calls, the calls that set the options of the output format, and the
  watermark composite. \<open>adds P pl pl'\<close>: the pipeline \<open>pl'\<close> is \<open>pl\<close> followed
  by calls that all satisfy \<open>P\<close>.
\<close>

definition resize_ops :: "ImageConversionOptions \<Rightarrow> sharp_op list" where
  "resize_ops opts =
     (if truthy_num (width opts) \<or> truthy_num (height opts)
      then [Resize (width opts) (height opts) (str_or (fit opts) ''inside'')
              (resize_background opts)]
      else [])"

fun is_effect :: "sharp_op \<Rightarrow> bool" where
  "is_effect (Blur x) = True"
| "is_effect (Sharpen x) = True"
| "is_effect (Modulate b sa h) = True"
| "is_effect Grayscale = True"
| "is_effect Negate = True"
| "is_effect opr = False"

fun is_format :: "sharp_op \<Rightarrow> bool" where
  "is_format (Jpeg q p) = True"
| "is_format (Png q p) = True"
| "is_format (Webp q l e) = True"
| "is_format (Avif q l e) = True"
| "is_format (Tiff q) = True"
| "is_format opr = False"

fun is_composite :: "sharp_op \<Rightarrow> bool" where
  "is_composite (Composite c g) = True"
| "is_composite opr = False"

definition adds :: "(sharp_op \<Rightarrow> bool) \<Rightarrow> sharp_pipeline \<Rightarrow> sharp_pipeline \<Rightarrow> bool" where
  "adds P pl pl' = (\<exists>es. list_all P es \<and> pl' = pl\<lparr>sp_ops := sp_ops pl @ es\<rparr>)"

text \<open>Options that ask for a resize, an effect and a text watermark.\<close>

definition marked_options :: ImageConversionOptions where
  "marked_options =
     \<lparr>quality = None, width = Some 100, height = Some 100, fit = Some ''cover'',
      background = None, progressive = None, lossless = None, effort = None,
      watermark = Some \<lparr>wm_text = Some ''draft'', wm_image = None,
                         wm_position = Some ''bottom-right'', wm_opacity = None,
                         wm_fontSize = None, wm_color = None\<rparr>,
      effects = Some \<lparr>blur = None, sharpen = None, brightness = None, contrast = None,
                       saturation = None, hue = None, grayscale = Some True, sepia = None,
                       invert = None\<rparr>\<rparr>"

text \<open>
  The success criterion of a DOCX to PDF strategy in the words of the
  specification: the external call exits cleanly and the target exists with
  nonzero size. \<open>wordcom_run\<close>, \<open>python_run\<close> and \<open>py_run\<close> are the child
  processes the two strategies start, each in the state in which it is started.
  The Word strategy starts \<open>cscript\<close> in the state \<open>wordcom_prepared\<close>, after
  it has created a temporary directory and written its script there; when
  either cannot be created there is no such state and no child process.
\<close>

definition exists_nonempty :: "env \<Rightarrow> path \<Rightarrow> fs_state \<Rightarrow> bool" where
  "exists_nonempty E p s =
     (case files s p of Some c \<Rightarrow> 0 < length c | None \<Rightarrow> p \<in> dirs s \<and> 0 < dir_size E p)"

definition strategy_succeeded :: "env \<Rightarrow> path \<Rightarrow> proc_exit \<times> fs_state \<Rightarrow> bool" where
  "strategy_succeeded E p run = (fst run = Closed 0 \<and> exists_nonempty E p (snd run))"

definition wordcom_script :: "env \<Rightarrow> fs_state \<Rightarrow> path" where
  "wordcom_script E s =
     path_join E (mkdtemp_name E s (path_join E (tmpdir E) ''docx2pdf-'')) ''docx2pdf.vbs''"

definition wordcom_prepared :: "env \<Rightarrow> fs_state \<Rightarrow> fs_state option" where
  "wordcom_prepared E s =
     (case mkdtemp E (path_join E (tmpdir E) ''docx2pdf-'') s of
        (Inl e, s1) \<Rightarrow> None
      | (Inr d, s1) \<Rightarrow>
          (case writeFile E (wordcom_script E s) (encode_utf8 E vbs_script) s1 of
             (Inl e, s2) \<Rightarrow> None
           | (Inr u, s2) \<Rightarrow> Some s2))"

definition wordcom_run :: "env \<Rightarrow> path \<Rightarrow> path \<Rightarrow> fs_state \<Rightarrow> fs_state \<Rightarrow> proc_exit \<times> fs_state" where
  "wordcom_run E i out s s2 =
     spawn E ''cscript'' [''//nologo'', wordcom_script E s, i, out] s2"

definition python_script :: "env \<Rightarrow> path" where
  "python_script E =
     path_join E (path_join E (cwd E) ''DocumentAssistant'') ''docx_to_pdf_converter.py''"

definition python_run :: "env \<Rightarrow> path \<Rightarrow> path \<Rightarrow> fs_state \<Rightarrow> proc_exit \<times> fs_state" where
  "python_run E i out s =
     spawn E ''python'' [python_script E, i, out] (snd (pathExists (python_script E) s))"

definition py_run :: "env \<Rightarrow> path \<Rightarrow> path \<Rightarrow> fs_state \<Rightarrow> proc_exit \<times> fs_state" where
  "py_run E i out s =
     spawn E ''py'' [''-3'', python_script E, i, out] (snd (python_run E i out s))"

definition wordcom_succeeded :: "env \<Rightarrow> path \<Rightarrow> path \<Rightarrow> fs_state \<Rightarrow> bool" where
  "wordcom_succeeded E i out s =
     (platform E = ''win32''
      \<and> (case wordcom_prepared E s of
            None \<Rightarrow> False
          | Some s2 \<Rightarrow> strategy_succeeded E out (wordcom_run E i out s s2)))"

definition python_succeeded :: "env \<Rightarrow> path \<Rightarrow> path \<Rightarrow> fs_state \<Rightarrow> bool" where
  "python_succeeded E i out s =
     ((files s (python_script E) \<noteq> None \<or> python_script E \<in> dirs s)
      \<and> (strategy_succeeded E out (python_run E i out s)
           \<or> (fst (python_run E i out s) \<noteq> Closed 0
               \<and> strategy_succeeded E out (py_run E i out s))))"

definition strategy_orders :: "string list list" where
  "strategy_orders =
     [[], [''python''], [''python'', ''py''], [''cscript''], [''cscript'', ''python''],
      [''cscript'', ''python'', ''py'']]"

text \<open>No child process is spawned from \<open>s\<close> to \<open>s'\<close>.\<close>

definition quiet :: "fs_state \<Rightarrow> fs_state \<Rightarrow> bool" where
  "quiet s s' = (\<exists>evs. trace s' = trace s @ evs \<and> spawned evs = [])"

text \<open>
  A test environment with a working Python helper: the helper writes a PDF to
  its last argument and exits with code 0.
\<close>

definition helper_env :: env where
  "helper_env =
     test_env\<lparr>run_process :=
                (\<lambda>cmd args s.
                   if cmd = ''python''
                   then (Closed 0, s\<lparr>files := (files s)(last args \<mapsto> ''%PDF-1.7'')\<rparr>)
                   else (SpawnError, s))\<rparr>"

definition helper_fs :: fs_state where
  "helper_fs =
     test_fs [(''a.docx'', ''PK''),
              (''/app/DocumentAssistant/docx_to_pdf_converter.py'', ''import sys'')]"

section \<open>Evaluation and helper lemmas\<close>

lemmas io_defs = io_return_def io_throw_def io_bind_def io_catch_def io_finally_def io_lift_def
  io_when_def log_def pathExists_def ensureDir_def stat_size_def readFile_def writeFile_def
  create_file_def write_error_def mkdir_error_def mkdir_p_def ancestors_def quoted_def

lemma fs_log [simp]:
  "files (log ev s) = files s"
  "dirs (log ev s) = dirs s"
  "trace (log ev s) = trace s @ [ev]"
  "mkdir_error E p (log ev s) = mkdir_error E p s"
  "write_error E p (log ev s) = write_error E p s"
  "mkdir_p E p (log ev s) = log ev (mkdir_p E p s)"
  "files (mkdir_p E p s) = files s"
  "dirs (mkdir_p E p s) = dirs s \<union> set (ancestors E p)"
  "trace (mkdir_p E p s) = trace s"
  by (simp_all add: log_def mkdir_error_def write_error_def mkdir_p_def)

lemma chain_hd: "p \<in> set (chain parent n p)"
  by (cases n) simp_all

lemma ancestors_self: "p \<in> set (ancestors E p)"
  by (simp add: ancestors_def chain_hd)

lemma test_env_sel:
  "platform test_env = ''linux''"
  "tmpdir test_env = ''/tmp''"
  "cwd test_env = ''/app''"
  "base64 test_env = (\<lambda>b. b)"
  "path_extname test_env = posix_extname"
  "path_dirname test_env = posix_dirname"
  "path_basename test_env = posix_basename_ext"
  "path_join test_env = (\<lambda>a b. a @ ''/'' @ b)"
  "mime_lookup test_env = (\<lambda>p. None)"
  "dir_size test_env = (\<lambda>p. 4096)"
  "readdir_names test_env = (\<lambda>s p. Inl (''ENOENT: no such file or directory, scandir '' @ p))"
  "mkdtemp_name test_env = (\<lambda>s pre. pre @ ''XXXXXX'')"
  "run_process test_env = (\<lambda>cmd args s. (SpawnError, s))"
  "pdfParse test_env = (\<lambda>b. Inr \<lparr>pd_text = b, numpages = 1, pd_info = None\<rparr>)"
  "mammoth_convertToHtml test_env = (\<lambda>b. Inr \<lparr>mh_value = b, messages = []\<rparr>)"
  "mammoth_extractRawText test_env = (\<lambda>b. Inr b)"
  "turndown test_env = (\<lambda>h. Inr h)"
  "marked test_env = (\<lambda>m. Inr m)"
  "utf8_decode test_env = (\<lambda>b. b)"
  "utf8_encode test_env = (\<lambda>t. t)"
  "browser_launch test_env = None"
  "browser_newPage test_env = None"
  "page_render test_env = (\<lambda>h call. Inr h)"
  "sharp_check test_env = (\<lambda>opr. None)"
  "sharp_encode test_env =
        (\<lambda>inp d ops out. case inp of None \<Rightarrow> Inl ''Input file is missing''
                           | Some b \<Rightarrow> Inr b)"
  "sharp_metadata test_env = (\<lambda>inp. Inl ''Input file is missing'')"
  "jimp_decode test_env = (\<lambda>inp. case inp of None \<Rightarrow> Inl ''ENOENT'' | Some b \<Rightarrow> Inr (1, 1))"
  "jimp_check test_env = (\<lambda>opr. None)"
  "jimp_encode test_env = (\<lambda>inp ops out. case inp of None \<Rightarrow> Inl ''ENOENT'' | Some b \<Rightarrow> Inr b)"
  by (simp_all add: test_env_def)

lemmas test_defs = test_env_sel test_fs_def posix_extname_def posix_basename_def
  posix_dirname_def posix_basename_ext_def toLowerCase_def lower_char_def

lemmas path_defs = posix_extname_def posix_basename_def posix_dirname_def
  posix_basename_ext_def toLowerCase_def lower_char_def

lemmas image_defs = convertImage_def convertImage_body_def processImage_def processImage_try_def
  sharp_transform_def sharp_effects_def sharp_finish_def sharp_call_def sharp_def toFile_def
  addWatermark_def getWatermarkGravity_def resize_background_def applySharpFormat_def
  processSvgImage_def jimp_call_def jimp_read_def writeAsync_def jimp_effects_def
  processWithJimp_def convertImageToPdf_def with_browser_def newPage_def page_pdf_def
  browser_close_def detectImageFormat_def truthy_num_def truthy_str_def truthy_bool_def
  num_or_def str_or_def empty_image_options_def

section \<open>The compression ratio\<close>

lemma convertImage_reports:
  assumes "convertImage E i out t opts s = (r, s')" "success r"
  shows "original_size r = Some (size_on_disk E s i)
         \<and> new_size r = Some (size_on_disk E s' out)
         \<and> compression_ratio r
             = Some (reported_ratio (size_on_disk E s i) (size_on_disk E s' out))"
proof -
  from assms obtain s0 s1 osz s2 s3 nsz where
    e: "ensureDir E (path_dirname E out) (log (FsPathExists i) s) = (Inr (), s0)"
    and o: "stat_size E i s0 = (Inr osz, s1)"
    and p: "processImage E i out t opts s1 = (Inr (), s2)"
    and n: "stat_size E out s2 = (Inr nsz, s3)"
    and r: "r = \<lparr>success = True, output_path = out,
                 message = ''Successfully converted '' @ detectImageFormat E i @ '' to '' @ t,
                 original_size = Some osz, new_size = Some nsz,
                 compression_ratio = Some (reported_ratio osz nsz)\<rparr>"
    and s': "s' = s3"
    by (auto simp: convertImage_def convertImage_body_def io_bind_def io_return_def io_throw_def
        pathExists_def Let_def split: prod.splits sum.splits if_splits)
  from e have f0: "files s0 = files s"
    by (auto simp: ensureDir_def split: option.splits)
  from o f0 have osz: "osz = size_on_disk E s i"
    by (auto simp: stat_size_def size_on_disk_def split: option.splits if_splits)
  from n s' have nsz: "nsz = size_on_disk E s' out"
    by (auto simp: stat_size_def size_on_disk_def split: option.splits if_splits)
  from r osz nsz show ?thesis by simp
qed

declare bit_length.simps [simp del]

lemma bit_length_upper: "n < 2 ^ bit_length n"
proof (induction n rule: bit_length.induct)
  case (1 n)
  show ?case
  proof (cases "n = 0")
    case True
    then show ?thesis by (simp add: bit_length.simps)
  next
    case False
    with 1 have "n div 2 < 2 ^ bit_length (n div 2)" by simp
    then have "n < 2 * 2 ^ bit_length (n div 2)" by linarith
    with False show ?thesis by (simp add: bit_length.simps[of n])
  qed
qed

lemma bit_length_lower: "0 < n \<Longrightarrow> 2 ^ (bit_length n - 1) \<le> n"
proof (induction n rule: bit_length.induct)
  case (1 n)
  show ?case
  proof (cases "n div 2 = 0")
    case True
    with 1(2) have "n = 1" by linarith
    then show ?thesis by (simp add: bit_length.simps[of "Suc 0"] bit_length.simps[of 0])
  next
    case False
    with 1 have ih: "2 ^ (bit_length (n div 2) - 1) \<le> n div 2" by simp
    from False have pos: "0 < bit_length (n div 2)"
      by (simp add: bit_length.simps[of "n div 2"])
    have "bit_length n = Suc (bit_length (n div 2))"
      using 1(2) by (simp add: bit_length.simps[of n])
    then have "(2::nat) ^ (bit_length n - 1) = 2 * 2 ^ (bit_length (n div 2) - 1)"
      using pos by (cases "bit_length (n div 2)") simp_all
    with ih show ?thesis by linarith
  qed
qed

lemma expo_lower:
  assumes "0 < x"
  shows "2 powi (expo x) \<le> x"
proof (cases "1 \<le> x")
  case True
  then have p: "0 < nat \<lfloor>x\<rfloor>" by simp
  have "expo x = int (bit_length (nat \<lfloor>x\<rfloor>) - 1)"
    using True bit_length_upper[of "nat \<lfloor>x\<rfloor>"] p
    by (cases "bit_length (nat \<lfloor>x\<rfloor>)") (simp_all add: expo_def)
  then have "(2::rat) powi (expo x) = of_nat (2 ^ (bit_length (nat \<lfloor>x\<rfloor>) - 1))"
    by (simp add: power_int_def)
  also have "\<dots> \<le> of_nat (nat \<lfloor>x\<rfloor>)"
    using bit_length_lower[OF p] by (simp only: of_nat_le_iff)
  also have "\<dots> \<le> x" using True by (simp add: of_nat_nat)
  finally show ?thesis .
next
  case False
  let ?k = "bit_length (nat \<lceil>1 / x\<rceil> - 1)"
  have e: "expo x = - int ?k" using False by (simp add: expo_def)
  have "1 / x \<le> of_int \<lceil>1 / x\<rceil>" by linarith
  moreover have "0 < \<lceil>1 / x\<rceil>" using assms by (simp add: ceiling_less_iff)
  ultimately have "1 / x \<le> of_nat (nat \<lceil>1 / x\<rceil>)" by (simp add: of_nat_nat)
  also have "nat \<lceil>1 / x\<rceil> \<le> 2 ^ ?k"
    using bit_length_upper[of "nat \<lceil>1 / x\<rceil> - 1"] by linarith
  then have "(of_nat (nat \<lceil>1 / x\<rceil>) :: rat) \<le> of_nat (2 ^ ?k)"
    by (simp only: of_nat_le_iff)
  finally have "1 / x \<le> 2 ^ ?k" by simp
  then have "1 \<le> x * 2 ^ ?k" using assms by (simp add: field_simps)
  then have "1 / 2 ^ ?k \<le> x" by (simp add: field_simps)
  moreover have "(2::rat) powi (expo x) = 1 / 2 ^ ?k"
    by (simp add: e power_int_def field_simps)
  ultimately show ?thesis by simp
qed

lemma round_even_near: "\<bar>of_int (round_even y) - y\<bar> \<le> 1 / 2"
proof -
  define f where "f = \<lfloor>y\<rfloor>"
  have "of_int f \<le> y" "y < of_int f + 1" unfolding f_def by linarith+
  then show ?thesis
    unfolding round_even_def Let_def f_def[symmetric] by (auto simp: abs_le_iff)
qed

lemma to_double_error: "\<bar>to_double x - x\<bar> \<le> \<bar>x\<bar> / 2 ^ 53"
proof (cases "x = 0")
  case True
  then show ?thesis by (simp add: to_double_def)
next
  case False
  define e where "e = expo \<bar>x\<bar> - 52"
  define m where "m = round_even (\<bar>x\<bar> / 2 powi e)"
  have p: "(0::rat) < 2 powi e" by simp
  have td: "to_double x = sgn x * of_int m * 2 powi e"
    using False by (simp add: to_double_def e_def m_def Let_def)
  have near: "\<bar>of_int m - \<bar>x\<bar> / 2 powi e\<bar> \<le> 1 / 2"
    unfolding m_def by (rule round_even_near)
  have "\<bar>to_double x - x\<bar> = \<bar>sgn x * (of_int m * 2 powi e - \<bar>x\<bar>)\<bar>"
    unfolding td by (simp add: algebra_simps sgn_mult_abs flip: abs_sgn mult.assoc)
      (metis mult.commute sgn_mult_abs mult.assoc)
  also have "\<dots> = \<bar>of_int m * 2 powi e - \<bar>x\<bar>\<bar>"
    using False by (simp add: abs_mult abs_sgn_eq)
  also have "\<dots> = \<bar>of_int m - \<bar>x\<bar> / 2 powi e\<bar> * 2 powi e"
  proof -
    have "of_int m * 2 powi e - \<bar>x\<bar> = (of_int m - \<bar>x\<bar> / 2 powi e) * 2 powi e"
      using p by (simp add: field_simps)
    then show ?thesis using p by (simp add: abs_mult)
  qed
  also have "\<dots> \<le> 1 / 2 * 2 powi e"
    using near p by (intro mult_right_mono) simp_all
  also have "\<dots> = 2 powi (expo \<bar>x\<bar>) / 2 ^ 53"
  proof -
    have "(2::rat) powi e = 2 powi (expo \<bar>x\<bar>) / 2 powi 52"
      unfolding e_def by (rule power_int_diff) simp
    then show ?thesis by simp
  qed
  also have "\<dots> \<le> \<bar>x\<bar> / 2 ^ 53"
    using expo_lower[of "\<bar>x\<bar>"] False by (simp add: divide_right_mono)
  finally show ?thesis .
qed

lemma three_roundings:
  fixes q r1 r2 r3 :: rat
  assumes "\<bar>r1 - q\<bar> \<le> \<bar>q\<bar> / 2 ^ 53"
    and "\<bar>r2 - r1 * 100\<bar> \<le> \<bar>r1 * 100\<bar> / 2 ^ 53"
    and "\<bar>r3 - r2 * 100\<bar> \<le> \<bar>r2 * 100\<bar> / 2 ^ 53"
  shows "\<bar>r3 - q * 10000\<bar> \<le> \<bar>q * 10000\<bar> / 2 ^ 51"
proof -
  have a: "\<bar>r1 - q\<bar> \<le> \<bar>q\<bar> / 9007199254740992"
    "\<bar>r2 - r1 * 100\<bar> \<le> \<bar>r1 * 100\<bar> / 9007199254740992"
    "\<bar>r3 - r2 * 100\<bar> \<le> \<bar>r2 * 100\<bar> / 9007199254740992"
    using assms by simp_all
  have "\<bar>r3 - q * 10000\<bar> \<le> \<bar>q * 10000\<bar> / 2251799813685248"
    using a by linarith
  then show ?thesis by simp
qed

lemma reported_ratio_pos:
  assumes "0 < osz"
  shows "reported_ratio osz nsz =
           Num (to_double (of_int \<lfloor>to_double (to_double (to_double
                  ((of_nat osz - of_nat nsz) / of_nat osz) * 100) * 100) + 1 / 2\<rfloor> / 100))"
  using assms
  by (simp add: reported_ratio_def compressionRatio_def js_div_def js_times_def js_over_def
      Math_round_def)

lemma reported_ratio_rounds:
  assumes "0 < osz"
  shows "\<exists>k. reported_ratio osz nsz = Num (to_double (of_int k / 100))
           \<and> rounds_to_cents ((of_nat osz - of_nat nsz) / of_nat osz * 100) k"
proof -
  define q :: rat where "q = (of_nat osz - of_nat nsz) / of_nat osz"
  define r1 where "r1 = to_double q"
  define r2 where "r2 = to_double (r1 * 100)"
  define r3 where "r3 = to_double (r2 * 100)"
  define k where "k = \<lfloor>r3 + 1 / 2\<rfloor>"
  have e: "\<bar>r3 - q * 10000\<bar> \<le> \<bar>q * 10000\<bar> / 2 ^ 51"
    unfolding r3_def r2_def r1_def
    by (rule three_roundings) (rule to_double_error)+
  then have e': "\<bar>r3 - q * 10000\<bar> \<le> \<bar>q * 10000\<bar> / 2251799813685248"
    by simp
  have a: "of_int k \<le> r3 + 1 / 2" unfolding k_def by linarith
  have b: "r3 + 1 / 2 < of_int k + 1" unfolding k_def by linarith
  have "\<bar>of_int k / 100 - q * 100\<bar> \<le> 1 / 200 + \<bar>q * 100\<bar> / 2251799813685248"
    using e' a b by linarith
  then have "\<bar>of_int k / 100 - q * 100\<bar> \<le> 1 / 200 + \<bar>q * 100\<bar> / 2 ^ 51"
    by simp
  then have "rounds_to_cents (q * 100) k" by (simp add: rounds_to_cents_def)
  moreover have "reported_ratio osz nsz = Num (to_double (of_int k / 100))"
    unfolding reported_ratio_pos[OF assms] k_def r3_def r2_def r1_def q_def by simp
  ultimately show ?thesis unfolding q_def by blast
qed

lemma floor_rat_numeral:
  "\<lfloor>(numeral a :: rat) / numeral b\<rfloor> = numeral a div numeral b"
  "\<lfloor>- ((numeral a :: rat) / numeral b)\<rfloor> = - numeral a div numeral b"
  using floor_divide_of_int_eq[of "numeral a" "numeral b", where ?'a = rat]
    floor_divide_of_int_eq[of "- numeral a" "numeral b", where ?'a = rat]
  by simp_all

lemma bit_length_numeral:
  "bit_length 0 = 0"
  "bit_length (numeral k) = Suc (bit_length (numeral k div 2))"
  by (simp_all add: bit_length.simps[of 0] bit_length.simps[of "numeral k"])

lemma bit_length_1: "bit_length (Suc 0) = 1" "bit_length 1 = 1"
  by (simp_all add: bit_length.simps[of "Suc 0"] bit_length.simps[of 1] bit_length.simps[of 0])

lemma two_powi: "(2::rat) powi e = (if 0 \<le> e then 2 ^ nat e else 1 / 2 ^ nat (- e))"
  by (simp add: power_int_def power_one_over field_simps)

lemma bit_length_vals: "bit_length 4 = 3" "bit_length 20 = 5" "bit_length 2000 = 11"
  by (simp_all add: bit_length_numeral bit_length_1)

lemma expo_vals:
  "expo (1 / 5) = - 3"
  "expo (90071992547409925 / 4503599627370496) = 4"
  "expo 2000 = 10"
  "expo 20 = 4"
  by (simp_all add: expo_def floor_rat_numeral bit_length_vals)

lemma to_double_vals:
  "to_double (1 / 5) = 3602879701896397 / 18014398509481984"
  "to_double (90071992547409925 / 4503599627370496) = 20"
  "to_double 2000 = 2000"
  "to_double 20 = 20"
  by (simp_all add: to_double_def expo_vals two_powi round_even_def floor_rat_numeral Let_def)

lemma to_double_minus: "to_double (- x) = - to_double x"
  by (simp add: to_double_def Let_def)

lemma ratio_20: "reported_ratio 1000 800 = Num 20"
  by (simp add: reported_ratio_def compressionRatio_def js_div_def js_times_def js_over_def
      Math_round_def to_double_vals floor_rat_numeral)

lemma ratio_minus_20: "reported_ratio 1000 1200 = Num (- 20)"
  by (simp add: reported_ratio_def compressionRatio_def js_div_def js_times_def js_over_def
      Math_round_def to_double_vals to_double_minus floor_rat_numeral)

lemma ratio_10_8: "reported_ratio 10 8 = Num 20"
  by (simp add: reported_ratio_def compressionRatio_def js_div_def js_times_def js_over_def
      Math_round_def to_double_vals floor_rat_numeral)

text \<open>
  Claim C5. A successful image conversion reports as original size the size of
  the input file before the conversion, as new size the size of the output
  file after it, and as compression ratio the ratio computed from these two
  sizes. For a non-empty input that ratio is the double nearest to \<open>k / 100\<close>
  for a whole number \<open>k\<close> of hundredths that is
  \<open>(originalSize - newSize) / originalSize * 100\<close> rounded to two decimal
  places. Sizes 1000 and 800 give exactly 20, sizes 1000 and 1200 give exactly
  -20: a negative ratio is reported as it is. For an empty input the quotient
  is not a finite number and is reported as such.
\<close>

theorem compression_ratio_reported:
  "(\<forall>r s'. convertImage E i out t opts s = (r, s') \<and> success r \<longrightarrow>
      original_size r = Some (size_on_disk E s i)
      \<and> new_size r = Some (size_on_disk E s' out)
      \<and> compression_ratio r
          = Some (reported_ratio (size_on_disk E s i) (size_on_disk E s' out)))
   \<and> (0 < osz \<longrightarrow>
        (\<exists>k. reported_ratio osz nsz = Num (to_double (of_int k / 100))
           \<and> rounds_to_cents ((of_nat osz - of_nat nsz) / of_nat osz * 100) k))
   \<and> reported_ratio 1000 800 = Num 20
   \<and> reported_ratio 1000 1200 = Num (- 20)
   \<and> reported_ratio 0 nsz = (if nsz = 0 then NaN else NegInfinity)"
proof (intro conjI allI impI)
  fix r s' assume a: "convertImage E i out t opts s = (r, s') \<and> success r"
  then have c: "convertImage E i out t opts s = (r, s')" and ok: "success r" by simp_all
  note rep = convertImage_reports[OF c ok]
  from rep show "original_size r = Some (size_on_disk E s i)" by simp
  from rep show "new_size r = Some (size_on_disk E s' out)" by simp
  from rep show "compression_ratio r
          = Some (reported_ratio (size_on_disk E s i) (size_on_disk E s' out))" by simp
next
  assume "0 < osz"
  then show "\<exists>k. reported_ratio osz nsz = Num (to_double (of_int k / 100))
           \<and> rounds_to_cents ((of_nat osz - of_nat nsz) / of_nat osz * 100) k"
    by (rule reported_ratio_rounds)
next
  show "reported_ratio 1000 800 = Num 20" by (rule ratio_20)
next
  show "reported_ratio 1000 1200 = Num (- 20)" by (rule ratio_minus_20)
next
  show "reported_ratio 0 nsz = (if nsz = 0 then NaN else NegInfinity)"
    by (simp add: reported_ratio_def compressionRatio_def js_div_def js_times_def js_over_def
        Math_round_def)
qed

lemma shrinking_env_sel:
  "path_extname shrinking_env = posix_extname"
  "path_dirname shrinking_env = posix_dirname"
  "mime_lookup shrinking_env = (\<lambda>p. None)"
  "dir_size shrinking_env = (\<lambda>p. 4096)"
  "sharp_check shrinking_env = (\<lambda>opr. None)"
  "sharp_encode shrinking_env = (\<lambda>inp d ops out. Inr ''12345678'')"
  by (simp_all add: shrinking_env_def test_env_sel)

theorem compression_ratio_reported_witness:
  "convertImage shrinking_env ''a.png'' ''out/a.jpg'' ''jpg'' empty_image_options
       (test_fs [(''a.png'', ''0123456789'')])
     = (\<lparr>success = True, output_path = ''out/a.jpg'',
          message = ''Successfully converted png to jpg'',
          original_size = Some 10, new_size = Some 8, compression_ratio = Some (Num 20)\<rparr>,
        \<lparr>files = [''a.png'' \<mapsto> ''0123456789'', ''out/a.jpg'' \<mapsto> ''12345678''],
         dirs = {''out'', ''.''},
         trace = [FsPathExists ''a.png'', FsEnsureDir ''out'', FsStat ''a.png'',
                  SharpToFile ''a.png'' ''out/a.jpg'', FsStat ''out/a.jpg'']\<rparr>)
   \<and> (0::nat) < 3
   \<and> (\<exists>k. reported_ratio 3 1 = Num (to_double (of_int k / 100))
          \<and> rounds_to_cents ((of_nat 3 - of_nat 1) / of_nat 3 * 100) k)"
proof -
  let ?s = "test_fs [(''a.png'', ''0123456789'')]"
  let ?s' = "\<lparr>files = [''a.png'' \<mapsto> ''0123456789'', ''out/a.jpg'' \<mapsto> ''12345678''],
         dirs = {''out'', ''.''},
         trace = [FsPathExists ''a.png'', FsEnsureDir ''out'', FsStat ''a.png'',
                  SharpToFile ''a.png'' ''out/a.jpg'', FsStat ''out/a.jpg'']\<rparr>"
  obtain r s' where run: "convertImage shrinking_env ''a.png'' ''out/a.jpg'' ''jpg''
      empty_image_options ?s = (r, s')"
    by (cases "convertImage shrinking_env ''a.png'' ''out/a.jpg'' ''jpg''
      empty_image_options ?s")
  have d: "detectImageFormat shrinking_env ''a.png'' = ''png''"
    by (simp add: detectImageFormat_def shrinking_env_sel posix_extname_def posix_basename_def
        toLowerCase_def lower_char_def)
  have ok: "success r \<and> output_path r = ''out/a.jpg''
            \<and> message r = ''Successfully converted png to jpg'' \<and> s' = ?s'"
    using run
    by (auto simp: convertImage_def convertImage_body_def processImage_def processImage_try_def
        sharp_transform_def sharp_finish_def sharp_call_def sharp_def toFile_def io_defs d
        shrinking_env_sel posix_dirname_def test_fs_def truthy_num_def num_or_def
        truthy_bool_def empty_image_options_def toLowerCase_def lower_char_def Let_def)
  have sz: "size_on_disk shrinking_env ?s ''a.png'' = 10"
    "size_on_disk shrinking_env ?s' ''out/a.jpg'' = 8"
    by (simp_all add: size_on_disk_def test_fs_def)
  have pos: "(0::nat) < 3" by simp
  note th = compression_ratio_reported[of shrinking_env "''a.png''" "''out/a.jpg''" "''jpg''"
        empty_image_options ?s 3 1]
  from th run ok sz have a: "original_size r = Some 10 \<and> new_size r = Some 8
      \<and> compression_ratio r = Some (Num 20)"
    by (simp add: ratio_10_8)
  from th pos have b: "\<exists>k. reported_ratio 3 1 = Num (to_double (of_int k / 100))
          \<and> rounds_to_cents ((of_nat 3 - of_nat 1) / of_nat 3 * 100) k"
    by blast
  have "r = \<lparr>success = True, output_path = ''out/a.jpg'',
          message = ''Successfully converted png to jpg'',
          original_size = Some 10, new_size = Some 8, compression_ratio = Some (Num 20)\<rparr>"
    using ok a by (cases r) simp
  with run ok pos b show ?thesis by simp
qed

section \<open>Document information\<close>

lemma docx_not_image: "''docx'' \<notin> set imageFormats"
  by (simp add: imageFormats_def)

text \<open>
  Claim C9. For a file detected as docx, \<open>getDocumentInfo\<close> returns, and reports
  as page count the ceiling of the length of the extracted raw text divided
  by 2000; when the extraction throws, the call still returns and the page
  count is absent.
\<close>

theorem docx_page_estimate:
  assumes "files s p = Some b" "detectFormat E p = ''docx''"
  shows "getDocumentInfo E p s =
           (Inr \<lparr>di_format = ''docx'', di_size = length b,
                 pages = (case mammoth_extractRawText E b of
                            Inl e \<Rightarrow> None
                          | Inr v \<Rightarrow> Some \<lceil>(of_nat (length v) :: rat) / 2000\<rceil>),
                 title = None, author = None\<rparr>,
            log (FsReadFile p) (log (FsStat p) s))"
  using assms
  by (simp add: getDocumentInfo_def io_defs docx_not_image Let_def split: sum.splits)

lemma detect_docx: "detectFormat test_env ''a.docx'' = ''docx''"
  by (simp add: detectFormat_def test_defs)

theorem docx_page_estimate_witness:
  "pages (projr (fst (getDocumentInfo test_env ''a.docx''
      (test_fs [(''a.docx'', replicate 4001 (CHR ''x''))])))) = Some 3
   \<and> pages (projr (fst (getDocumentInfo (test_env\<lparr>mammoth_extractRawText := (\<lambda>b. Inl ''corrupt'')\<rparr>) ''a.docx''
      (test_fs [(''a.docx'', ''abc'')])))) = None"
proof -
  have d: "detectFormat (test_env\<lparr>mammoth_extractRawText := (\<lambda>b. Inl ''corrupt'')\<rparr>) ''a.docx'' = ''docx''"
    by (simp add: detectFormat_def test_defs)
  have c: "\<lceil>(4001 :: rat) / 2000\<rceil> = 3" by (simp add: ceiling_eq_iff)
  show ?thesis
    using docx_page_estimate[of "test_fs [(''a.docx'', replicate 4001 (CHR ''x''))]" "''a.docx''" _ test_env]
      docx_page_estimate[of "test_fs [(''a.docx'', ''abc'')]" "''a.docx''" _ "test_env\<lparr>mammoth_extractRawText := (\<lambda>b. Inl ''corrupt'')\<rparr>"]
    by (simp add: detect_docx d test_fs_def test_env_sel c)
qed

section \<open>Errors become results\<close>

lemma convertImage_body_success:
  "convertImage_body E i out t opts s = (Inr r, s') \<Longrightarrow> success r"
  by (auto simp: convertImage_body_def io_bind_def io_return_def io_throw_def Let_def
      split: prod.splits sum.splits if_splits)

lemma convertImage_outcome:
  "convertImage E i out t opts s = (r, s') \<Longrightarrow>
     output_path r = out \<and> (success r \<or> (\<exists>e. message r = ''Image conversion failed: '' @ e))"
  by (auto simp: convertImage_def convertImage_body_def io_bind_def io_return_def io_throw_def Let_def
      split: prod.splits sum.splits if_splits)

lemma convert_generic_outcome:
  "convert_generic E i out t opts f s = (Inr r, s') \<Longrightarrow>
     success r \<or> (\<exists>e. message r = ''Image conversion failed: '' @ e)"
  by (auto simp: convert_generic_def io_bind_def io_return_def doc_result_def
      split: prod.splits sum.splits if_splits dest: convertImage_outcome)

lemma convertDocument_body_outcome:
  "convertDocument_body E i out t opts s = (Inr r, s') \<Longrightarrow>
     success r \<or> (\<exists>e. message r = ''Image conversion failed: '' @ e)"
  by (auto simp: convertDocument_body_def io_bind_def io_return_def io_throw_def doc_result_def Let_def
      split: prod.splits sum.splits if_splits dest: convert_generic_outcome)


text \<open>
  Claim C3. \<open>convertDocument\<close> and \<open>convertImage\<close> always return a result
  for the output path asked for: an error raised by any stage inside is
  turned into a result with \<open>success = False\<close> whose message is a fixed
  prefix followed by the text of the error.
\<close>

theorem convert_never_throws:
  "(\<exists>r s'. convertDocument E i out t opts s = (r, s') \<and> output_path r = out
       \<and> (success r \<or> (\<exists>e. message r = ''Conversion failed: '' @ e)
            \<or> (\<exists>e. message r = ''Image conversion failed: '' @ e)))
   \<and> (\<forall>e s1. convertDocument_body E i out t opts s = (Inl e, s1) \<longrightarrow>
          convertDocument E i out t opts s
            = (doc_result False out (''Conversion failed: '' @ e), s1))
   \<and> (\<exists>r s'. convertImage E i out t iopts s = (r, s') \<and> output_path r = out
       \<and> (success r \<or> (\<exists>e. message r = ''Image conversion failed: '' @ e)))
   \<and> (\<forall>e s1. convertImage_body E i out t iopts s = (Inl e, s1) \<longrightarrow>
          convertImage E i out t iopts s
            = (\<lparr>success = False, output_path = out,
                 message = ''Image conversion failed: '' @ e,
                 original_size = None, new_size = None, compression_ratio = None\<rparr>, s1))"
proof (intro conjI allI impI)
  show "\<exists>r s'. convertDocument E i out t opts s = (r, s') \<and> output_path r = out
       \<and> (success r \<or> (\<exists>e. message r = ''Conversion failed: '' @ e)
            \<or> (\<exists>e. message r = ''Image conversion failed: '' @ e))"
  proof (cases "convertDocument_body E i out t opts s")
    case (Pair x s1)
    show ?thesis
    proof (cases x)
      case (Inl e)
      with Pair show ?thesis by (simp add: convertDocument_def doc_result_def)
    next
      case (Inr r)
      with Pair have b: "convertDocument_body E i out t opts s = (Inr r, s1)" by simp
      have "output_path r = out"
        using b
        by (auto simp: convertDocument_body_def convert_generic_def io_bind_def io_return_def
            io_throw_def doc_result_def Let_def
            split: prod.splits sum.splits if_splits dest: convertImage_outcome)
      with convertDocument_body_outcome[OF b] b show ?thesis
        by (auto simp: convertDocument_def)
    qed
  qed
next
  fix e s1 assume "convertDocument_body E i out t opts s = (Inl e, s1)"
  then show "convertDocument E i out t opts s
            = (doc_result False out (''Conversion failed: '' @ e), s1)"
    by (simp add: convertDocument_def)
next
  show "\<exists>r s'. convertImage E i out t iopts s = (r, s') \<and> output_path r = out
       \<and> (success r \<or> (\<exists>e. message r = ''Image conversion failed: '' @ e))"
    using convertImage_outcome[of E i out t iopts s]
    by (cases "convertImage E i out t iopts s") auto
next
  fix e s1 assume "convertImage_body E i out t iopts s = (Inl e, s1)"
  then show "convertImage E i out t iopts s
            = (\<lparr>success = False, output_path = out,
                 message = ''Image conversion failed: '' @ e,
                 original_size = None, new_size = None, compression_ratio = None\<rparr>, s1)"
    by (simp add: convertImage_def)
qed

theorem convert_never_throws_witness:
  "convertDocument_body test_env ''gone.txt'' ''out/b.md'' ''md'' empty_options (test_fs [])
     = (Inl ''Input file does not exist: gone.txt'',
        \<lparr>files = Map.empty, dirs = {''.''}, trace = [FsPathExists ''gone.txt'']\<rparr>)
   \<and> convertDocument test_env ''gone.txt'' ''out/b.md'' ''md'' empty_options (test_fs [])
     = (doc_result False ''out/b.md'' ''Conversion failed: Input file does not exist: gone.txt'',
        \<lparr>files = Map.empty, dirs = {''.''}, trace = [FsPathExists ''gone.txt'']\<rparr>)
   \<and> convertImage_body test_env ''gone.png'' ''out/b.jpg'' ''jpg'' empty_image_options (test_fs [])
     = (Inl ''Input file does not exist: gone.png'',
        \<lparr>files = Map.empty, dirs = {''.''}, trace = [FsPathExists ''gone.png'']\<rparr>)
   \<and> message (fst (convertImage test_env ''gone.png'' ''out/b.jpg'' ''jpg'' empty_image_options
        (test_fs []))) = ''Image conversion failed: Input file does not exist: gone.png''"
proof -
  have a: "convertDocument_body test_env ''gone.txt'' ''out/b.md'' ''md'' empty_options (test_fs [])
     = (Inl ''Input file does not exist: gone.txt'',
        \<lparr>files = Map.empty, dirs = {''.''}, trace = [FsPathExists ''gone.txt'']\<rparr>)"
    by (simp add: convertDocument_body_def io_defs test_fs_def)
  have b: "convertImage_body test_env ''gone.png'' ''out/b.jpg'' ''jpg'' empty_image_options (test_fs [])
     = (Inl ''Input file does not exist: gone.png'',
        \<lparr>files = Map.empty, dirs = {''.''}, trace = [FsPathExists ''gone.png'']\<rparr>)"
    by (simp add: convertImage_body_def io_defs test_fs_def)
  from convert_never_throws[of test_env "''gone.txt''" "''out/b.md''" "''md''" empty_options "test_fs []"
        empty_image_options] a
  have c: "convertDocument test_env ''gone.txt'' ''out/b.md'' ''md'' empty_options (test_fs [])
     = (doc_result False ''out/b.md'' ''Conversion failed: Input file does not exist: gone.txt'',
        \<lparr>files = Map.empty, dirs = {''.''}, trace = [FsPathExists ''gone.txt'']\<rparr>)"
    by simp
  from convert_never_throws[of test_env "''gone.png''" "''out/b.jpg''" "''jpg''" empty_options "test_fs []"
        empty_image_options] b
  have d: "message (fst (convertImage test_env ''gone.png'' ''out/b.jpg'' ''jpg'' empty_image_options
        (test_fs []))) = ''Image conversion failed: Input file does not exist: gone.png''"
    by simp
  from a b c d show ?thesis by simp
qed

section \<open>Round trip through Markdown\<close>

lemma txt_md_not_image: "''txt'' \<notin> set imageFormats" "''md'' \<notin> set imageFormats"
  by (simp_all add: imageFormats_def)

lemma convert_txt_to_md:
  assumes "is_ascii t" "files s a = Some t" "detectFormat E a = ''txt''"
    and "convertDocument E a b ''md'' oa s = (r1, s1)"
  shows "(success r1 \<longleftrightarrow> can_write E b s) \<and> (success r1 \<longrightarrow> files s1 b = Some t)"
  using assms
  by (auto simp: convertDocument_def convertDocument_body_def convert_generic_def
      readDocument_def writeDocument_def io_return_def io_throw_def io_bind_def io_lift_def
      pathExists_def ensureDir_def readFile_def writeFile_def create_file_def can_write_def
      txt_md_not_image toString_utf8_def encode_utf8_def truthy_str_def doc_result_def Let_def
      split: option.splits)

lemma convert_md_to_txt:
  assumes "is_ascii t" "files s b = Some t" "detectFormat E b = ''md''"
    and "convertDocument E b c ''txt'' ob s = (r2, s2)"
  shows "(success r2 \<longleftrightarrow> can_write E c s \<and> \<not> isl (marked E t))
         \<and> (success r2 \<longrightarrow> files s2 c = Some t)"
  using assms
  by (cases "marked E t")
     (auto simp: convertDocument_def convertDocument_body_def convert_generic_def
      readDocument_def writeDocument_def io_return_def io_throw_def io_bind_def io_lift_def
      pathExists_def ensureDir_def readFile_def writeFile_def create_file_def can_write_def
      txt_md_not_image toString_utf8_def encode_utf8_def truthy_str_def doc_result_def Let_def
      split: option.splits)

text \<open>
  Claim C7. Let the ASCII text \<open>t\<close> be in a file detected as txt; convert it
  to a file detected as md, and that file to txt. The first conversion
  succeeds exactly when its output can be written, and then leaves exactly
  \<open>t\<close> in the md file. The second succeeds exactly when its output can be
  written and the Markdown renderer, which the md reader calls, returns on
  \<open>t\<close>. When both succeed, the final output holds exactly \<open>t\<close>.
\<close>

theorem txt_md_txt_roundtrip:
  assumes "is_ascii t" "files s a = Some t" "detectFormat E a = ''txt''"
    "detectFormat E b = ''md''"
    and "convertDocument E a b ''md'' oa s = (r1, s1)"
    and "convertDocument E b c ''txt'' ob s1 = (r2, s2)"
  shows "(success r1 \<longleftrightarrow> can_write E b s)
         \<and> (success r1 \<longrightarrow>
              files s1 b = Some t
              \<and> (success r2 \<longleftrightarrow> can_write E c s1 \<and> \<not> isl (marked E t))
              \<and> (success r2 \<longrightarrow> files s2 c = Some t))"
proof -
  note one = convert_txt_to_md[OF assms(1,2,3,5)]
  show ?thesis
  proof (cases "success r1")
    case False
    with one show ?thesis by simp
  next
    case True
    with one have f: "files s1 b = Some t" by simp
    note two = convert_md_to_txt[OF assms(1) f assms(4,6)]
    from one True f two show ?thesis by simp
  qed
qed

theorem txt_md_txt_roundtrip_witness:
  "is_ascii ''# Title'' \<and> files (test_fs [(''in.txt'', ''# Title'')]) ''in.txt'' = Some ''# Title''
   \<and> detectFormat test_env ''in.txt'' = ''txt'' \<and> detectFormat test_env ''mid.md'' = ''md''
   \<and> can_write test_env ''mid.md'' (test_fs [(''in.txt'', ''# Title'')])
   \<and> (\<exists>r1 s1 r2 s2.
         convertDocument test_env ''in.txt'' ''mid.md'' ''md'' empty_options
           (test_fs [(''in.txt'', ''# Title'')]) = (r1, s1)
       \<and> convertDocument test_env ''mid.md'' ''out/back.txt'' ''txt'' empty_options s1 = (r2, s2)
       \<and> success r1 \<and> success r2 \<and> files s1 ''mid.md'' = Some ''# Title''
       \<and> files s2 ''out/back.txt'' = Some ''# Title'')
   \<and> \<not> can_write test_env ''in.txt/mid.md'' (test_fs [(''in.txt'', ''# Title'')])
   \<and> \<not> success (fst (convertDocument test_env ''in.txt'' ''in.txt/mid.md'' ''md'' empty_options
                        (test_fs [(''in.txt'', ''# Title'')])))"
proof -
  let ?s = "test_fs [(''in.txt'', ''# Title'')]"
  obtain r1 s1 where c1: "convertDocument test_env ''in.txt'' ''mid.md'' ''md'' empty_options ?s
      = (r1, s1)"
    by (cases "convertDocument test_env ''in.txt'' ''mid.md'' ''md'' empty_options ?s")
  obtain r2 s2 where c2: "convertDocument test_env ''mid.md'' ''out/back.txt'' ''txt''
      empty_options s1 = (r2, s2)"
    by (cases "convertDocument test_env ''mid.md'' ''out/back.txt'' ''txt'' empty_options s1")
  obtain r3 s3 where c3: "convertDocument test_env ''in.txt'' ''in.txt/mid.md'' ''md''
      empty_options ?s = (r3, s3)"
    by (cases "convertDocument test_env ''in.txt'' ''in.txt/mid.md'' ''md'' empty_options ?s")
  obtain r4 s4 where c4: "convertDocument test_env ''in.txt/mid.md'' ''x.txt'' ''txt''
      empty_options s3 = (r4, s4)"
    by (cases "convertDocument test_env ''in.txt/mid.md'' ''x.txt'' ''txt'' empty_options s3")
  have h1: "is_ascii ''# Title''" by (simp add: is_ascii_def)
  have h2: "files ?s ''in.txt'' = Some ''# Title''"
    by (simp add: test_fs_def)
  have h3: "detectFormat test_env ''in.txt'' = ''txt''"
    by (simp add: detectFormat_def test_defs)
  have h4: "detectFormat test_env ''mid.md'' = ''md''"
    by (simp add: detectFormat_def test_defs)
  have h4': "detectFormat test_env ''in.txt/mid.md'' = ''md''"
    by (simp add: detectFormat_def test_defs)
  have w1: "can_write test_env ''mid.md'' ?s"
    by (simp add: can_write_def mkdir_error_def write_error_def mkdir_p_def ancestors_def
        test_defs)
  have w3: "\<not> can_write test_env ''in.txt/mid.md'' ?s"
    by (simp add: can_write_def mkdir_error_def test_defs)
  note th1 = txt_md_txt_roundtrip[OF h1 h2 h3 h4 c1 c2]
  note th3 = txt_md_txt_roundtrip[OF h1 h2 h3 h4' c3 c4]
  from th1 w1 have ok1: "success r1" and f1: "files s1 ''mid.md'' = Some ''# Title''"
    by simp_all
  have dirs1: "dirs s1 = {''.''}" and files1: "files s1 ''out'' = None" "files s1 ''.'' = None"
    using c1
    by (auto simp: convertDocument_def convertDocument_body_def convert_generic_def
        readDocument_def writeDocument_def io_defs h3 imageFormats_def toString_utf8_def
        encode_utf8_def is_ascii_def truthy_str_def test_defs doc_result_def Let_def)
  have w2: "can_write test_env ''out/back.txt'' s1"
    using dirs1 files1
    by (simp add: can_write_def mkdir_error_def write_error_def mkdir_p_def ancestors_def
        test_env_sel posix_dirname_def)
  have m: "\<not> isl (marked test_env ''# Title'')"
    by (simp add: test_env_sel)
  from th1 ok1 w2 m have ok2: "success r2" and f2: "files s2 ''out/back.txt'' = Some ''# Title''"
    by simp_all
  from th3 w3 have n3: "\<not> success r3" by simp
  have ex: "\<exists>r1 s1 r2 s2.
         convertDocument test_env ''in.txt'' ''mid.md'' ''md'' empty_options ?s = (r1, s1)
       \<and> convertDocument test_env ''mid.md'' ''out/back.txt'' ''txt'' empty_options s1 = (r2, s2)
       \<and> success r1 \<and> success r2 \<and> files s1 ''mid.md'' = Some ''# Title''
       \<and> files s2 ''out/back.txt'' = Some ''# Title''"
    using c1 c2 ok1 ok2 f1 f2 by blast
  from n3 c3 have n3': "\<not> success (fst (convertDocument test_env ''in.txt'' ''in.txt/mid.md''
      ''md'' empty_options ?s))"
    by simp
  show ?thesis
    by (intro conjI h1 h2 h3 h4 w1 ex w3 n3')
qed

section \<open>The batch driver\<close>

lemma batch_loop_conversions:
  "batch_loop E inD outD t opts fs acc s = (rep, s') \<Longrightarrow>
     conversions E inD outD t opts fs s = (rs, s'') \<Longrightarrow>
     s' = s'' \<and> br_results rep = br_results acc @ rs
     \<and> br_success rep = br_success acc + length (filter success rs)
     \<and> br_failed rep = br_failed acc + length (filter (\<lambda>r. \<not> success r) rs)"
proof (induction fs arbitrary: acc s rs)
  case Nil
  then show ?case by simp
next
  case (Cons f fs)
  obtain r s1 where c: "convertImage E (path_join E inD f) (batch_output_path E outD t f) t opts s
      = (r, s1)"
    by (cases "convertImage E (path_join E inD f) (batch_output_path E outD t f) t opts s")
  obtain rs1 s2 where cs: "conversions E inD outD t opts fs s1 = (rs1, s2)"
    by (cases "conversions E inD outD t opts fs s1")
  from Cons.prems(2) c cs have rs: "rs = r # rs1" "s'' = s2" by simp_all
  from cs rs have cs': "conversions E inD outD t opts fs s1 = (rs1, s'')" by simp
  let ?acc = "if success r
              then acc\<lparr>br_results := br_results acc @ [r], br_success := br_success acc + 1\<rparr>
              else acc\<lparr>br_results := br_results acc @ [r], br_failed := br_failed acc + 1\<rparr>"
  from Cons.prems(1) c have run: "batch_loop E inD outD t opts fs ?acc s1 = (rep, s')"
    by (simp add: batch_output_path_def Let_def)
  from Cons.IH[OF run cs'] rs show ?case
    by auto
qed

lemma conversions_paths:
  "conversions E inD outD t opts fs s = (rs, s') \<Longrightarrow>
     map output_path rs = map (batch_output_path E outD t) fs"
proof (induction fs arbitrary: s rs s')
  case Nil
  then show ?case by simp
next
  case (Cons f fs)
  obtain r s1 where c: "convertImage E (path_join E inD f) (batch_output_path E outD t f) t opts s
      = (r, s1)"
    by (cases "convertImage E (path_join E inD f) (batch_output_path E outD t f) t opts s")
  obtain rs1 s2 where cs: "conversions E inD outD t opts fs s1 = (rs1, s2)"
    by (cases "conversions E inD outD t opts fs s1")
  from Cons.prems c cs have rs: "rs = r # rs1" by simp
  have op: "output_path r = batch_output_path E outD t f"
    using convertImage_outcome[OF c] by simp
  from Cons.IH[OF cs] rs op show ?case by simp
qed

lemma filter_partition_length:
  "length (filter P xs) + length (filter (\<lambda>x. \<not> P x) xs) = length xs"
  by (induction xs) auto

text \<open>
  Claim C8. When the output directory can be created and the input directory
  can be listed, the batch driver returns a report, whatever the outcome of
  the single conversions. Its results are those of one conversion for each
  listed name with a supported image extension, in the order of the listing,
  from the file of that name in the input directory to the derived output
  path; the counters count the successful and the failed results and add up
  to the number of such names. The driver fails only when the output
  directory cannot be created or the input directory cannot be listed.
\<close>

theorem batch_counts:
  "(\<forall>s0 names s1.
       ensureDir E outputDir s = (Inr (), s0) \<and> readdir E inputDir s0 = (Inr names, s1) \<longrightarrow>
       (\<exists>rep s'. batchConvertImages E inputDir outputDir t opts s = (Inr rep, s')
           \<and> (br_results rep, s')
               = conversions E inputDir outputDir t opts (filter (is_image_file E) names) s1
           \<and> length (br_results rep) = length (filter (is_image_file E) names)
           \<and> br_success rep + br_failed rep = length (filter (is_image_file E) names)
           \<and> br_success rep = length (filter success (br_results rep))
           \<and> br_failed rep = length (filter (\<lambda>r. \<not> success r) (br_results rep))
           \<and> map output_path (br_results rep)
               = map (batch_output_path E outputDir t) (filter (is_image_file E) names)))
   \<and> (\<forall>e s0. ensureDir E outputDir s = (Inl e, s0) \<longrightarrow>
          batchConvertImages E inputDir outputDir t opts s = (Inl e, s0))
   \<and> (\<forall>s0 e s1.
          ensureDir E outputDir s = (Inr (), s0) \<and> readdir E inputDir s0 = (Inl e, s1) \<longrightarrow>
          batchConvertImages E inputDir outputDir t opts s = (Inl e, s1))"
proof (intro conjI allI impI)
  fix s0 names s1
  assume a: "ensureDir E outputDir s = (Inr (), s0) \<and> readdir E inputDir s0 = (Inr names, s1)"
  let ?fs = "filter (is_image_file E) names"
  let ?acc = "\<lparr>br_success = 0, br_failed = 0, br_results = []\<rparr>"
  obtain rep s' where run: "batch_loop E inputDir outputDir t opts ?fs ?acc s1 = (rep, s')"
    by (cases "batch_loop E inputDir outputDir t opts ?fs ?acc s1")
  obtain rs s'' where cs: "conversions E inputDir outputDir t opts ?fs s1 = (rs, s'')"
    by (cases "conversions E inputDir outputDir t opts ?fs s1")
  have b: "batchConvertImages E inputDir outputDir t opts s = (Inr rep, s')"
    using a run by (simp add: batchConvertImages_def io_bind_def Let_def)
  from batch_loop_conversions[OF run cs] have p:
    "s' = s''" "br_results rep = rs"
    "br_success rep = length (filter success rs)"
    "br_failed rep = length (filter (\<lambda>r. \<not> success r) rs)"
    by simp_all
  have paths: "map output_path rs = map (batch_output_path E outputDir t) ?fs"
    using cs by (rule conversions_paths)
  have len: "length rs = length ?fs"
    using paths by (metis length_map)
  have c1: "(br_results rep, s') = conversions E inputDir outputDir t opts ?fs s1"
    using cs p by simp
  have c2: "length (br_results rep) = length ?fs" using p len by simp
  have c3: "br_success rep + br_failed rep = length ?fs"
    using p len filter_partition_length[of success rs] by simp
  have c4: "br_success rep = length (filter success (br_results rep))" using p by simp
  have c5: "br_failed rep = length (filter (\<lambda>r. \<not> success r) (br_results rep))"
    using p by simp
  have c6: "map output_path (br_results rep) = map (batch_output_path E outputDir t) ?fs"
    using p paths by simp
  show "\<exists>rep s'. batchConvertImages E inputDir outputDir t opts s = (Inr rep, s')
           \<and> (br_results rep, s')
               = conversions E inputDir outputDir t opts (filter (is_image_file E) names) s1
           \<and> length (br_results rep) = length (filter (is_image_file E) names)
           \<and> br_success rep + br_failed rep = length (filter (is_image_file E) names)
           \<and> br_success rep = length (filter success (br_results rep))
           \<and> br_failed rep = length (filter (\<lambda>r. \<not> success r) (br_results rep))
           \<and> map output_path (br_results rep)
               = map (batch_output_path E outputDir t) (filter (is_image_file E) names)"
    by (intro exI[of _ rep] exI[of _ s'] conjI b c1 c2 c3 c4 c5 c6)
next
  fix e s0 assume "ensureDir E outputDir s = (Inl e, s0)"
  then show "batchConvertImages E inputDir outputDir t opts s = (Inl e, s0)"
    by (simp add: batchConvertImages_def io_bind_def)
next
  fix s0 e s1
  assume "ensureDir E outputDir s = (Inr (), s0) \<and> readdir E inputDir s0 = (Inl e, s1)"
  then show "batchConvertImages E inputDir outputDir t opts s = (Inl e, s1)"
    by (simp add: batchConvertImages_def io_bind_def)
qed

lemma batch_env_sel:
  "path_extname batch_env = posix_extname"
  "path_dirname batch_env = posix_dirname"
  "path_basename batch_env = posix_basename_ext"
  "path_join batch_env = (\<lambda>a b. a @ ''/'' @ b)"
  "mime_lookup batch_env = (\<lambda>p. None)"
  "dir_size batch_env = (\<lambda>p. 4096)"
  "readdir_names batch_env = (\<lambda>s p. Inr [''a.png'', ''notes.txt'', ''b.JPG''])"
  "sharp_check batch_env = (\<lambda>opr. None)"
  "sharp_encode batch_env =
        (\<lambda>inp d ops out. case inp of None \<Rightarrow> Inl ''Input file is missing''
                           | Some b \<Rightarrow> Inr b)"
  "jimp_decode batch_env = (\<lambda>inp. case inp of None \<Rightarrow> Inl ''ENOENT'' | Some b \<Rightarrow> Inr (1, 1))"
  "jimp_check batch_env = (\<lambda>opr. None)"
  "jimp_encode batch_env = (\<lambda>inp ops out. case inp of None \<Rightarrow> Inl ''ENOENT'' | Some b \<Rightarrow> Inr b)"
  by (simp_all add: batch_env_def test_env_sel)

theorem batch_counts_witness:
  "ensureDir batch_env ''out'' (test_fs [(''in/a.png'', ''abcd'')])
     = (Inr (), \<lparr>files = [''in/a.png'' \<mapsto> ''abcd''], dirs = {''out'', ''.''},
                 trace = [FsEnsureDir ''out'']\<rparr>)
   \<and> readdir batch_env ''in''
        \<lparr>files = [''in/a.png'' \<mapsto> ''abcd''], dirs = {''out'', ''.''}, trace = [FsEnsureDir ''out'']\<rparr>
     = (Inr [''a.png'', ''notes.txt'', ''b.JPG''],
        \<lparr>files = [''in/a.png'' \<mapsto> ''abcd''], dirs = {''out'', ''.''},
         trace = [FsEnsureDir ''out'', FsReaddir ''in'']\<rparr>)
   \<and> (\<exists>rep s'. batchConvertImages batch_env ''in'' ''out'' ''webp'' empty_image_options
                   (test_fs [(''in/a.png'', ''abcd'')]) = (Inr rep, s')
           \<and> map success (br_results rep) = [True, False]
           \<and> br_success rep = 1 \<and> br_failed rep = 1
           \<and> files s' ''out/a.webp'' = Some ''abcd''
           \<and> map output_path (br_results rep) = [''out/a.webp'', ''out/b.webp''])
   \<and> ensureDir batch_env ''in/a.png'' (test_fs [(''in/a.png'', ''abcd'')])
     = (Inl (''EEXIST: file already exists, mkdir '' @ quoted ''in/a.png''),
        \<lparr>files = [''in/a.png'' \<mapsto> ''abcd''], dirs = {''.''}, trace = [FsEnsureDir ''in/a.png'']\<rparr>)
   \<and> fst (batchConvertImages batch_env ''in'' ''in/a.png'' ''webp'' empty_image_options
                   (test_fs [(''in/a.png'', ''abcd'')]))
     = Inl (''EEXIST: file already exists, mkdir '' @ quoted ''in/a.png'')"
proof -
  let ?s = "test_fs [(''in/a.png'', ''abcd'')]"
  let ?sa = "\<lparr>files = [''in/a.png'' \<mapsto> ''abcd''], dirs = {''out'', ''.''},
                 trace = [FsEnsureDir ''out'']\<rparr>"
  let ?sb = "\<lparr>files = [''in/a.png'' \<mapsto> ''abcd''], dirs = {''out'', ''.''},
         trace = [FsEnsureDir ''out'', FsReaddir ''in'']\<rparr>"
  have h0: "ensureDir batch_env ''out'' ?s = (Inr (), ?sa)"
    by (simp add: io_defs batch_env_sel posix_dirname_def test_fs_def)
  have h: "readdir batch_env ''in'' ?sa = (Inr [''a.png'', ''notes.txt'', ''b.JPG''], ?sb)"
    by (simp add: readdir_def batch_env_sel log_def)
  have f: "filter (is_image_file batch_env) [''a.png'', ''notes.txt'', ''b.JPG'']
             = [''a.png'', ''b.JPG'']"
    by (simp add: is_image_file_def batch_env_sel batch_extensions_def path_defs)
  have o: "batch_output_path batch_env ''out'' ''webp'' ''a.png'' = ''out/a.webp''"
    "batch_output_path batch_env ''out'' ''webp'' ''b.JPG'' = ''out/b.webp''"
    by (simp_all add: batch_output_path_def batch_env_sel path_defs)
  have d: "detectImageFormat batch_env ''in/a.png'' = ''png''"
    "detectImageFormat batch_env ''in/b.JPG'' = ''jpeg''"
    by (simp_all add: detectImageFormat_def batch_env_sel path_defs)
  obtain rs s2 where cs: "conversions batch_env ''in'' ''out'' ''webp'' empty_image_options
             [''a.png'', ''b.JPG''] ?sb = (rs, s2)"
    by (cases "conversions batch_env ''in'' ''out'' ''webp'' empty_image_options
             [''a.png'', ''b.JPG''] ?sb")
  have c: "map success rs = [True, False] \<and> files s2 ''out/a.webp'' = Some ''abcd''"
    using cs
    by (auto simp: o convertImage_def convertImage_body_def processImage_def
        processImage_try_def sharp_transform_def sharp_finish_def sharp_call_def sharp_def
        toFile_def io_defs d batch_env_sel posix_dirname_def truthy_num_def num_or_def
        truthy_bool_def empty_image_options_def toLowerCase_def lower_char_def Let_def)
  then have ok: "map success rs = [True, False]"
    and fl: "files s2 ''out/a.webp'' = Some ''abcd''"
    by simp_all
  have e0: "ensureDir batch_env ''in/a.png'' ?s
     = (Inl (''EEXIST: file already exists, mkdir '' @ quoted ''in/a.png''),
        \<lparr>files = [''in/a.png'' \<mapsto> ''abcd''], dirs = {''.''}, trace = [FsEnsureDir ''in/a.png'']\<rparr>)"
    by (simp add: ensureDir_def mkdir_error_def log_def test_fs_def)
  note th = batch_counts[of batch_env "''out''" ?s "''in''" "''webp''" empty_image_options]
  note th' = batch_counts[of batch_env "''in/a.png''" ?s "''in''" "''webp''" empty_image_options]
  from th h0 h obtain rep s' where
    b: "batchConvertImages batch_env ''in'' ''out'' ''webp'' empty_image_options ?s = (Inr rep, s')"
    and r: "(br_results rep, s') = conversions batch_env ''in'' ''out'' ''webp''
              empty_image_options (filter (is_image_file batch_env)
                [''a.png'', ''notes.txt'', ''b.JPG'']) ?sb"
    and n: "br_success rep = length (filter success (br_results rep))"
      "br_failed rep = length (filter (\<lambda>r. \<not> success r) (br_results rep))"
    and p: "map output_path (br_results rep)
              = map (batch_output_path batch_env ''out'' ''webp'')
                  (filter (is_image_file batch_env) [''a.png'', ''notes.txt'', ''b.JPG''])"
    by blast
  from r have r': "(br_results rep, s') = conversions batch_env ''in'' ''out'' ''webp''
              empty_image_options [''a.png'', ''b.JPG''] ?sb"
    unfolding f .
  from r' cs have "(br_results rep, s') = (rs, s2)" by (rule trans)
  then have rr: "br_results rep = rs" "s' = s2" by simp_all
  from ok obtain x y where xy: "rs = [x, y]" "success x" "\<not> success y"
    by (cases rs; cases "tl rs"; cases "tl (tl rs)") auto
  have k: "map success (br_results rep) = [True, False]" using rr ok by simp
  have k1: "br_success rep = 1" using n rr xy by simp
  have k2: "br_failed rep = 1" using n rr xy by simp
  have k3: "files s' ''out/a.webp'' = Some ''abcd''" using rr fl by simp
  have k4: "map output_path (br_results rep) = [''out/a.webp'', ''out/b.webp'']"
    using p unfolding f by (simp add: o)
  have ex: "\<exists>rep s'. batchConvertImages batch_env ''in'' ''out'' ''webp'' empty_image_options
                   ?s = (Inr rep, s')
           \<and> map success (br_results rep) = [True, False]
           \<and> br_success rep = 1 \<and> br_failed rep = 1
           \<and> files s' ''out/a.webp'' = Some ''abcd''
           \<and> map output_path (br_results rep) = [''out/a.webp'', ''out/b.webp'']"
    by (intro exI[of _ rep] exI[of _ s'] conjI b k k1 k2 k3 k4)
  from th' e0 have ab: "fst (batchConvertImages batch_env ''in'' ''in/a.png'' ''webp''
      empty_image_options ?s) = Inl (''EEXIST: file already exists, mkdir '' @ quoted ''in/a.png'')"
    by simp
  show ?thesis
    by (intro conjI h0 h ex e0 ab)
qed

section \<open>What a conversion leaves on the file system\<close>

lemma io_relI: "(\<And>s r s'. m s = (r, s') \<Longrightarrow> R s s') \<Longrightarrow> io_rel R m"
  by (simp add: io_rel_def)

lemma io_relD: "io_rel R m \<Longrightarrow> m s = (r, s') \<Longrightarrow> R s s'"
  by (simp add: io_rel_def)

lemma io_rel_return: "reflp R \<Longrightarrow> io_rel R (io_return a)"
  by (auto simp: io_rel_def io_return_def reflp_def)

lemma io_rel_throw: "reflp R \<Longrightarrow> io_rel R (io_throw e)"
  by (auto simp: io_rel_def io_throw_def reflp_def)

lemma io_rel_lift: "reflp R \<Longrightarrow> io_rel R (io_lift x)"
  by (auto simp: io_rel_def io_lift_def reflp_def)

lemma io_rel_bind:
  assumes "transp R" "io_rel R m" "\<And>a. io_rel R (f a)"
  shows "io_rel R (io_bind m f)"
proof (rule io_relI)
  fix s r s' assume a: "io_bind m f s = (r, s')"
  obtain r1 s1 where m: "m s = (r1, s1)" by (cases "m s")
  have 1: "R s s1" using assms(2) m by (rule io_relD)
  show "R s s'"
  proof (cases r1)
    case (Inl e)
    with a m have "s' = s1" by (simp add: io_bind_def)
    with 1 show ?thesis by simp
  next
    case (Inr v)
    with a m have "f v s1 = (r, s')" by (simp add: io_bind_def)
    with assms(3) have "R s1 s'" by (rule io_relD)
    with 1 assms(1) show ?thesis by (meson transpE)
  qed
qed


lemma io_rel_finally:
  assumes "transp R" "io_rel R m" "io_rel R c"
  shows "io_rel R (io_finally m c)"
proof (rule io_relI)
  fix s r s' assume a: "io_finally m c s = (r, s')"
  obtain r1 s1 where m: "m s = (r1, s1)" by (cases "m s")
  obtain r2 s2 where c: "c s1 = (r2, s2)" by (cases "c s1")
  have 1: "R s s1" using assms(2) m by (rule io_relD)
  have 2: "R s1 s2" using assms(3) c by (rule io_relD)
  from a m c have "s' = s2" by (auto simp: io_finally_def split: sum.splits)
  with 1 2 assms(1) show "R s s'" by (meson transpE)
qed

lemma io_rel_when: "reflp R \<Longrightarrow> io_rel R (f x) \<Longrightarrow> io_rel R (io_when c f x)"
  by (simp add: io_when_def io_rel_return)



lemma grows_create_file: "io_rel (grows E p) (create_file E ev p c)"
  by (auto simp: io_rel_def grows_def create_file_def split: option.splits)


















lemma spawned_append: "spawned (xs @ ys) = spawned xs @ spawned ys"
  by (induction xs rule: spawned.induct) simp_all




lemma detect_txt: "detectFormat test_env ''in.txt'' = ''txt''"
  by (simp add: detectFormat_def test_defs)






section \<open>Unsupported conversions\<close>

lemma readDocument_state:
  assumes "readDocument E i f opts s = (Inr c, s1)" "files s2 = files s"
  shows "readDocument E i f opts s2 = (Inr c, log (FsReadFile i) s2)"
  using assms
  by (auto simp: readDocument_def io_bind_def io_lift_def io_return_def readFile_def Let_def
      split: option.splits sum.splits if_splits)

lemma readDocument_exists:
  assumes "readDocument E i f opts s = (Inr c, s1)"
  shows "files s i \<noteq> None"
  using assms
  by (auto simp: readDocument_def io_bind_def readFile_def split: option.splits if_splits)

lemma readDocument_keeps:
  assumes "readDocument E i f opts s = (r, s1)"
  shows "s1 = log (FsReadFile i) s"
  using assms
  by (auto simp: readDocument_def io_bind_def io_lift_def io_return_def readFile_def Let_def
      split: option.splits sum.splits if_splits)

lemma unsupported_generic:
  assumes "f \<notin> set imageFormats" "t \<notin> set writable_formats"
    and "convert_generic E i out t opts f s = (x, s')"
  shows "s' = log (FsReadFile i) s
         \<and> (\<exists>e. x = Inl e
                \<and> (\<forall>c s1. readDocument E i f opts s = (Inr c, s1) \<longrightarrow>
                       e = ''Unsupported output format: '' @ t))"
proof -
  have wr: "\<And>c. writeDocument E c out t opts = io_throw (''Unsupported output format: '' @ t)"
    using assms(2) by (simp add: writeDocument_def writable_formats_def)
  obtain r1 s1 where rd: "readDocument E i f opts s = (r1, s1)"
    by (cases "readDocument E i f opts s")
  from readDocument_keeps[OF rd] have s1: "s1 = log (FsReadFile i) s" .
  from assms(1,3) rd s1 wr show ?thesis
    by (cases r1) (auto simp: convert_generic_def io_bind_def io_throw_def)
qed

text \<open>
  Claim C1, as amended. The conversion matrix is not consulted by
  \<open>convertDocument\<close>. What is rejected is a target format that
  \<open>writeDocument\<close> has no branch for: when the source is not an image, every
  such request ends with \<open>success = False\<close> and a message that starts
  with "Conversion failed: ", and no file has been written or changed. When
  the output directory can be created and the read stage succeeds on the
  input, the message is "Conversion failed: Unsupported output format: "
  followed by the target; by then the output directory exists and the input
  has been read. When the input exists and the output directory cannot be
  created, the message is that failure and the input has not been read.
\<close>

theorem unsupported_target_rejected:
  assumes "detectFormat E i \<notin> set imageFormats"
    and "t \<notin> set writable_formats"
    and "convertDocument E i out t opts s = (r, s')"
  shows "(\<exists>e. r = doc_result False out (''Conversion failed: '' @ e))
         \<and> files s' = files s
         \<and> (\<forall>c s1. readDocument E i (detectFormat E i) opts s = (Inr c, s1)
                    \<and> mkdir_error E (path_dirname E out) s = None \<longrightarrow>
               r = doc_result False out (''Conversion failed: Unsupported output format: '' @ t)
               \<and> path_dirname E out \<in> dirs s'
               \<and> trace s' = trace s @ [FsPathExists i, FsEnsureDir (path_dirname E out),
                                       FsReadFile i])
         \<and> (\<forall>e. (files s i \<noteq> None \<or> i \<in> dirs s)
                 \<and> mkdir_error E (path_dirname E out) s = Some e \<longrightarrow>
               r = doc_result False out (''Conversion failed: '' @ e)
               \<and> dirs s' = dirs s
               \<and> trace s' = trace s @ [FsPathExists i, FsEnsureDir (path_dirname E out)])"
proof -
  let ?d = "path_dirname E out"
  let ?s0 = "log (FsPathExists i) s"
  have t: "t \<noteq> ''pdf''"
    using assms(2) by (auto simp: writable_formats_def)
  show ?thesis
  proof (cases "files s i \<noteq> None \<or> i \<in> dirs s")
    case False
    then have nf: "files s i = None" "i \<notin> dirs s" by simp_all
    from nf assms(3) have r: "r = doc_result False out
        (''Conversion failed: '' @ (''Input file does not exist: '' @ i))" "s' = ?s0"
      by (simp_all add: convertDocument_def convertDocument_body_def io_bind_def io_throw_def
          pathExists_def)
    have nr: "\<And>c s1. readDocument E i (detectFormat E i) opts s \<noteq> (Inr c, s1)"
      using nf(1) readDocument_exists by fastforce
    from r nr False show ?thesis by auto
  next
    case True
    note ex = this
    show ?thesis
    proof (cases "mkdir_error E ?d s")
      case (Some e)
      with ex assms(3) have r: "r = doc_result False out (''Conversion failed: '' @ e)"
        "s' = log (FsEnsureDir ?d) ?s0"
        by (auto simp: convertDocument_def convertDocument_body_def io_bind_def pathExists_def
            ensureDir_def Let_def)
      with Some show ?thesis by auto
    next
      case None
      let ?s1 = "log (FsEnsureDir ?d) (mkdir_p E ?d ?s0)"
      obtain x s2 where g: "convert_generic E i out t opts (detectFormat E i) ?s1 = (x, s2)"
        by (cases "convert_generic E i out t opts (detectFormat E i) ?s1")
      from unsupported_generic[OF assms(1,2) g] obtain e where
        s2: "s2 = log (FsReadFile i) ?s1" and x: "x = Inl e"
        and u: "\<forall>c s1. readDocument E i (detectFormat E i) opts ?s1 = (Inr c, s1) \<longrightarrow>
                       e = ''Unsupported output format: '' @ t"
        by blast
      from ex None t g x assms(3) have r: "r = doc_result False out (''Conversion failed: '' @ e)"
        "s' = s2"
        by (auto simp: convertDocument_def convertDocument_body_def io_bind_def pathExists_def
            ensureDir_def Let_def)
      have u': "\<And>c s1. readDocument E i (detectFormat E i) opts s = (Inr c, s1) \<Longrightarrow>
          e = ''Unsupported output format: '' @ t"
      proof -
        fix c s1 assume "readDocument E i (detectFormat E i) opts s = (Inr c, s1)"
        then have "readDocument E i (detectFormat E i) opts ?s1 = (Inr c, log (FsReadFile i) ?s1)"
          by (rule readDocument_state) simp
        with u show "e = ''Unsupported output format: '' @ t" by blast
      qed
      have c1: "\<exists>e. r = doc_result False out (''Conversion failed: '' @ e)"
        using r by blast
      have c2: "files s' = files s" using r s2 by simp
      have c3: "\<forall>c s1. readDocument E i (detectFormat E i) opts s = (Inr c, s1)
                    \<and> mkdir_error E ?d s = None \<longrightarrow>
               r = doc_result False out (''Conversion failed: Unsupported output format: '' @ t)
               \<and> ?d \<in> dirs s'
               \<and> trace s' = trace s @ [FsPathExists i, FsEnsureDir ?d, FsReadFile i]"
        using r s2 u' by (auto simp: ancestors_self)
      have c4: "\<forall>e. (files s i \<noteq> None \<or> i \<in> dirs s) \<and> mkdir_error E ?d s = Some e \<longrightarrow>
               r = doc_result False out (''Conversion failed: '' @ e)
               \<and> dirs s' = dirs s
               \<and> trace s' = trace s @ [FsPathExists i, FsEnsureDir ?d]"
        using None by simp
      show ?thesis by (intro conjI c1 c2 c3 c4)
    qed
  qed
qed

theorem unsupported_target_rejected_witness:
  "detectFormat test_env ''in.txt'' \<notin> set imageFormats
   \<and> ''xyz'' \<notin> set writable_formats
   \<and> readDocument test_env ''in.txt'' (detectFormat test_env ''in.txt'') empty_options
       (test_fs [(''in.txt'', ''hi'')])
     = (Inr \<lparr>c_text = ''hi'', c_html = None, c_metadata = None\<rparr>,
        log (FsReadFile ''in.txt'') (test_fs [(''in.txt'', ''hi'')]))
   \<and> mkdir_error test_env (path_dirname test_env ''out/b.xyz'') (test_fs [(''in.txt'', ''hi'')])
     = None
   \<and> fst (convertDocument test_env ''in.txt'' ''out/b.xyz'' ''xyz'' empty_options
         (test_fs [(''in.txt'', ''hi'')]))
       = doc_result False ''out/b.xyz'' ''Conversion failed: Unsupported output format: xyz''
   \<and> files (snd (convertDocument test_env ''in.txt'' ''out/b.xyz'' ''xyz'' empty_options
         (test_fs [(''in.txt'', ''hi'')]))) = [''in.txt'' \<mapsto> ''hi'']
   \<and> trace (snd (convertDocument test_env ''in.txt'' ''out/b.xyz'' ''xyz'' empty_options
         (test_fs [(''in.txt'', ''hi'')])))
       = [FsPathExists ''in.txt'', FsEnsureDir ''out'', FsReadFile ''in.txt'']
   \<and> ''out'' \<in> dirs (snd (convertDocument test_env ''in.txt'' ''out/b.xyz'' ''xyz''
         empty_options (test_fs [(''in.txt'', ''hi'')])))
   \<and> mkdir_error test_env (path_dirname test_env ''in.txt/b.xyz'')
         (test_fs [(''in.txt'', ''hi'')])
     = Some (''EEXIST: file already exists, mkdir '' @ quoted ''in.txt'')
   \<and> fst (convertDocument test_env ''in.txt'' ''in.txt/b.xyz'' ''xyz'' empty_options
         (test_fs [(''in.txt'', ''hi'')]))
       = doc_result False ''in.txt/b.xyz''
           (''Conversion failed: EEXIST: file already exists, mkdir '' @ quoted ''in.txt'')
   \<and> trace (snd (convertDocument test_env ''in.txt'' ''in.txt/b.xyz'' ''xyz'' empty_options
         (test_fs [(''in.txt'', ''hi'')])))
       = [FsPathExists ''in.txt'', FsEnsureDir ''in.txt'']"
proof -
  let ?s = "test_fs [(''in.txt'', ''hi'')]"
  obtain r1 s1 where run1: "convertDocument test_env ''in.txt'' ''out/b.xyz'' ''xyz''
      empty_options ?s = (r1, s1)"
    by (cases "convertDocument test_env ''in.txt'' ''out/b.xyz'' ''xyz'' empty_options ?s")
  obtain r2 s2 where run2: "convertDocument test_env ''in.txt'' ''in.txt/b.xyz'' ''xyz''
      empty_options ?s = (r2, s2)"
    by (cases "convertDocument test_env ''in.txt'' ''in.txt/b.xyz'' ''xyz'' empty_options ?s")
  have h1: "readDocument test_env ''in.txt'' (detectFormat test_env ''in.txt'') empty_options ?s
     = (Inr \<lparr>c_text = ''hi'', c_html = None, c_metadata = None\<rparr>,
        log (FsReadFile ''in.txt'') ?s)"
    by (simp add: detect_txt readDocument_def io_return_def io_bind_def readFile_def
        toString_utf8_def is_ascii_def test_fs_def)
  have h2: "detectFormat test_env ''in.txt'' \<notin> set imageFormats"
    by (simp add: detect_txt imageFormats_def)
  have h3: "''xyz'' \<notin> set writable_formats"
    by (simp add: writable_formats_def)
  have d: "path_dirname test_env ''out/b.xyz'' = ''out''"
    "path_dirname test_env ''in.txt/b.xyz'' = ''in.txt''"
    by (simp_all add: test_defs)
  have m1: "mkdir_error test_env (path_dirname test_env ''out/b.xyz'') ?s = None"
    by (simp add: d mkdir_error_def ancestors_def test_env_sel posix_dirname_def test_fs_def)
  have m2: "mkdir_error test_env (path_dirname test_env ''in.txt/b.xyz'') ?s
     = Some (''EEXIST: file already exists, mkdir '' @ quoted ''in.txt'')"
    by (simp add: d mkdir_error_def test_fs_def)
  have ex: "files ?s ''in.txt'' \<noteq> None \<or> ''in.txt'' \<in> dirs ?s"
    by (simp add: test_fs_def)
  note t1 = unsupported_target_rejected[OF h2 h3 run1]
  note t2 = unsupported_target_rejected[OF h2 h3 run2]
  from t1 h1 m1 have a0:
    "r1 = doc_result False ''out/b.xyz''
            (''Conversion failed: Unsupported output format: '' @ ''xyz'')
     \<and> path_dirname test_env ''out/b.xyz'' \<in> dirs s1
     \<and> trace s1 = trace ?s @ [FsPathExists ''in.txt'',
                              FsEnsureDir (path_dirname test_env ''out/b.xyz''),
                              FsReadFile ''in.txt'']"
    by blast
  from t1 have a1: "files s1 = files ?s" by blast
  from a0 a1 have a: "r1 = doc_result False ''out/b.xyz''
        ''Conversion failed: Unsupported output format: xyz''"
    "files s1 = files ?s" "path_dirname test_env ''out/b.xyz'' \<in> dirs s1"
    "trace s1 = trace ?s @ [FsPathExists ''in.txt'',
                            FsEnsureDir (path_dirname test_env ''out/b.xyz''),
                            FsReadFile ''in.txt'']"
    by simp_all
  from t2 ex m2 have b0:
    "r2 = doc_result False ''in.txt/b.xyz''
           (''Conversion failed: ''
              @ (''EEXIST: file already exists, mkdir '' @ quoted ''in.txt''))
     \<and> dirs s2 = dirs ?s
     \<and> trace s2 = trace ?s @ [FsPathExists ''in.txt'',
                              FsEnsureDir (path_dirname test_env ''in.txt/b.xyz'')]"
    by blast
  then have b: "r2 = doc_result False ''in.txt/b.xyz''
           (''Conversion failed: '' @ (''EEXIST: file already exists, mkdir '' @ quoted ''in.txt''))"
    "trace s2 = trace ?s @ [FsPathExists ''in.txt'',
                            FsEnsureDir (path_dirname test_env ''in.txt/b.xyz'')]"
    by simp_all
  have c1: "fst (convertDocument test_env ''in.txt'' ''out/b.xyz'' ''xyz'' empty_options ?s)
       = doc_result False ''out/b.xyz'' ''Conversion failed: Unsupported output format: xyz''"
    using run1 a(1) by simp
  have c2: "files (snd (convertDocument test_env ''in.txt'' ''out/b.xyz'' ''xyz'' empty_options
         ?s)) = [''in.txt'' \<mapsto> ''hi'']"
    using run1 a(2) by (simp add: test_fs_def)
  have c3: "trace (snd (convertDocument test_env ''in.txt'' ''out/b.xyz'' ''xyz'' empty_options
         ?s)) = [FsPathExists ''in.txt'', FsEnsureDir ''out'', FsReadFile ''in.txt'']"
    using run1 a(4) by (simp add: d test_fs_def)
  have c4: "''out'' \<in> dirs (snd (convertDocument test_env ''in.txt'' ''out/b.xyz'' ''xyz''
         empty_options ?s))"
    using run1 a(3) by (simp add: d)
  have c5: "fst (convertDocument test_env ''in.txt'' ''in.txt/b.xyz'' ''xyz'' empty_options ?s)
       = doc_result False ''in.txt/b.xyz''
           (''Conversion failed: EEXIST: file already exists, mkdir '' @ quoted ''in.txt'')"
    using run2 b(1) by simp
  have c6: "trace (snd (convertDocument test_env ''in.txt'' ''in.txt/b.xyz'' ''xyz''
         empty_options ?s)) = [FsPathExists ''in.txt'', FsEnsureDir ''in.txt'']"
    using run2 b(2) by (simp add: d test_fs_def)
  show ?thesis
    by (intro conjI h2 h3 h1 m1 c1 c2 c3 c4 m2 c5 c6)
qed

text \<open>
  Claim C1 as stated fails: txt to txt is not a pair of the conversion matrix,
  yet the request succeeds and writes the output file.
\<close>

theorem matrix_gate_counterexample:
  "\<not> in_matrix ''txt'' ''txt''
   \<and> detectFormat test_env ''in.txt'' = ''txt''
   \<and> convertDocument test_env ''in.txt'' ''out/b.txt'' ''txt'' empty_options
         (test_fs [(''in.txt'', ''hi'')])
       = (doc_result True ''out/b.txt'' ''Successfully converted txt to txt'',
          \<lparr>files = [''in.txt'' \<mapsto> ''hi'', ''out/b.txt'' \<mapsto> ''hi''], dirs = {''out'', ''.''},
           trace = [FsPathExists ''in.txt'', FsEnsureDir ''out'', FsReadFile ''in.txt'',
                    FsWriteFile ''out/b.txt'']\<rparr>)"
proof -
  have m: "\<not> in_matrix ''txt'' ''txt''"
    by (simp add: in_matrix_def conversion_matrix_def)
  have d: "path_dirname test_env ''out/b.txt'' = ''out''"
    by (simp add: test_defs)
  have r: "convertDocument test_env ''in.txt'' ''out/b.txt'' ''txt'' empty_options
         (test_fs [(''in.txt'', ''hi'')])
       = (doc_result True ''out/b.txt'' ''Successfully converted txt to txt'',
          \<lparr>files = [''in.txt'' \<mapsto> ''hi'', ''out/b.txt'' \<mapsto> ''hi''], dirs = {''out'', ''.''},
           trace = [FsPathExists ''in.txt'', FsEnsureDir ''out'', FsReadFile ''in.txt'',
                    FsWriteFile ''out/b.txt'']\<rparr>)"
    by (simp add: convertDocument_def convertDocument_body_def convert_generic_def
        readDocument_def writeDocument_def io_defs detect_txt d imageFormats_def
        toString_utf8_def encode_utf8_def is_ascii_def test_env_sel posix_dirname_def
        test_fs_def doc_result_def Let_def insert_commute)
  from m detect_txt r show ?thesis by simp
qed

section \<open>Fallback to the secondary codec\<close>

lemma unchanged_refl: "reflp unchanged"
  by (simp add: reflp_def unchanged_def)

lemma unchanged_trans: "transp unchanged"
  by (simp add: transp_def unchanged_def)

lemma unchanged_sharp_call: "io_rel unchanged (sharp_call E opr pl)"
  by (auto simp: io_rel_def unchanged_def sharp_call_def io_return_def io_throw_def
      split: option.splits)

lemmas unchanged_intros = io_rel_return[OF unchanged_refl] io_rel_throw[OF unchanged_refl]
  io_rel_bind[OF unchanged_trans] io_rel_when[OF unchanged_refl] unchanged_sharp_call

lemma unchanged_sharp_transform: "io_rel unchanged (sharp_transform E i opts)"
  unfolding sharp_transform_def sharp_effects_def
  by (auto intro!: unchanged_intros split: option.splits)

lemma sharp_transform_state: "sharp_transform E i opts s = (r, s') \<Longrightarrow> s' = s"
  using io_relD[OF unchanged_sharp_transform] by (simp add: unchanged_def)










section \<open>The order of the transform chain\<close>

lemma adds_refl: "adds P pl pl"
  unfolding adds_def by (rule exI[of _ "[]"]) simp

lemma adds_trans: "adds P a b \<Longrightarrow> adds P b c \<Longrightarrow> adds P a c"
  unfolding adds_def
proof -
  assume "\<exists>es. list_all P es \<and> b = a\<lparr>sp_ops := sp_ops a @ es\<rparr>"
    and "\<exists>es. list_all P es \<and> c = b\<lparr>sp_ops := sp_ops b @ es\<rparr>"
  then obtain e1 e2 where 1: "list_all P e1" "b = a\<lparr>sp_ops := sp_ops a @ e1\<rparr>"
    and 2: "list_all P e2" "c = b\<lparr>sp_ops := sp_ops b @ e2\<rparr>" by blast
  show "\<exists>es. list_all P es \<and> c = a\<lparr>sp_ops := sp_ops a @ es\<rparr>"
    by (rule exI[of _ "e1 @ e2"]) (simp add: 1 2)
qed

lemma sharp_call_ok:
  assumes "sharp_call E opr pl s = (Inr pl', s')"
  shows "s' = s \<and> pl' = pl\<lparr>sp_ops := sp_ops pl @ [opr]\<rparr>"
  using assms
  by (auto simp: sharp_call_def io_return_def io_throw_def split: option.splits)

lemma when_call_adds:
  assumes "io_when c (sharp_call E opr) pl s = (Inr pl', s')" "P opr"
  shows "s' = s \<and> adds P pl pl'"
proof (cases c)
  case True
  with assms(1) have "sharp_call E opr pl s = (Inr pl', s')" by (simp add: io_when_def)
  from sharp_call_ok[OF this] assms(2) show ?thesis
    unfolding adds_def by (intro conjI exI[of _ "[opr]"]) simp_all
next
  case False
  with assms(1) show ?thesis by (simp add: io_when_def io_return_def adds_refl)
qed

lemma io_bind_Inr:
  assumes "io_bind m f s = (Inr x, s')"
  obtains a s1 where "m s = (Inr a, s1)" "f a s1 = (Inr x, s')"
  using assms by (auto simp: io_bind_def split: prod.splits sum.splits)

lemma sharp_effects_adds:
  assumes "sharp_effects E eff pl s = (Inr pl', s')"
  shows "s' = s \<and> adds is_effect pl pl'"
proof -
  from assms obtain p1 s1 p2 s2 p3 s3 p4 s4 where
    1: "io_when (truthy_num (blur eff)) (sharp_call E (Blur (the (blur eff)))) pl s = (Inr p1, s1)"
    and 2: "io_when (truthy_num (sharpen eff)) (sharp_call E (Sharpen (the (sharpen eff)))) p1 s1
              = (Inr p2, s2)"
    and 3: "io_when (brightness eff \<noteq> None \<or> contrast eff \<noteq> None
                       \<or> saturation eff \<noteq> None \<or> hue eff \<noteq> None)
                (sharp_call E
                   (Modulate
                      (if truthy_num (brightness eff) then Some (1 + the (brightness eff))
                       else None)
                      (if truthy_num (saturation eff) then Some (1 + the (saturation eff))
                       else None)
                      (hue eff))) p2 s2 = (Inr p3, s3)"
    and 4: "io_when (truthy_bool (grayscale eff)) (sharp_call E Grayscale) p3 s3 = (Inr p4, s4)"
    and 5: "io_when (truthy_bool (invert eff)) (sharp_call E Negate) p4 s4 = (Inr pl', s')"
    unfolding sharp_effects_def by (elim io_bind_Inr) blast
  note a = when_call_adds[OF 1] when_call_adds[OF 2] when_call_adds[OF 3]
    when_call_adds[OF 4] when_call_adds[OF 5]
  have "s' = s" using a by simp
  moreover have "adds is_effect pl pl'"
    using a by (meson adds_trans is_effect.simps)
  ultimately show ?thesis by simp
qed


lemma sharp_transform_ops:
  assumes "sharp_transform E i opts s = (Inr pl, s')"
  shows "s' = s \<and> (\<exists>es. list_all is_effect es
           \<and> pl = \<lparr>sp_input = i, sp_density = None, sp_ops = resize_ops opts @ es\<rparr>)"
proof -
  from assms obtain p1 s1 where
    1: "io_when (truthy_num (width opts) \<or> truthy_num (height opts))
          (sharp_call E (Resize (width opts) (height opts)
                           (str_or (fit opts) ''inside'') (resize_background opts)))
          (sharp i None) s = (Inr p1, s1)"
    and 2: "(case effects opts of None \<Rightarrow> io_return p1
             | Some eff \<Rightarrow> sharp_effects E eff p1) s1 = (Inr pl, s')"
    unfolding sharp_transform_def by (erule io_bind_Inr)
  have r: "s1 = s \<and> p1 = \<lparr>sp_input = i, sp_density = None, sp_ops = resize_ops opts\<rparr>"
    using 1
    by (auto simp: io_when_def io_return_def sharp_def resize_ops_def dest!: sharp_call_ok
        split: if_splits)
  have e: "s' = s1 \<and> adds is_effect p1 pl"
  proof (cases "effects opts")
    case None
    with 2 show ?thesis by (simp add: io_return_def adds_refl)
  next
    case (Some eff)
    with 2 show ?thesis by (simp add: sharp_effects_adds)
  qed
  from r e show ?thesis by (auto simp: adds_def)
qed

lemma sharp_finish_ops:
  assumes "sharp_finish E pl out opts s = (Inr x, s')"
  shows "\<exists>ws b. list_all is_composite ws \<and> length ws \<le> 1
           \<and> (\<forall>wm. watermark opts = Some wm \<and> truthy_str (wm_text wm) \<longrightarrow>
                  (\<exists>c. ws = [Composite c (getWatermarkGravity
                                               (str_or (wm_position wm) ''bottom-right''))]))
           \<and> sharp_encode E (files s (sp_input pl)) (sp_density pl) (sp_ops pl @ ws) out = Inr b
           \<and> x = Saved
           \<and> s' = log (SharpToFile (sp_input pl) out) (s\<lparr>files := (files s)(out \<mapsto> b)\<rparr>)"
proof -
  from assms obtain p1 s1 where
    1: "(case watermark opts of None \<Rightarrow> io_return pl
         | Some wm \<Rightarrow> addWatermark E pl wm) s = (Inr p1, s1)"
    and 2: "io_bind (toFile E p1 out) (\<lambda>u. io_return Saved) s1 = (Inr x, s')"
    unfolding sharp_finish_def by (erule io_bind_Inr)
  have w: "s1 = s \<and> (\<exists>ws. list_all is_composite ws \<and> length ws \<le> 1
           \<and> (\<forall>wm. watermark opts = Some wm \<and> truthy_str (wm_text wm) \<longrightarrow>
                  (\<exists>c. ws = [Composite c (getWatermarkGravity
                                               (str_or (wm_position wm) ''bottom-right''))]))
           \<and> p1 = pl\<lparr>sp_ops := sp_ops pl @ ws\<rparr>)"
  proof (cases "watermark opts")
    case None
    with 1 show ?thesis by (auto simp: io_return_def intro!: exI[of _ "[]"])
  next
    case (Some wm)
    with 1 have a: "addWatermark E pl wm s = (Inr p1, s1)" by simp
    have one: "\<And>c g. sharp_call E (Composite c g) pl s = (Inr p1, s1) \<Longrightarrow>
        (truthy_str (wm_text wm) \<longrightarrow>
           g = getWatermarkGravity (str_or (wm_position wm) ''bottom-right'')) \<Longrightarrow>
        s1 = s \<and> (\<exists>ws. list_all is_composite ws \<and> length ws \<le> 1
           \<and> (\<forall>wm. watermark opts = Some wm \<and> truthy_str (wm_text wm) \<longrightarrow>
                  (\<exists>c. ws = [Composite c (getWatermarkGravity
                                               (str_or (wm_position wm) ''bottom-right''))]))
           \<and> p1 = pl\<lparr>sp_ops := sp_ops pl @ ws\<rparr>)"
    proof -
      fix c g assume c: "sharp_call E (Composite c g) pl s = (Inr p1, s1)"
        and g: "truthy_str (wm_text wm) \<longrightarrow>
           g = getWatermarkGravity (str_or (wm_position wm) ''bottom-right'')"
      from sharp_call_ok[OF c] have e: "s1 = s" "p1 = pl\<lparr>sp_ops := sp_ops pl @ [Composite c g]\<rparr>"
        by simp_all
      show "s1 = s \<and> (\<exists>ws. list_all is_composite ws \<and> length ws \<le> 1
           \<and> (\<forall>wm. watermark opts = Some wm \<and> truthy_str (wm_text wm) \<longrightarrow>
                  (\<exists>c. ws = [Composite c (getWatermarkGravity
                                               (str_or (wm_position wm) ''bottom-right''))]))
           \<and> p1 = pl\<lparr>sp_ops := sp_ops pl @ ws\<rparr>)"
        using e g Some by (intro conjI exI[of _ "[Composite c g]"]) auto
    qed
    show ?thesis
    proof (cases "truthy_str (wm_text wm)")
      case True
      with a have "sharp_call E
          (Composite (TextSvg (num_or (wm_fontSize wm) 24)
                        (str_or (wm_color wm) ''rgba(255, 255, 255, 0.8)'')
                        (num_or (wm_opacity wm) (8 / 10)) (the (wm_text wm)))
             (getWatermarkGravity (str_or (wm_position wm) ''bottom-right''))) pl s
          = (Inr p1, s1)"
        by (simp add: addWatermark_def Let_def)
      then show ?thesis by (rule one) simp
    next
      case False
      note nt = this
      show ?thesis
      proof (cases "truthy_str (wm_image wm)")
        case True
        with a nt have "sharp_call E
            (Composite (ImageFile (the (wm_image wm)))
               (getWatermarkGravity (str_or (wm_position wm) ''bottom-right''))) pl s
            = (Inr p1, s1)"
          by (simp add: addWatermark_def Let_def)
        then show ?thesis by (rule one) (simp add: nt)
      next
        case False
        with a Some nt show ?thesis
          by (auto simp: addWatermark_def io_return_def intro!: exI[of _ "[]"])
      qed
    qed
  qed
  then obtain ws where ws: "s1 = s" "list_all is_composite ws" "length ws \<le> 1"
    "\<forall>wm. watermark opts = Some wm \<and> truthy_str (wm_text wm) \<longrightarrow>
        (\<exists>c. ws = [Composite c (getWatermarkGravity
                                     (str_or (wm_position wm) ''bottom-right''))])"
    "p1 = pl\<lparr>sp_ops := sp_ops pl @ ws\<rparr>" by blast
  from 2 ws(1,5) obtain b where
    "sharp_encode E (files s (sp_input pl)) (sp_density pl) (sp_ops pl @ ws) out = Inr b"
    "x = Saved"
    "s' = log (SharpToFile (sp_input pl) out) (s\<lparr>files := (files s)(out \<mapsto> b)\<rparr>)"
    by (auto simp: io_bind_def io_return_def toFile_def create_file_def log_def
        split: sum.splits option.splits)
  with ws show ?thesis by blast
qed

lemma processImage_try_format:
  assumes "processImage_try E i out t opts s = (Inr Saved, s')"
  shows "\<exists>pl f. sharp_transform E i opts s = (Inr pl, s) \<and> is_format f
           \<and> sharp_finish E (pl\<lparr>sp_ops := sp_ops pl @ [f]\<rparr>) out opts s = (Inr Saved, s')"
proof -
  from assms obtain pl s1 where tr: "sharp_transform E i opts s = (Inr pl, s1)"
    and rest: "(let t' = toLowerCase t
          in if t' = ''jpeg'' \<or> t' = ''jpg'' then
               io_bind (sharp_call E (Jpeg (num_or (quality opts) 80)
                                        (truthy_bool (progressive opts))) pl)
                 (\<lambda>pipeline. sharp_finish E pipeline out opts)
             else if t' = ''png'' then
               io_bind (sharp_call E (Png (num_or (quality opts) 80)
                                        (truthy_bool (progressive opts))) pl)
                 (\<lambda>pipeline. sharp_finish E pipeline out opts)
             else if t' = ''webp'' then
               io_bind (sharp_call E (Webp (num_or (quality opts) 80)
                                        (truthy_bool (lossless opts))
                                        (num_or (effort opts) 4)) pl)
                 (\<lambda>pipeline. sharp_finish E pipeline out opts)
             else if t' = ''avif'' then
               io_bind (sharp_call E (Avif (num_or (quality opts) 80)
                                        (truthy_bool (lossless opts))
                                        (num_or (effort opts) 4)) pl)
                 (\<lambda>pipeline. sharp_finish E pipeline out opts)
             else if t' = ''tiff'' then
               io_bind (sharp_call E (Tiff (num_or (quality opts) 80)) pl)
                 (\<lambda>pipeline. sharp_finish E pipeline out opts)
             else if t' = ''gif'' then io_return ReturnJimp
             else if t' = ''bmp'' then io_return ReturnJimp
             else if t' = ''pdf'' then io_return ReturnPdf
             else io_throw (''Unsupported output format: '' @ t)) s1 = (Inr Saved, s')"
    unfolding processImage_try_def by (erule io_bind_Inr)
  have s1: "s1 = s" using tr by (rule sharp_transform_state)
  let ?G = ?thesis
  have step: "\<And>f. is_format f \<Longrightarrow>
      io_bind (sharp_call E f pl) (\<lambda>pipeline. sharp_finish E pipeline out opts) s
        = (Inr Saved, s') \<Longrightarrow> ?G"
  proof -
    fix f assume f: "is_format f"
      and b: "io_bind (sharp_call E f pl) (\<lambda>pipeline. sharp_finish E pipeline out opts) s
        = (Inr Saved, s')"
    from b obtain p1 s2 where c: "sharp_call E f pl s = (Inr p1, s2)"
      and fin: "sharp_finish E p1 out opts s2 = (Inr Saved, s')"
      by (erule io_bind_Inr)
    from sharp_call_ok[OF c] fin tr s1 f show ?G by auto
  qed
  from rest s1 have "\<exists>f. is_format f \<and>
      io_bind (sharp_call E f pl) (\<lambda>pipeline. sharp_finish E pipeline out opts) s
        = (Inr Saved, s')"
    by (simp add: Let_def io_return_def io_throw_def split: if_splits)
      (metis is_format.simps)+
  then show ?thesis using step by blast
qed


text \<open>
  Claim C6. Whenever the primary pipeline saves a file, it encodes once, in
  \<open>toFile\<close>, a pipeline whose calls were made in this order: the resize (when
  asked for), then the effects, then the call recording the output format's
  options, then the watermark composite (at most one, present whenever a text
  watermark is asked for, with the gravity of the requested position). So the
  resize precedes the composite, and nothing follows the composite but the
  encoding. The secondary and the SVG pipelines composite no watermark.
\<close>

theorem resize_before_watermark:
  assumes "processImage_try E i out t opts s = (Inr Saved, s')"
  shows "\<exists>es f ws b. list_all is_effect es \<and> is_format f
           \<and> list_all is_composite ws \<and> length ws \<le> 1
           \<and> (\<forall>wm. watermark opts = Some wm \<and> truthy_str (wm_text wm) \<longrightarrow>
                  (\<exists>c. ws = [Composite c (getWatermarkGravity
                                               (str_or (wm_position wm) ''bottom-right''))]))
           \<and> sharp_encode E (files s i) None (resize_ops opts @ es @ [f] @ ws) out = Inr b
           \<and> s' = log (SharpToFile i out) (s\<lparr>files := (files s)(out \<mapsto> b)\<rparr>)"
proof -
  from processImage_try_format[OF assms] obtain pl f where
    tr: "sharp_transform E i opts s = (Inr pl, s)" and f: "is_format f"
    and fin: "sharp_finish E (pl\<lparr>sp_ops := sp_ops pl @ [f]\<rparr>) out opts s = (Inr Saved, s')"
    by blast
  from sharp_transform_ops[OF tr] obtain es where es: "list_all is_effect es"
    "pl = \<lparr>sp_input = i, sp_density = None, sp_ops = resize_ops opts @ es\<rparr>" by blast
  from sharp_finish_ops[OF fin] obtain ws b where ws: "list_all is_composite ws" "length ws \<le> 1"
    "\<forall>wm. watermark opts = Some wm \<and> truthy_str (wm_text wm) \<longrightarrow>
        (\<exists>c. ws = [Composite c (getWatermarkGravity
                                     (str_or (wm_position wm) ''bottom-right''))])"
    "sharp_encode E (files s (sp_input (pl\<lparr>sp_ops := sp_ops pl @ [f]\<rparr>)))
       (sp_density (pl\<lparr>sp_ops := sp_ops pl @ [f]\<rparr>))
       (sp_ops (pl\<lparr>sp_ops := sp_ops pl @ [f]\<rparr>) @ ws) out = Inr b"
    "s' = log (SharpToFile (sp_input (pl\<lparr>sp_ops := sp_ops pl @ [f]\<rparr>)) out)
            (s\<lparr>files := (files s)(out \<mapsto> b)\<rparr>)"
    by blast
  from ws(4,5) es(2) have
    "sharp_encode E (files s i) None (resize_ops opts @ es @ [f] @ ws) out = Inr b"
    "s' = log (SharpToFile i out) (s\<lparr>files := (files s)(out \<mapsto> b)\<rparr>)"
    by simp_all
  with es(1) f ws(1,2,3) show ?thesis by blast
qed

theorem resize_before_watermark_witness:
  "processImage_try test_env ''a.png'' ''a.jpg'' ''jpg'' marked_options
       (test_fs [(''a.png'', ''abcd'')])
     = (Inr Saved,
        log (SharpToFile ''a.png'' ''a.jpg'')
          ((test_fs [(''a.png'', ''abcd'')])
             \<lparr>files := (files (test_fs [(''a.png'', ''abcd'')]))(''a.jpg'' \<mapsto> ''abcd'')\<rparr>))
   \<and> resize_ops marked_options = [Resize (Some 100) (Some 100) ''cover'' (BgRGBA 255 255 255 1)]
   \<and> (\<exists>es f ws b. list_all is_effect es \<and> is_format f
           \<and> list_all is_composite ws \<and> length ws \<le> 1
           \<and> (\<exists>c. ws = [Composite c ''southeast''])
           \<and> sharp_encode test_env (files (test_fs [(''a.png'', ''abcd'')]) ''a.png'') None
                 (resize_ops marked_options @ es @ [f] @ ws) ''a.jpg'' = Inr b)"
proof -
  have run: "processImage_try test_env ''a.png'' ''a.jpg'' ''jpg'' marked_options
       (test_fs [(''a.png'', ''abcd'')])
     = (Inr Saved,
        log (SharpToFile ''a.png'' ''a.jpg'')
          ((test_fs [(''a.png'', ''abcd'')])
             \<lparr>files := (files (test_fs [(''a.png'', ''abcd'')]))(''a.jpg'' \<mapsto> ''abcd'')\<rparr>))"
    by (simp add: processImage_try_def sharp_transform_def sharp_effects_def sharp_finish_def
        addWatermark_def getWatermarkGravity_def sharp_call_def sharp_def toFile_def io_defs
        test_env_sel posix_dirname_def test_fs_def truthy_num_def truthy_str_def
        truthy_bool_def num_or_def str_or_def marked_options_def toLowerCase_def
        lower_char_def Let_def)
  have r: "resize_ops marked_options
             = [Resize (Some 100) (Some 100) ''cover'' (BgRGBA 255 255 255 1)]"
    by (simp add: resize_ops_def marked_options_def truthy_num_def truthy_str_def str_or_def
        resize_background_def)
  have w: "watermark marked_options
             = Some \<lparr>wm_text = Some ''draft'', wm_image = None,
                      wm_position = Some ''bottom-right'', wm_opacity = None,
                      wm_fontSize = None, wm_color = None\<rparr>"
    by (simp add: marked_options_def)
  have g: "getWatermarkGravity (str_or (Some ''bottom-right'') ''bottom-right'') = ''southeast''"
    by (simp add: getWatermarkGravity_def str_or_def)
  from resize_before_watermark[OF run] obtain es f ws b where a:
    "list_all is_effect es" "is_format f" "list_all is_composite ws" "length ws \<le> 1"
    "\<forall>wm. watermark marked_options = Some wm \<and> truthy_str (wm_text wm) \<longrightarrow>
        (\<exists>c. ws = [Composite c (getWatermarkGravity
                                     (str_or (wm_position wm) ''bottom-right''))])"
    "sharp_encode test_env (files (test_fs [(''a.png'', ''abcd'')]) ''a.png'') None
                 (resize_ops marked_options @ es @ [f] @ ws) ''a.jpg'' = Inr b"
    by blast
  have c: "\<exists>c. ws = [Composite c ''southeast'']"
    using a(5) w g by (simp add: truthy_str_def)
  have "list_all is_effect es \<and> is_format f
           \<and> list_all is_composite ws \<and> length ws \<le> 1
           \<and> (\<exists>c. ws = [Composite c ''southeast''])
           \<and> sharp_encode test_env (files (test_fs [(''a.png'', ''abcd'')]) ''a.png'') None
                 (resize_ops marked_options @ es @ [f] @ ws) ''a.jpg'' = Inr b"
    by (intro conjI a(1,2,3,4,6) c)
  then have ex: "\<exists>es f ws b. list_all is_effect es \<and> is_format f
           \<and> list_all is_composite ws \<and> length ws \<le> 1
           \<and> (\<exists>c. ws = [Composite c ''southeast''])
           \<and> sharp_encode test_env (files (test_fs [(''a.png'', ''abcd'')]) ''a.png'') None
                 (resize_ops marked_options @ es @ [f] @ ws) ''a.jpg'' = Inr b"
    by (intro exI)
  show ?thesis by (intro conjI run r ex)
qed

section \<open>The DOCX to PDF strategy chain\<close>

lemma output_nonempty_eq:
  "output_nonempty E out s =
     (Inr (exists_nonempty E out s),
      if files s out \<noteq> None \<or> out \<in> dirs s
      then log (FsStat out) (log (FsPathExists out) s) else log (FsPathExists out) s)"
  by (auto simp: output_nonempty_def exists_nonempty_def io_bind_def io_return_def
      pathExists_def stat_size_def log_def split: option.splits)

lemma output_nonempty_trace:
  "\<exists>evs. trace (snd (output_nonempty E out s)) = trace s @ evs \<and> spawned evs = []"
  by (auto simp: output_nonempty_eq log_def)

lemma spawn_trace: "trace (snd (spawn E cmd args s)) = trace s @ [SpawnProc cmd args]"
  by (simp add: spawn_def split: prod.splits)

lemma wordcom_fst:
  "fst (convertDocxToPdfViaWordCom E i out s) = Inr (wordcom_succeeded E i out s)"
proof (cases "platform E = ''win32''")
  case False
  then show ?thesis
    by (simp add: convertDocxToPdfViaWordCom_def wordcom_succeeded_def io_return_def)
next
  case True
  let ?pre = "path_join E (tmpdir E) ''docx2pdf-''"
  let ?vbs = "path_join E (mkdtemp_name E s ?pre) ''docx2pdf.vbs''"
  obtain x1 s1 where m: "mkdtemp E ?pre s = (x1, s1)" by (cases "mkdtemp E ?pre s")
  show ?thesis
  proof (cases x1)
    case (Inl e)
    with True m show ?thesis
      by (simp add: convertDocxToPdfViaWordCom_def wordcom_succeeded_def wordcom_prepared_def
          io_catch_def io_bind_def io_return_def)
  next
    case (Inr d)
    with m have d: "d = mkdtemp_name E s ?pre"
      by (auto simp: mkdtemp_def Let_def split: if_splits)
    obtain x2 s2 where w: "writeFile E ?vbs (encode_utf8 E vbs_script) s1 = (x2, s2)"
      by (cases "writeFile E ?vbs (encode_utf8 E vbs_script) s1")
    show ?thesis
    proof (cases x2)
      case (Inl e)
      with True m Inr d w show ?thesis
        by (simp add: convertDocxToPdfViaWordCom_def wordcom_succeeded_def wordcom_prepared_def
            wordcom_script_def io_catch_def io_bind_def io_return_def Let_def)
    next
      case r2: (Inr u)
      obtain x sb where sp: "spawn E ''cscript'' [''//nologo'', ?vbs, i, out] s2 = (x, sb)"
        by (cases "spawn E ''cscript'' [''//nologo'', ?vbs, i, out] s2")
      from True m Inr d w r2 sp show ?thesis
        by (cases x)
           (simp_all add: convertDocxToPdfViaWordCom_def wordcom_succeeded_def
              wordcom_prepared_def wordcom_script_def wordcom_run_def strategy_succeeded_def
              io_catch_def io_bind_def io_return_def word_run_def output_nonempty_eq Let_def)
    qed
  qed
qed


lemma wordcom_trace:
  "\<exists>evs. trace (snd (convertDocxToPdfViaWordCom E i out s)) = trace s @ evs
         \<and> spawned evs \<in> {[], [''cscript'']}
         \<and> (platform E \<noteq> ''win32'' \<longrightarrow> spawned evs = [])"
proof (cases "platform E = ''win32''")
  case False
  then show ?thesis
    by (simp add: convertDocxToPdfViaWordCom_def io_return_def)
next
  case True
  then show ?thesis
    by (auto simp: convertDocxToPdfViaWordCom_def io_catch_def io_bind_def io_return_def
        mkdtemp_def writeFile_def create_file_def word_run_def spawn_def output_nonempty_eq
        Let_def
        split: prod.splits proc_exit.splits option.splits)
qed

lemma python_fst:
  "fst (convertDocxToPdfViaPython E i out s) = Inr (python_succeeded E i out s)"
proof -
  obtain x sb where r: "python_run E i out s = (x, sb)" by (cases "python_run E i out s")
  obtain y sc where q: "py_run E i out s = (y, sc)" by (cases "py_run E i out s")
  from r have r': "spawn E ''python'' [python_script E, i, out] (log (FsPathExists (python_script E)) s)
      = (x, sb)"
    by (simp add: python_run_def pathExists_def)
  from q r have q': "spawn E ''py'' [''-3'', python_script E, i, out] sb = (y, sc)"
    by (simp add: py_run_def)
  show ?thesis
    using r q r' q'
    by (cases x; cases y)
       (auto simp: convertDocxToPdfViaPython_def python_succeeded_def strategy_succeeded_def
          io_catch_def io_bind_def io_return_def run_ok_def pathExists_def
          output_nonempty_eq Let_def python_script_def[symmetric])
qed

lemma python_trace:
  "\<exists>evs. trace (snd (convertDocxToPdfViaPython E i out s)) = trace s @ evs
         \<and> spawned evs \<in> {[], [''python''], [''python'', ''py'']}"
  by (auto simp: convertDocxToPdfViaPython_def io_catch_def io_bind_def io_return_def run_ok_def
      pathExists_def spawn_def output_nonempty_eq log_def Let_def
      split: prod.splits proc_exit.splits)

lemma quiet_refl: "reflp quiet"
  by (simp add: reflp_def quiet_def)

lemma quiet_trans: "transp quiet"
  unfolding transp_def quiet_def
proof (intro allI impI)
  fix x y z
  assume "\<exists>evs. trace y = trace x @ evs \<and> spawned evs = []"
    and "\<exists>evs. trace z = trace y @ evs \<and> spawned evs = []"
  then obtain e1 e2 where "trace y = trace x @ e1" "spawned e1 = []"
    "trace z = trace y @ e2" "spawned e2 = []" by blast
  then have "trace z = trace x @ (e1 @ e2) \<and> spawned (e1 @ e2) = []"
    by (simp add: spawned_append)
  then show "\<exists>evs. trace z = trace x @ evs \<and> spawned evs = []" by blast
qed

lemma quiet_prims:
  "io_rel quiet (pathExists q)"
  "io_rel quiet (ensureDir E d)"
  "io_rel quiet (stat_size E q)"
  "io_rel quiet (readFile q)"
  "io_rel quiet (writeFile E p c)"
  "io_rel quiet (page_pdf E h call)"
  "io_rel quiet browser_close"
  "io_rel quiet (newPage E)"
  by (auto simp: io_rel_def quiet_def pathExists_def ensureDir_def stat_size_def readFile_def
      writeFile_def create_file_def page_pdf_def browser_close_def newPage_def io_return_def
      io_throw_def
      split: option.splits sum.splits if_splits)

lemma quiet_with_browser:
  assumes "io_rel quiet body"
  shows "io_rel quiet (with_browser E body)"
proof (rule io_relI)
  fix s r s' assume a: "with_browser E body s = (r, s')"
  show "quiet s s'"
  proof (cases "browser_launch E")
    case (Some e)
    with a show ?thesis by (auto simp: with_browser_def quiet_def)
  next
    case None
    with a have f: "io_finally body browser_close (log BrowserLaunch s) = (r, s')"
      by (simp add: with_browser_def)
    have "quiet (log BrowserLaunch s) s'"
      using io_rel_finally[OF quiet_trans assms quiet_prims(7)] f by (rule io_relD)
    then show ?thesis by (auto simp: quiet_def)
  qed
qed

lemmas quiet_intros = io_rel_return[OF quiet_refl] io_rel_throw[OF quiet_refl]
  io_rel_lift[OF quiet_refl] io_rel_bind[OF quiet_trans] quiet_prims quiet_with_browser

lemma quiet_readDocument: "io_rel quiet (readDocument E q f opts)"
  unfolding readDocument_def by (auto intro!: quiet_intros simp: Let_def)

lemma quiet_convertToPdf: "io_rel quiet (convertToPdf E c p opts)"
  unfolding convertToPdf_def by (auto intro!: quiet_intros simp: Let_def)

lemma quiet_writeDocument: "io_rel quiet (writeDocument E c p f opts)"
  unfolding writeDocument_def convertToDocx_def
  by (auto intro!: quiet_intros quiet_convertToPdf simp: Let_def)

lemma convert_generic_docx_pdf:
  "convert_generic E i out ''pdf'' opts ''docx''
     = io_bind (readDocument E i ''docx'' opts)
         (\<lambda>c. io_bind (convertToPdf E c out opts)
                (\<lambda>u. io_return (doc_result True out ''Successfully converted docx to pdf'')))"
  by (simp add: convert_generic_def docx_not_image writeDocument_def)

lemma quiet_generic_docx: "io_rel quiet (convert_generic E i out ''pdf'' opts ''docx'')"
  unfolding convert_generic_docx_pdf
  by (auto intro!: quiet_intros quiet_readDocument quiet_convertToPdf)


text \<open>
  Claim C2. For a request from a file detected as docx to pdf whose input
  exists and whose output directory can be created: first the Word automation
  strategy runs, and it reports success
  exactly when the platform is Windows, cscript exits with code 0 and the
  output exists with nonzero size; then the result is the success through
  Word. Otherwise the Python helper runs, and it reports success exactly when
  the script exists and python, or after a failure of python the launcher py,
  exits with code 0 and leaves the output with nonzero size; then the result is
  the success through the script. Otherwise the request continues with the
  generic pipeline: the document is read and rendered to PDF from HTML. In
  every case the child processes spawned are, in this order and each at most
  once, cscript (on Windows only), python, py.
\<close>

theorem docx_pdf_strategy_chain:
  assumes "files s i \<noteq> None \<or> i \<in> dirs s" and "detectFormat E i = ''docx''"
    and "mkdir_error E (path_dirname E out) s = None"
  shows "let s1 = snd (ensureDir E (path_dirname E out) (snd (pathExists i s)));
             w = wordcom_succeeded E i out s1;
             s2 = snd (convertDocxToPdfViaWordCom E i out s1);
             p = python_succeeded E i out s2;
             s3 = snd (convertDocxToPdfViaPython E i out s2)
         in convertDocxToPdfViaWordCom E i out s1 = (Inr w, s2)
            \<and> (w \<longrightarrow> convertDocument E i out ''pdf'' opts s
                       = (doc_result True out
                            ''Successfully converted docx to pdf via Microsoft Word (COM)'', s2))
            \<and> (\<not> w \<longrightarrow>
                  convertDocxToPdfViaPython E i out s2 = (Inr p, s3)
                  \<and> (p \<longrightarrow> convertDocument E i out ''pdf'' opts s
                             = (doc_result True out
                                  ''Successfully converted docx to pdf via DocumentAssistant script'',
                                s3))
                  \<and> (\<not> p \<longrightarrow> convertDocument_body E i out ''pdf'' opts s
                             = io_bind (readDocument E i ''docx'' opts)
                                 (\<lambda>c. io_bind (convertToPdf E c out opts)
                                    (\<lambda>u. io_return (doc_result True out
                                            ''Successfully converted docx to pdf''))) s3))
            \<and> (\<exists>evs. trace (snd (convertDocument E i out ''pdf'' opts s)) = trace s @ evs
                   \<and> spawned evs \<in> set strategy_orders
                   \<and> (platform E \<noteq> ''win32'' \<longrightarrow> ''cscript'' \<notin> set (spawned evs)))"
proof -
  define s1 where "s1 = snd (ensureDir E (path_dirname E out) (snd (pathExists i s)))"
  define w where "w = wordcom_succeeded E i out s1"
  define s2 where "s2 = snd (convertDocxToPdfViaWordCom E i out s1)"
  define p where "p = python_succeeded E i out s2"
  define s3 where "s3 = snd (convertDocxToPdfViaPython E i out s2)"
  have W: "convertDocxToPdfViaWordCom E i out s1 = (Inr w, s2)"
    using wordcom_fst[of E i out s1] by (simp add: w_def s2_def prod_eq_iff)
  have P: "convertDocxToPdfViaPython E i out s2 = (Inr p, s3)"
    using python_fst[of E i out s2] by (simp add: p_def s3_def prod_eq_iff)
  have body: "convertDocument_body E i out ''pdf'' opts s
      = (if w then (Inr (doc_result True out
                      ''Successfully converted docx to pdf via Microsoft Word (COM)''), s2)
         else if p then (Inr (doc_result True out
                      ''Successfully converted docx to pdf via DocumentAssistant script''), s3)
         else convert_generic E i out ''pdf'' opts ''docx'' s3)"
    using assms W P
    by (simp add: convertDocument_body_def io_bind_def io_return_def pathExists_def
        ensureDir_def s1_def Let_def)
  have t1: "trace s1 = trace s @ [FsPathExists i, FsEnsureDir (path_dirname E out)]"
    using assms(3) by (simp add: s1_def pathExists_def ensureDir_def)
  from wordcom_trace[of E i out s1] obtain e2 where
    t2: "trace s2 = trace s1 @ e2"
        "spawned e2 \<in> {[], [''cscript'']} \<and> (platform E \<noteq> ''win32'' \<longrightarrow> spawned e2 = [])"
    unfolding s2_def by blast
  from python_trace[of E i out s2] obtain e3 where
    t3: "trace s3 = trace s2 @ e3" "spawned e3 \<in> {[], [''python''], [''python'', ''py'']}"
    unfolding s3_def by blast
  obtain r s' where run: "convertDocument E i out ''pdf'' opts s = (r, s')"
    by (cases "convertDocument E i out ''pdf'' opts s")
  have tr: "\<exists>evs. trace s' = trace s @ evs \<and> spawned evs \<in> set strategy_orders
              \<and> (platform E \<noteq> ''win32'' \<longrightarrow> ''cscript'' \<notin> set (spawned evs))"
  proof (cases w)
    case True
    with run body have "s' = s2" by (simp add: convertDocument_def)
    with t1 t2 have "trace s' = trace s @ ([FsPathExists i, FsEnsureDir (path_dirname E out)] @ e2)"
      by simp
    moreover have "spawned ([FsPathExists i, FsEnsureDir (path_dirname E out)] @ e2)
        \<in> set strategy_orders"
      using t2(2) by (auto simp: strategy_orders_def)
    moreover have "platform E \<noteq> ''win32'' \<longrightarrow>
        ''cscript'' \<notin> set (spawned ([FsPathExists i, FsEnsureDir (path_dirname E out)] @ e2))"
      using t2(2) by auto
    ultimately show ?thesis by blast
  next
    case False
    note nw = this
    have "\<exists>e4. trace s' = trace s3 @ e4 \<and> spawned e4 = []"
    proof (cases p)
      case True
      with nw run body have "s' = s3" by (simp add: convertDocument_def)
      then show ?thesis by simp
    next
      case False
      obtain rg sg where g: "convert_generic E i out ''pdf'' opts ''docx'' s3 = (rg, sg)"
        by (cases "convert_generic E i out ''pdf'' opts ''docx'' s3")
      with False nw run body have "s' = sg"
        by (auto simp: convertDocument_def split: sum.splits)
      with io_relD[OF quiet_generic_docx g] show ?thesis by (simp add: quiet_def)
    qed
    then obtain e4 where t4: "trace s' = trace s3 @ e4" "spawned e4 = []" by blast
    let ?evs = "[FsPathExists i, FsEnsureDir (path_dirname E out)] @ e2 @ e3 @ e4"
    have a: "trace s' = trace s @ ?evs" using t1 t2(1) t3(1) t4(1) by simp
    have b: "spawned ?evs = spawned e2 @ spawned e3"
      using t4(2) by (simp add: spawned_append)
    have c: "spawned ?evs \<in> set strategy_orders"
      unfolding b using t2(2) t3(2) by (auto simp: strategy_orders_def)
    have d: "platform E \<noteq> ''win32'' \<longrightarrow> ''cscript'' \<notin> set (spawned ?evs)"
      unfolding b using t2(2) t3(2) by auto
    from a c d show ?thesis by blast
  qed
  have part1: "w \<longrightarrow> convertDocument E i out ''pdf'' opts s
                       = (doc_result True out
                            ''Successfully converted docx to pdf via Microsoft Word (COM)'', s2)"
    using body by (simp add: convertDocument_def)
  have part2: "\<not> w \<longrightarrow>
                  convertDocxToPdfViaPython E i out s2 = (Inr p, s3)
                  \<and> (p \<longrightarrow> convertDocument E i out ''pdf'' opts s
                             = (doc_result True out
                                  ''Successfully converted docx to pdf via DocumentAssistant script'',
                                s3))
                  \<and> (\<not> p \<longrightarrow> convertDocument_body E i out ''pdf'' opts s
                             = io_bind (readDocument E i ''docx'' opts)
                                 (\<lambda>c. io_bind (convertToPdf E c out opts)
                                    (\<lambda>u. io_return (doc_result True out
                                            ''Successfully converted docx to pdf''))) s3)"
    using body P by (simp add: convertDocument_def convert_generic_docx_pdf)
  from tr run have part3: "\<exists>evs. trace (snd (convertDocument E i out ''pdf'' opts s)) = trace s @ evs
                   \<and> spawned evs \<in> set strategy_orders
                   \<and> (platform E \<noteq> ''win32'' \<longrightarrow> ''cscript'' \<notin> set (spawned evs))"
    by simp
  show ?thesis
    unfolding Let_def s1_def[symmetric] w_def[symmetric] s2_def[symmetric] p_def[symmetric]
      s3_def[symmetric]
    by (intro conjI W part1 part2 part3)
qed

lemma helper_env_sel:
  "platform helper_env = ''linux''"
  "cwd helper_env = ''/app''"
  "path_extname helper_env = posix_extname"
  "path_dirname helper_env = posix_dirname"
  "path_join helper_env = (\<lambda>a b. a @ ''/'' @ b)"
  "mime_lookup helper_env = (\<lambda>p. None)"
  "dir_size helper_env = (\<lambda>p. 4096)"
  "run_process helper_env =
     (\<lambda>cmd args s.
         if cmd = ''python''
         then (Closed 0, s\<lparr>files := (files s)(last args \<mapsto> ''%PDF-1.7'')\<rparr>)
         else (SpawnError, s))"
  by (simp_all add: helper_env_def test_env_sel)

theorem docx_pdf_strategy_chain_witness:
  "files helper_fs ''a.docx'' = Some ''PK''
   \<and> detectFormat helper_env ''a.docx'' = ''docx''
   \<and> mkdir_error helper_env (path_dirname helper_env ''out/a.pdf'') helper_fs = None
   \<and> \<not> wordcom_succeeded helper_env ''a.docx'' ''out/a.pdf''
         (snd (ensureDir helper_env (path_dirname helper_env ''out/a.pdf'')
                 (snd (pathExists ''a.docx'' helper_fs))))
   \<and> python_succeeded helper_env ''a.docx'' ''out/a.pdf''
         (snd (convertDocxToPdfViaWordCom helper_env ''a.docx'' ''out/a.pdf''
                 (snd (ensureDir helper_env (path_dirname helper_env ''out/a.pdf'')
                         (snd (pathExists ''a.docx'' helper_fs))))))
   \<and> fst (convertDocument helper_env ''a.docx'' ''out/a.pdf'' ''pdf'' empty_options helper_fs)
       = doc_result True ''out/a.pdf''
           ''Successfully converted docx to pdf via DocumentAssistant script''"
proof -
  let ?s1 = "snd (ensureDir helper_env (path_dirname helper_env ''out/a.pdf'')
                 (snd (pathExists ''a.docx'' helper_fs)))"
  let ?s2 = "snd (convertDocxToPdfViaWordCom helper_env ''a.docx'' ''out/a.pdf'' ?s1)"
  have h1: "files helper_fs ''a.docx'' \<noteq> None \<or> ''a.docx'' \<in> dirs helper_fs"
    by (simp add: helper_fs_def test_fs_def)
  have h2: "detectFormat helper_env ''a.docx'' = ''docx''"
    by (simp add: detectFormat_def helper_env_sel path_defs)
  have h3: "mkdir_error helper_env (path_dirname helper_env ''out/a.pdf'') helper_fs = None"
    by (simp add: mkdir_error_def ancestors_def helper_env_sel posix_dirname_def helper_fs_def
        test_fs_def)
  have nw: "\<not> wordcom_succeeded helper_env ''a.docx'' ''out/a.pdf'' ?s1"
    by (simp add: wordcom_succeeded_def helper_env_sel)
  have s2: "?s2 = ?s1"
    by (simp add: convertDocxToPdfViaWordCom_def helper_env_sel io_return_def)
  have sc: "python_script helper_env = ''/app/DocumentAssistant/docx_to_pdf_converter.py''"
    by (simp add: python_script_def helper_env_sel)
  have p: "python_succeeded helper_env ''a.docx'' ''out/a.pdf'' ?s2"
    unfolding s2
    by (simp add: python_succeeded_def strategy_succeeded_def exists_nonempty_def python_run_def
        sc spawn_def helper_env_sel pathExists_def ensureDir_def mkdir_error_def mkdir_p_def
        ancestors_def log_def helper_fs_def test_fs_def posix_dirname_def)
  from docx_pdf_strategy_chain[OF h1 h2 h3, of empty_options] nw p
  have "fst (convertDocument helper_env ''a.docx'' ''out/a.pdf'' ''pdf'' empty_options helper_fs)
       = doc_result True ''out/a.pdf''
           ''Successfully converted docx to pdf via DocumentAssistant script''"
    by (simp add: Let_def)
  moreover have "files helper_fs ''a.docx'' = Some ''PK''"
    by (simp add: helper_fs_def test_fs_def)
  ultimately show ?thesis using h2 h3 nw p by (intro conjI)
qed

end
